(* ===== verification/Portal_Prelude.thy ===== *)
theory Portal_Prelude
  imports Main
begin

text \<open>
  Shared vocabulary of the portal model: the JavaScript character classes and string
  operations the sources use (\<open>\s\<close>, \<open>\d\<close>, \<open>String.prototype.trim\<close>,
  \<open>Number.prototype.toString\<close>), the array idioms of the React state updates
  (\<open>find\<close>, \<open>map\<close> with a conditional merge, \<open>filter\<close> by id), and the lemmas on them
  that the component theories share. Strings are Isabelle strings (lists of 8-bit
  characters); the character classes are the ASCII members of the JavaScript classes.
\<close>

named_theorems portal_defs "definitions of the portal model unfolded by component proofs"

subsection \<open>Character classes and string operations\<close>

text \<open>JavaScript \<open>\s\<close> restricted to ASCII: space, tab, line feed, vertical tab, form feed,
  carriage return.\<close>

definition is_js_space :: "char \<Rightarrow> bool" where
  "is_js_space c \<longleftrightarrow> c \<in> set [CHR '' '', CHR 0x09, CHR 0x0A, CHR 0x0B, CHR 0x0C, CHR 0x0D]"

text \<open>JavaScript \<open>\d\<close>: exactly the ASCII digits.\<close>

definition is_js_digit :: "char \<Rightarrow> bool" where
  "is_js_digit c \<longleftrightarrow> 48 \<le> (of_char c :: nat) \<and> (of_char c :: nat) \<le> 57"

text \<open>\<open>s.trim()\<close>: leading and trailing white space removed.\<close>

definition js_trim :: "string \<Rightarrow> string" where
  "js_trim s = rev (dropWhile is_js_space (rev (dropWhile is_js_space s)))"

text \<open>\<open>n.toString()\<close> for a non-negative integer, as \<open>Date.now().toString()\<close> produces it.\<close>

definition digit_char :: "nat \<Rightarrow> char" where
  "digit_char n = char_of (48 + n)"

fun string_of_nat :: "nat \<Rightarrow> string" where
  "string_of_nat n = (if n < 10 then [digit_char n] else string_of_nat (n div 10) @ [digit_char (n mod 10)])"

declare string_of_nat.simps [simp del]

text \<open>A JavaScript number as the program produces it: the integers of the mock data and of
  \<open>parseInt\<close>, or \<open>NaN\<close>, which \<open>parseInt\<close> returns for text without a leading digit.\<close>

datatype js_number = JNum int | JNaN

text \<open>\<open>parseInt(s)\<close> with the radix left out, on decimal text: leading white space
  skipped, an optional sign, then the longest run of digits; \<open>NaN\<close> when that run is
  empty. The \<open>0x\<close> prefix (hexadecimal) and the rounding of more than 15 significant
  digits are not modelled: the one call, on the value of a \<open>type="number"\<close> input,
  never sees the first, and orders never reach the second.\<close>

definition digits_val :: "string \<Rightarrow> nat" where
  "digits_val ds = foldl (\<lambda>n c. 10 * n + (of_char c - 48)) 0 ds"

definition js_parseInt :: "string \<Rightarrow> js_number" where
  "js_parseInt s = (let t = dropWhile is_js_space s;
       (neg, r) = (case t of c # r \<Rightarrow> if c = CHR ''-'' then (True, r)
                                      else if c = CHR ''+'' then (False, r) else (False, t)
                   | [] \<Rightarrow> (False, t));
       ds = takeWhile is_js_digit r
     in if ds = [] then JNaN else JNum ((if neg then -1 else 1) * int (digits_val ds)))"

subsection \<open>Array idioms of the state updates\<close>

text \<open>\<open>xs.map(x => p(x) ? f(x) : x)\<close>: the update of every element a predicate selects.\<close>

definition update_where :: "('a \<Rightarrow> bool) \<Rightarrow> ('a \<Rightarrow> 'a) \<Rightarrow> 'a list \<Rightarrow> 'a list" where
  "update_where p f xs = map (\<lambda>x. if p x then f x else x) xs"

text \<open>\<open>xs.filter(x => !p(x))\<close>: removal of every element a predicate selects.\<close>

definition remove_where :: "('a \<Rightarrow> bool) \<Rightarrow> 'a list \<Rightarrow> 'a list" where
  "remove_where p xs = filter (\<lambda>x. \<not> p x) xs"

text \<open>\<open>{...a, ...b}\<close> for one optional field of a \<open>Partial\<close> patch: the patch wins when present.\<close>

definition patch_field :: "'a \<Rightarrow> 'a option \<Rightarrow> 'a" where
  "patch_field x p = (case p of None \<Rightarrow> x | Some y \<Rightarrow> y)"

subsection \<open>Shared lemmas\<close>

lemma all_set_dropWhile: "(\<forall>x \<in> set (dropWhile P xs). P x) \<longleftrightarrow> (\<forall>x \<in> set xs. P x)"
  by (induction xs) auto

lemma js_trim_Nil_iff [simp]: "js_trim s = [] \<longleftrightarrow> list_all is_js_space s"
  by (simp add: js_trim_def list_all_iff all_set_dropWhile)

lemma is_js_digit_not_space [simp]: "is_js_digit c \<Longrightarrow> \<not> is_js_space c"
  by (auto simp: is_js_digit_def is_js_space_def)

lemma digit_char_is_digit [simp]: "n < 10 \<Longrightarrow> is_js_digit (digit_char n)"
  by (simp add: is_js_digit_def digit_char_def)

lemma string_of_nat_digits: "list_all is_js_digit (string_of_nat n)"
proof (induction n rule: string_of_nat.induct)
  case (1 n)
  then show ?case by (subst string_of_nat.simps) simp
qed

lemma string_of_nat_Nil [simp]: "string_of_nat n \<noteq> []"
  by (subst string_of_nat.simps) simp

lemma update_where_length [simp]: "length (update_where p f xs) = length xs"
  by (simp add: update_where_def)

lemma map_update_where:
  "(\<And>x. p x \<Longrightarrow> g (f x) = g x) \<Longrightarrow> map g (update_where p f xs) = map g xs"
  by (induction xs) (auto simp: update_where_def)

lemma update_where_self:
  assumes "distinct (map key xs)" "x \<in> set xs" "f x = x"
  shows "update_where (\<lambda>y. key y = key x) f xs = xs"
proof -
  have "\<And>y. y \<in> set xs \<Longrightarrow> key y = key x \<Longrightarrow> y = x"
    using assms(1,2) by (metis distinct_map inj_onD)
  with assms(3) show ?thesis unfolding update_where_def by (intro map_idI) auto
qed

lemma set_remove_where [simp]: "set (remove_where p xs) = {x \<in> set xs. \<not> p x}"
  by (auto simp: remove_where_def)

lemma distinct_map_remove_where:
  "distinct (map g xs) \<Longrightarrow> distinct (map g (remove_where p xs))"
  by (induction xs) (auto simp: remove_where_def)

text \<open>\<open>xs.find(x => key(x) === k)\<close> on a list whose keys are distinct finds exactly the
  element with that key.\<close>

lemma find_key_Some:
  "distinct (map key xs) \<Longrightarrow> find (\<lambda>x. key x = k) xs = Some x \<longleftrightarrow> x \<in> set xs \<and> key x = k"
  by (induction xs) (auto simp: rev_image_eqI)

lemma find_key_None: "find (\<lambda>x. key x = k) xs = None \<longleftrightarrow> k \<notin> key ` set xs"
  by (auto simp: find_None_iff)

lemma digits_val_snoc [simp]: "digits_val (ds @ [c]) = 10 * digits_val ds + (of_char c - 48)"
  by (simp add: digits_val_def)

lemma of_char_digit_char [simp]: "n < 10 \<Longrightarrow> of_char (digit_char n) = 48 + n"
  by (simp add: digit_char_def)

lemma digits_val_string_of_nat: "digits_val (string_of_nat n) = n"
proof (induction n rule: string_of_nat.induct)
  case (1 n)
  then show ?case by (subst string_of_nat.simps) (auto simp: digits_val_def)
qed

lemma takeWhile_all [simp]: "list_all P xs \<Longrightarrow> takeWhile P xs = xs"
  by (induction xs) auto

lemma dropWhile_digits [simp]: "list_all is_js_digit xs \<Longrightarrow> dropWhile is_js_space xs = xs"
  by (cases xs) auto

text \<open>\<open>parseInt\<close> reads back what \<open>toString\<close> prints.\<close>

lemma js_parseInt_string_of_nat: "js_parseInt (string_of_nat n) = JNum (int n)"
proof -
  have d: "list_all is_js_digit (string_of_nat n)" by (rule string_of_nat_digits)
  obtain c r where cr: "string_of_nat n = c # r" by (cases "string_of_nat n") auto
  have "is_js_digit c" using d cr by simp
  then have "c \<noteq> CHR ''-''" "c \<noteq> CHR ''+''" by (auto simp: is_js_digit_def)
  with d cr have "js_parseInt (string_of_nat n) = JNum (int (digits_val (string_of_nat n)))"
    by (simp add: js_parseInt_def)
  then show ?thesis by (simp add: digits_val_string_of_nat)
qed

lemma js_parseInt_Nil [simp]: "js_parseInt [] = JNaN"
  by (simp add: js_parseInt_def)

lemma patch_field_simps [simp]:
  "patch_field x None = x" "patch_field x (Some y) = y"
  by (simp_all add: patch_field_def)

end
