(* ===== verification/Auth_Types.thy ===== *)
theory Auth_Types
  imports Portal_Prelude
begin

text \<open>
  The data model of \<open>src/src/types/auth.ts\<close>: one record per interface, the role union
  as a datatype, and for every interface that the context updates with a
  \<open>Partial<...>\<close> argument a patch record of optional fields with its merge, the model of
  the object spread \<open>{ ...x, ...patch }\<close>. Field names follow the interfaces; the
  reference-data records prefix their fields (\<open>min_\<close>, \<open>dep_\<close>, \<open>pos_\<close>, \<open>adr_\<close>,
  \<open>res_\<close>) because record fields share one name space. \<open>Resource.order\<close> is a
  \<open>js_number\<close> (Portal_Prelude).
\<close>

datatype role = RoleAdmin | RoleUser


record user =
  user_id :: string
  domain :: string
  firstName :: string
  lastName :: string
  middleName :: string
  ministry :: string
  department :: string
  position :: string
  address :: string
  officeNumber :: string
  phoneNumber :: string
  internalPhone :: string
  email :: string
  role :: role
  isFirstLogin :: bool

record ministry =
  min_id :: string
  min_name :: string
  min_code :: string

record department =
  dep_id :: string
  dep_name :: string
  dep_ministryId :: string
  dep_code :: string

record position =
  pos_id :: string
  pos_name :: string
  pos_code :: string

record address =
  adr_id :: string
  adr_street :: string
  adr_building :: string
  adr_city :: string
  adr_postalCode :: string

record resource =
  res_id :: string
  res_title :: string
  res_description :: string
  res_url :: string
  res_icon :: string
  res_order :: js_number
  res_isActive :: bool

record auth_state =
  user :: "user option"
  isAuthenticated :: bool
  isLoading :: bool

subsection \<open>Partial updates\<close>

text \<open>\<open>Partial<User>\<close>: every field optional; \<open>merge_user u p\<close> is \<open>{ ...u, ...p }\<close>.\<close>

record user_patch =
  up_id :: "string option"
  up_domain :: "string option"
  up_firstName :: "string option"
  up_lastName :: "string option"
  up_middleName :: "string option"
  up_ministry :: "string option"
  up_department :: "string option"
  up_position :: "string option"
  up_address :: "string option"
  up_officeNumber :: "string option"
  up_phoneNumber :: "string option"
  up_internalPhone :: "string option"
  up_email :: "string option"
  up_role :: "role option"
  up_isFirstLogin :: "bool option"

definition merge_user :: "user \<Rightarrow> user_patch \<Rightarrow> user" where
  "merge_user u p = u\<lparr>
     user_id := patch_field (user_id u) (up_id p),
     domain := patch_field (domain u) (up_domain p),
     firstName := patch_field (firstName u) (up_firstName p),
     lastName := patch_field (lastName u) (up_lastName p),
     middleName := patch_field (middleName u) (up_middleName p),
     ministry := patch_field (ministry u) (up_ministry p),
     department := patch_field (department u) (up_department p),
     position := patch_field (position u) (up_position p),
     address := patch_field (address u) (up_address p),
     officeNumber := patch_field (officeNumber u) (up_officeNumber p),
     phoneNumber := patch_field (phoneNumber u) (up_phoneNumber p),
     internalPhone := patch_field (internalPhone u) (up_internalPhone p),
     email := patch_field (email u) (up_email p),
     role := patch_field (role u) (up_role p),
     isFirstLogin := patch_field (isFirstLogin u) (up_isFirstLogin p)\<rparr>"

record ministry_patch =
  mp_id :: "string option"
  mp_name :: "string option"
  mp_code :: "string option"

definition merge_ministry :: "ministry \<Rightarrow> ministry_patch \<Rightarrow> ministry" where
  "merge_ministry m p = m\<lparr>min_id := patch_field (min_id m) (mp_id p),
     min_name := patch_field (min_name m) (mp_name p), min_code := patch_field (min_code m) (mp_code p)\<rparr>"

record department_patch =
  dp_id :: "string option"
  dp_name :: "string option"
  dp_ministryId :: "string option"
  dp_code :: "string option"

definition merge_department :: "department \<Rightarrow> department_patch \<Rightarrow> department" where
  "merge_department d p = d\<lparr>dep_id := patch_field (dep_id d) (dp_id p),
     dep_name := patch_field (dep_name d) (dp_name p),
     dep_ministryId := patch_field (dep_ministryId d) (dp_ministryId p),
     dep_code := patch_field (dep_code d) (dp_code p)\<rparr>"

record position_patch =
  pp_id :: "string option"
  pp_name :: "string option"
  pp_code :: "string option"

definition merge_position :: "position \<Rightarrow> position_patch \<Rightarrow> position" where
  "merge_position q p = q\<lparr>pos_id := patch_field (pos_id q) (pp_id p),
     pos_name := patch_field (pos_name q) (pp_name p), pos_code := patch_field (pos_code q) (pp_code p)\<rparr>"

record address_patch =
  ap_id :: "string option"
  ap_street :: "string option"
  ap_building :: "string option"
  ap_city :: "string option"
  ap_postalCode :: "string option"

definition merge_address :: "address \<Rightarrow> address_patch \<Rightarrow> address" where
  "merge_address a p = a\<lparr>adr_id := patch_field (adr_id a) (ap_id p),
     adr_street := patch_field (adr_street a) (ap_street p),
     adr_building := patch_field (adr_building a) (ap_building p),
     adr_city := patch_field (adr_city a) (ap_city p),
     adr_postalCode := patch_field (adr_postalCode a) (ap_postalCode p)\<rparr>"

record resource_patch =
  rp_id :: "string option"
  rp_title :: "string option"
  rp_description :: "string option"
  rp_url :: "string option"
  rp_icon :: "string option"
  rp_order :: "js_number option"
  rp_isActive :: "bool option"

definition merge_resource :: "resource \<Rightarrow> resource_patch \<Rightarrow> resource" where
  "merge_resource r p = r\<lparr>res_id := patch_field (res_id r) (rp_id p),
     res_title := patch_field (res_title r) (rp_title p),
     res_description := patch_field (res_description r) (rp_description p),
     res_url := patch_field (res_url r) (rp_url p),
     res_icon := patch_field (res_icon r) (rp_icon p),
     res_order := patch_field (res_order r) (rp_order p),
     res_isActive := patch_field (res_isActive r) (rp_isActive p)\<rparr>"

declare merge_user_def [portal_defs] merge_ministry_def [portal_defs]
  merge_department_def [portal_defs] merge_position_def [portal_defs]
  merge_address_def [portal_defs] merge_resource_def [portal_defs]

subsection \<open>Lemmas on the merges\<close>

text \<open>A patch that leaves the id out (or repeats it) keeps the id: the fact the
  uniqueness of identifiers under \<open>update*\<close> rests on.\<close>

lemma merge_ids [simp]:
  "user_id (merge_user u p) = patch_field (user_id u) (up_id p)"
  "isFirstLogin (merge_user u p) = patch_field (isFirstLogin u) (up_isFirstLogin p)"
  "min_id (merge_ministry m mp) = patch_field (min_id m) (mp_id mp)"
  "dep_id (merge_department d dp) = patch_field (dep_id d) (dp_id dp)"
  "pos_id (merge_position q pp) = patch_field (pos_id q) (pp_id pp)"
  "adr_id (merge_address a ap) = patch_field (adr_id a) (ap_id ap)"
  "res_id (merge_resource r rp) = patch_field (res_id r) (rp_id rp)"
  by (simp_all add: portal_defs)

end
