(* ===== verification/Mock_Data.thy ===== *)
theory Mock_Data
  imports Auth_Types
begin

text \<open>
  The \<open>mockData\<close> object of \<open>src/src/context/AuthContext.tsx\<close> (lines 39--105): the
  initial reference data and the static directory of accounts. Strings outside ASCII
  (the Russian names) are written as their UTF-8 bytes; the text before each list gives
  them in transliteration, in order.
\<close>

text \<open>Ministries: Ministerstvo ekonomicheskogo razvitiya, Ministerstvo obrazovaniya i nauki, Ministerstvo zdravoohraneniya, Ministerstvo stroitelstva.\<close>

definition mock_ministries :: "ministry list" where
  "mock_ministries = [
    \<lparr>min_id = ''1'',
      min_name = [CHR 0xD0, CHR 0x9C, CHR 0xD0, CHR 0xB8, CHR 0xD0, CHR 0xBD, CHR 0xD0, CHR 0xB8, CHR 0xD1, CHR 0x81,
        CHR 0xD1, CHR 0x82, CHR 0xD0, CHR 0xB5, CHR 0xD1, CHR 0x80, CHR 0xD1, CHR 0x81, CHR 0xD1, CHR 0x82,
        CHR 0xD0, CHR 0xB2, CHR 0xD0, CHR 0xBE, CHR 0x20, CHR 0xD1, CHR 0x8D, CHR 0xD0, CHR 0xBA, CHR 0xD0,
        CHR 0xBE, CHR 0xD0, CHR 0xBD, CHR 0xD0, CHR 0xBE, CHR 0xD0, CHR 0xBC, CHR 0xD0, CHR 0xB8, CHR 0xD1,
        CHR 0x87, CHR 0xD0, CHR 0xB5, CHR 0xD1, CHR 0x81, CHR 0xD0, CHR 0xBA, CHR 0xD0, CHR 0xBE, CHR 0xD0,
        CHR 0xB3, CHR 0xD0, CHR 0xBE, CHR 0x20, CHR 0xD1, CHR 0x80, CHR 0xD0, CHR 0xB0, CHR 0xD0, CHR 0xB7,
        CHR 0xD0, CHR 0xB2, CHR 0xD0, CHR 0xB8, CHR 0xD1, CHR 0x82, CHR 0xD0, CHR 0xB8, CHR 0xD1, CHR 0x8F],
      min_code = ''MED''\<rparr>,
    \<lparr>min_id = ''2'',
      min_name = [CHR 0xD0, CHR 0x9C, CHR 0xD0, CHR 0xB8, CHR 0xD0, CHR 0xBD, CHR 0xD0, CHR 0xB8, CHR 0xD1, CHR 0x81,
        CHR 0xD1, CHR 0x82, CHR 0xD0, CHR 0xB5, CHR 0xD1, CHR 0x80, CHR 0xD1, CHR 0x81, CHR 0xD1, CHR 0x82,
        CHR 0xD0, CHR 0xB2, CHR 0xD0, CHR 0xBE, CHR 0x20, CHR 0xD0, CHR 0xBE, CHR 0xD0, CHR 0xB1, CHR 0xD1,
        CHR 0x80, CHR 0xD0, CHR 0xB0, CHR 0xD0, CHR 0xB7, CHR 0xD0, CHR 0xBE, CHR 0xD0, CHR 0xB2, CHR 0xD0,
        CHR 0xB0, CHR 0xD0, CHR 0xBD, CHR 0xD0, CHR 0xB8, CHR 0xD1, CHR 0x8F, CHR 0x20, CHR 0xD0, CHR 0xB8,
        CHR 0x20, CHR 0xD0, CHR 0xBD, CHR 0xD0, CHR 0xB0, CHR 0xD1, CHR 0x83, CHR 0xD0, CHR 0xBA, CHR 0xD0,
        CHR 0xB8],
      min_code = ''MON''\<rparr>,
    \<lparr>min_id = ''3'',
      min_name = [CHR 0xD0, CHR 0x9C, CHR 0xD0, CHR 0xB8, CHR 0xD0, CHR 0xBD, CHR 0xD0, CHR 0xB8, CHR 0xD1, CHR 0x81,
        CHR 0xD1, CHR 0x82, CHR 0xD0, CHR 0xB5, CHR 0xD1, CHR 0x80, CHR 0xD1, CHR 0x81, CHR 0xD1, CHR 0x82,
        CHR 0xD0, CHR 0xB2, CHR 0xD0, CHR 0xBE, CHR 0x20, CHR 0xD0, CHR 0xB7, CHR 0xD0, CHR 0xB4, CHR 0xD1,
        CHR 0x80, CHR 0xD0, CHR 0xB0, CHR 0xD0, CHR 0xB2, CHR 0xD0, CHR 0xBE, CHR 0xD0, CHR 0xBE, CHR 0xD1,
        CHR 0x85, CHR 0xD1, CHR 0x80, CHR 0xD0, CHR 0xB0, CHR 0xD0, CHR 0xBD, CHR 0xD0, CHR 0xB5, CHR 0xD0,
        CHR 0xBD, CHR 0xD0, CHR 0xB8, CHR 0xD1, CHR 0x8F],
      min_code = ''MZ''\<rparr>,
    \<lparr>min_id = ''4'',
      min_name = [CHR 0xD0, CHR 0x9C, CHR 0xD0, CHR 0xB8, CHR 0xD0, CHR 0xBD, CHR 0xD0, CHR 0xB8, CHR 0xD1, CHR 0x81,
        CHR 0xD1, CHR 0x82, CHR 0xD0, CHR 0xB5, CHR 0xD1, CHR 0x80, CHR 0xD1, CHR 0x81, CHR 0xD1, CHR 0x82,
        CHR 0xD0, CHR 0xB2, CHR 0xD0, CHR 0xBE, CHR 0x20, CHR 0xD1, CHR 0x81, CHR 0xD1, CHR 0x82, CHR 0xD1,
        CHR 0x80, CHR 0xD0, CHR 0xBE, CHR 0xD0, CHR 0xB8, CHR 0xD1, CHR 0x82, CHR 0xD0, CHR 0xB5, CHR 0xD0,
        CHR 0xBB, CHR 0xD1, CHR 0x8C, CHR 0xD1, CHR 0x81, CHR 0xD1, CHR 0x82, CHR 0xD0, CHR 0xB2, CHR 0xD0,
        CHR 0xB0],
      min_code = ''MS''\<rparr>]"

text \<open>Departments: Otdel ekonomicheskogo analiza, Otdel investicij, Otdel doshkolnogo obrazovaniya, Otdel vysshego obrazovaniya.\<close>

definition mock_departments :: "department list" where
  "mock_departments = [
    \<lparr>dep_id = ''1'',
      dep_name = [CHR 0xD0, CHR 0x9E, CHR 0xD1, CHR 0x82, CHR 0xD0, CHR 0xB4, CHR 0xD0, CHR 0xB5, CHR 0xD0, CHR 0xBB,
        CHR 0x20, CHR 0xD1, CHR 0x8D, CHR 0xD0, CHR 0xBA, CHR 0xD0, CHR 0xBE, CHR 0xD0, CHR 0xBD, CHR 0xD0,
        CHR 0xBE, CHR 0xD0, CHR 0xBC, CHR 0xD0, CHR 0xB8, CHR 0xD1, CHR 0x87, CHR 0xD0, CHR 0xB5, CHR 0xD1,
        CHR 0x81, CHR 0xD0, CHR 0xBA, CHR 0xD0, CHR 0xBE, CHR 0xD0, CHR 0xB3, CHR 0xD0, CHR 0xBE, CHR 0x20,
        CHR 0xD0, CHR 0xB0, CHR 0xD0, CHR 0xBD, CHR 0xD0, CHR 0xB0, CHR 0xD0, CHR 0xBB, CHR 0xD0, CHR 0xB8,
        CHR 0xD0, CHR 0xB7, CHR 0xD0, CHR 0xB0],
      dep_ministryId = ''1'',
      dep_code = ''OEA''\<rparr>,
    \<lparr>dep_id = ''2'',
      dep_name = [CHR 0xD0, CHR 0x9E, CHR 0xD1, CHR 0x82, CHR 0xD0, CHR 0xB4, CHR 0xD0, CHR 0xB5, CHR 0xD0, CHR 0xBB,
        CHR 0x20, CHR 0xD0, CHR 0xB8, CHR 0xD0, CHR 0xBD, CHR 0xD0, CHR 0xB2, CHR 0xD0, CHR 0xB5, CHR 0xD1,
        CHR 0x81, CHR 0xD1, CHR 0x82, CHR 0xD0, CHR 0xB8, CHR 0xD1, CHR 0x86, CHR 0xD0, CHR 0xB8, CHR 0xD0,
        CHR 0xB9],
      dep_ministryId = ''1'',
      dep_code = ''OI''\<rparr>,
    \<lparr>dep_id = ''3'',
      dep_name = [CHR 0xD0, CHR 0x9E, CHR 0xD1, CHR 0x82, CHR 0xD0, CHR 0xB4, CHR 0xD0, CHR 0xB5, CHR 0xD0, CHR 0xBB,
        CHR 0x20, CHR 0xD0, CHR 0xB4, CHR 0xD0, CHR 0xBE, CHR 0xD1, CHR 0x88, CHR 0xD0, CHR 0xBA, CHR 0xD0,
        CHR 0xBE, CHR 0xD0, CHR 0xBB, CHR 0xD1, CHR 0x8C, CHR 0xD0, CHR 0xBD, CHR 0xD0, CHR 0xBE, CHR 0xD0,
        CHR 0xB3, CHR 0xD0, CHR 0xBE, CHR 0x20, CHR 0xD0, CHR 0xBE, CHR 0xD0, CHR 0xB1, CHR 0xD1, CHR 0x80,
        CHR 0xD0, CHR 0xB0, CHR 0xD0, CHR 0xB7, CHR 0xD0, CHR 0xBE, CHR 0xD0, CHR 0xB2, CHR 0xD0, CHR 0xB0,
        CHR 0xD0, CHR 0xBD, CHR 0xD0, CHR 0xB8, CHR 0xD1, CHR 0x8F],
      dep_ministryId = ''2'',
      dep_code = ''ODO''\<rparr>,
    \<lparr>dep_id = ''4'',
      dep_name = [CHR 0xD0, CHR 0x9E, CHR 0xD1, CHR 0x82, CHR 0xD0, CHR 0xB4, CHR 0xD0, CHR 0xB5, CHR 0xD0, CHR 0xBB,
        CHR 0x20, CHR 0xD0, CHR 0xB2, CHR 0xD1, CHR 0x8B, CHR 0xD1, CHR 0x81, CHR 0xD1, CHR 0x88, CHR 0xD0,
        CHR 0xB5, CHR 0xD0, CHR 0xB3, CHR 0xD0, CHR 0xBE, CHR 0x20, CHR 0xD0, CHR 0xBE, CHR 0xD0, CHR 0xB1,
        CHR 0xD1, CHR 0x80, CHR 0xD0, CHR 0xB0, CHR 0xD0, CHR 0xB7, CHR 0xD0, CHR 0xBE, CHR 0xD0, CHR 0xB2,
        CHR 0xD0, CHR 0xB0, CHR 0xD0, CHR 0xBD, CHR 0xD0, CHR 0xB8, CHR 0xD1, CHR 0x8F],
      dep_ministryId = ''2'',
      dep_code = ''OVO''\<rparr>]"

text \<open>Positions: Glavnyj specialist, Veduschij specialist, Zamestitel nachalnika otdela, Nachalnik otdela.\<close>

definition mock_positions :: "position list" where
  "mock_positions = [
    \<lparr>pos_id = ''1'',
      pos_name = [CHR 0xD0, CHR 0x93, CHR 0xD0, CHR 0xBB, CHR 0xD0, CHR 0xB0, CHR 0xD0, CHR 0xB2, CHR 0xD0, CHR 0xBD,
        CHR 0xD1, CHR 0x8B, CHR 0xD0, CHR 0xB9, CHR 0x20, CHR 0xD1, CHR 0x81, CHR 0xD0, CHR 0xBF, CHR 0xD0,
        CHR 0xB5, CHR 0xD1, CHR 0x86, CHR 0xD0, CHR 0xB8, CHR 0xD0, CHR 0xB0, CHR 0xD0, CHR 0xBB, CHR 0xD0,
        CHR 0xB8, CHR 0xD1, CHR 0x81, CHR 0xD1, CHR 0x82],
      pos_code = ''GS''\<rparr>,
    \<lparr>pos_id = ''2'',
      pos_name = [CHR 0xD0, CHR 0x92, CHR 0xD0, CHR 0xB5, CHR 0xD0, CHR 0xB4, CHR 0xD1, CHR 0x83, CHR 0xD1, CHR 0x89,
        CHR 0xD0, CHR 0xB8, CHR 0xD0, CHR 0xB9, CHR 0x20, CHR 0xD1, CHR 0x81, CHR 0xD0, CHR 0xBF, CHR 0xD0,
        CHR 0xB5, CHR 0xD1, CHR 0x86, CHR 0xD0, CHR 0xB8, CHR 0xD0, CHR 0xB0, CHR 0xD0, CHR 0xBB, CHR 0xD0,
        CHR 0xB8, CHR 0xD1, CHR 0x81, CHR 0xD1, CHR 0x82],
      pos_code = ''VS''\<rparr>,
    \<lparr>pos_id = ''3'',
      pos_name = [CHR 0xD0, CHR 0x97, CHR 0xD0, CHR 0xB0, CHR 0xD0, CHR 0xBC, CHR 0xD0, CHR 0xB5, CHR 0xD1, CHR 0x81,
        CHR 0xD1, CHR 0x82, CHR 0xD0, CHR 0xB8, CHR 0xD1, CHR 0x82, CHR 0xD0, CHR 0xB5, CHR 0xD0, CHR 0xBB,
        CHR 0xD1, CHR 0x8C, CHR 0x20, CHR 0xD0, CHR 0xBD, CHR 0xD0, CHR 0xB0, CHR 0xD1, CHR 0x87, CHR 0xD0,
        CHR 0xB0, CHR 0xD0, CHR 0xBB, CHR 0xD1, CHR 0x8C, CHR 0xD0, CHR 0xBD, CHR 0xD0, CHR 0xB8, CHR 0xD0,
        CHR 0xBA, CHR 0xD0, CHR 0xB0, CHR 0x20, CHR 0xD0, CHR 0xBE, CHR 0xD1, CHR 0x82, CHR 0xD0, CHR 0xB4,
        CHR 0xD0, CHR 0xB5, CHR 0xD0, CHR 0xBB, CHR 0xD0, CHR 0xB0],
      pos_code = ''ZNO''\<rparr>,
    \<lparr>pos_id = ''4'',
      pos_name = [CHR 0xD0, CHR 0x9D, CHR 0xD0, CHR 0xB0, CHR 0xD1, CHR 0x87, CHR 0xD0, CHR 0xB0, CHR 0xD0, CHR 0xBB,
        CHR 0xD1, CHR 0x8C, CHR 0xD0, CHR 0xBD, CHR 0xD0, CHR 0xB8, CHR 0xD0, CHR 0xBA, CHR 0x20, CHR 0xD0,
        CHR 0xBE, CHR 0xD1, CHR 0x82, CHR 0xD0, CHR 0xB4, CHR 0xD0, CHR 0xB5, CHR 0xD0, CHR 0xBB, CHR 0xD0,
        CHR 0xB0],
      pos_code = ''NO''\<rparr>]"

text \<open>Addresses: ul. Muraveva-Amurskogo / Habarovsk, ul. Frunze / Habarovsk, ul. Komsomolskaya / Habarovsk.\<close>

definition mock_addresses :: "address list" where
  "mock_addresses = [
    \<lparr>adr_id = ''1'',
      adr_street = [CHR 0xD1, CHR 0x83, CHR 0xD0, CHR 0xBB, CHR 0x2E, CHR 0x20, CHR 0xD0, CHR 0x9C, CHR 0xD1, CHR 0x83,
        CHR 0xD1, CHR 0x80, CHR 0xD0, CHR 0xB0, CHR 0xD0, CHR 0xB2, CHR 0xD1, CHR 0x8C, CHR 0xD0, CHR 0xB5,
        CHR 0xD0, CHR 0xB2, CHR 0xD0, CHR 0xB0, CHR 0x2D, CHR 0xD0, CHR 0x90, CHR 0xD0, CHR 0xBC, CHR 0xD1,
        CHR 0x83, CHR 0xD1, CHR 0x80, CHR 0xD1, CHR 0x81, CHR 0xD0, CHR 0xBA, CHR 0xD0, CHR 0xBE, CHR 0xD0,
        CHR 0xB3, CHR 0xD0, CHR 0xBE],
      adr_building = ''22'',
      adr_city = [CHR 0xD0, CHR 0xA5, CHR 0xD0, CHR 0xB0, CHR 0xD0, CHR 0xB1, CHR 0xD0, CHR 0xB0, CHR 0xD1, CHR 0x80,
        CHR 0xD0, CHR 0xBE, CHR 0xD0, CHR 0xB2, CHR 0xD1, CHR 0x81, CHR 0xD0, CHR 0xBA],
      adr_postalCode = ''680000''\<rparr>,
    \<lparr>adr_id = ''2'',
      adr_street = [CHR 0xD1, CHR 0x83, CHR 0xD0, CHR 0xBB, CHR 0x2E, CHR 0x20, CHR 0xD0, CHR 0xA4, CHR 0xD1, CHR 0x80,
        CHR 0xD1, CHR 0x83, CHR 0xD0, CHR 0xBD, CHR 0xD0, CHR 0xB7, CHR 0xD0, CHR 0xB5],
      adr_building = ''68'',
      adr_city = [CHR 0xD0, CHR 0xA5, CHR 0xD0, CHR 0xB0, CHR 0xD0, CHR 0xB1, CHR 0xD0, CHR 0xB0, CHR 0xD1, CHR 0x80,
        CHR 0xD0, CHR 0xBE, CHR 0xD0, CHR 0xB2, CHR 0xD1, CHR 0x81, CHR 0xD0, CHR 0xBA],
      adr_postalCode = ''680000''\<rparr>,
    \<lparr>adr_id = ''3'',
      adr_street = [CHR 0xD1, CHR 0x83, CHR 0xD0, CHR 0xBB, CHR 0x2E, CHR 0x20, CHR 0xD0, CHR 0x9A, CHR 0xD0, CHR 0xBE,
        CHR 0xD0, CHR 0xBC, CHR 0xD1, CHR 0x81, CHR 0xD0, CHR 0xBE, CHR 0xD0, CHR 0xBC, CHR 0xD0, CHR 0xBE,
        CHR 0xD0, CHR 0xBB, CHR 0xD1, CHR 0x8C, CHR 0xD1, CHR 0x81, CHR 0xD0, CHR 0xBA, CHR 0xD0, CHR 0xB0,
        CHR 0xD1, CHR 0x8F],
      adr_building = ''56'',
      adr_city = [CHR 0xD0, CHR 0xA5, CHR 0xD0, CHR 0xB0, CHR 0xD0, CHR 0xB1, CHR 0xD0, CHR 0xB0, CHR 0xD1, CHR 0x80,
        CHR 0xD0, CHR 0xBE, CHR 0xD0, CHR 0xB2, CHR 0xD1, CHR 0x81, CHR 0xD0, CHR 0xBA],
      adr_postalCode = ''680000''\<rparr>]"

text \<open>Resources: Sistema elektronnogo dokumentooborota / SED dlya raboty s dokumentami, Telefonnyj spravochnik / Spravochnik sotrudnikov, Obratitsya v tehpodderzhku / Tehnicheskaya podderzhka, Napravit zayavku / Podacha zayavok i obraschenij.\<close>

definition mock_resources :: "resource list" where
  "mock_resources = [
    \<lparr>res_id = ''1'',
      res_title = [CHR 0xD0, CHR 0xA1, CHR 0xD0, CHR 0xB8, CHR 0xD1, CHR 0x81, CHR 0xD1, CHR 0x82, CHR 0xD0, CHR 0xB5,
        CHR 0xD0, CHR 0xBC, CHR 0xD0, CHR 0xB0, CHR 0x20, CHR 0xD1, CHR 0x8D, CHR 0xD0, CHR 0xBB, CHR 0xD0,
        CHR 0xB5, CHR 0xD0, CHR 0xBA, CHR 0xD1, CHR 0x82, CHR 0xD1, CHR 0x80, CHR 0xD0, CHR 0xBE, CHR 0xD0,
        CHR 0xBD, CHR 0xD0, CHR 0xBD, CHR 0xD0, CHR 0xBE, CHR 0xD0, CHR 0xB3, CHR 0xD0, CHR 0xBE, CHR 0x20,
        CHR 0xD0, CHR 0xB4, CHR 0xD0, CHR 0xBE, CHR 0xD0, CHR 0xBA, CHR 0xD1, CHR 0x83, CHR 0xD0, CHR 0xBC,
        CHR 0xD0, CHR 0xB5, CHR 0xD0, CHR 0xBD, CHR 0xD1, CHR 0x82, CHR 0xD0, CHR 0xBE, CHR 0xD0, CHR 0xBE,
        CHR 0xD0, CHR 0xB1, CHR 0xD0, CHR 0xBE, CHR 0xD1, CHR 0x80, CHR 0xD0, CHR 0xBE, CHR 0xD1, CHR 0x82,
        CHR 0xD0, CHR 0xB0],
      res_description = [CHR 0xD0, CHR 0xA1, CHR 0xD0, CHR 0xAD, CHR 0xD0, CHR 0x94, CHR 0x20, CHR 0xD0, CHR 0xB4, CHR 0xD0,
        CHR 0xBB, CHR 0xD1, CHR 0x8F, CHR 0x20, CHR 0xD1, CHR 0x80, CHR 0xD0, CHR 0xB0, CHR 0xD0, CHR 0xB1,
        CHR 0xD0, CHR 0xBE, CHR 0xD1, CHR 0x82, CHR 0xD1, CHR 0x8B, CHR 0x20, CHR 0xD1, CHR 0x81, CHR 0x20,
        CHR 0xD0, CHR 0xB4, CHR 0xD0, CHR 0xBE, CHR 0xD0, CHR 0xBA, CHR 0xD1, CHR 0x83, CHR 0xD0, CHR 0xBC,
        CHR 0xD0, CHR 0xB5, CHR 0xD0, CHR 0xBD, CHR 0xD1, CHR 0x82, CHR 0xD0, CHR 0xB0, CHR 0xD0, CHR 0xBC,
        CHR 0xD0, CHR 0xB8],
      res_url = ''/sed'',
      res_icon = ''FileText'',
      res_order = JNum 1,
      res_isActive = True\<rparr>,
    \<lparr>res_id = ''2'',
      res_title = [CHR 0xD0, CHR 0xA2, CHR 0xD0, CHR 0xB5, CHR 0xD0, CHR 0xBB, CHR 0xD0, CHR 0xB5, CHR 0xD1, CHR 0x84,
        CHR 0xD0, CHR 0xBE, CHR 0xD0, CHR 0xBD, CHR 0xD0, CHR 0xBD, CHR 0xD1, CHR 0x8B, CHR 0xD0, CHR 0xB9,
        CHR 0x20, CHR 0xD1, CHR 0x81, CHR 0xD0, CHR 0xBF, CHR 0xD1, CHR 0x80, CHR 0xD0, CHR 0xB0, CHR 0xD0,
        CHR 0xB2, CHR 0xD0, CHR 0xBE, CHR 0xD1, CHR 0x87, CHR 0xD0, CHR 0xBD, CHR 0xD0, CHR 0xB8, CHR 0xD0,
        CHR 0xBA],
      res_description = [CHR 0xD0, CHR 0xA1, CHR 0xD0, CHR 0xBF, CHR 0xD1, CHR 0x80, CHR 0xD0, CHR 0xB0, CHR 0xD0, CHR 0xB2,
        CHR 0xD0, CHR 0xBE, CHR 0xD1, CHR 0x87, CHR 0xD0, CHR 0xBD, CHR 0xD0, CHR 0xB8, CHR 0xD0, CHR 0xBA,
        CHR 0x20, CHR 0xD1, CHR 0x81, CHR 0xD0, CHR 0xBE, CHR 0xD1, CHR 0x82, CHR 0xD1, CHR 0x80, CHR 0xD1,
        CHR 0x83, CHR 0xD0, CHR 0xB4, CHR 0xD0, CHR 0xBD, CHR 0xD0, CHR 0xB8, CHR 0xD0, CHR 0xBA, CHR 0xD0,
        CHR 0xBE, CHR 0xD0, CHR 0xB2],
      res_url = ''/phonebook'',
      res_icon = ''Phone'',
      res_order = JNum 2,
      res_isActive = True\<rparr>,
    \<lparr>res_id = ''3'',
      res_title = [CHR 0xD0, CHR 0x9E, CHR 0xD0, CHR 0xB1, CHR 0xD1, CHR 0x80, CHR 0xD0, CHR 0xB0, CHR 0xD1, CHR 0x82,
        CHR 0xD0, CHR 0xB8, CHR 0xD1, CHR 0x82, CHR 0xD1, CHR 0x8C, CHR 0xD1, CHR 0x81, CHR 0xD1, CHR 0x8F,
        CHR 0x20, CHR 0xD0, CHR 0xB2, CHR 0x20, CHR 0xD1, CHR 0x82, CHR 0xD0, CHR 0xB5, CHR 0xD1, CHR 0x85,
        CHR 0xD0, CHR 0xBF, CHR 0xD0, CHR 0xBE, CHR 0xD0, CHR 0xB4, CHR 0xD0, CHR 0xB4, CHR 0xD0, CHR 0xB5,
        CHR 0xD1, CHR 0x80, CHR 0xD0, CHR 0xB6, CHR 0xD0, CHR 0xBA, CHR 0xD1, CHR 0x83],
      res_description = [CHR 0xD0, CHR 0xA2, CHR 0xD0, CHR 0xB5, CHR 0xD1, CHR 0x85, CHR 0xD0, CHR 0xBD, CHR 0xD0, CHR 0xB8,
        CHR 0xD1, CHR 0x87, CHR 0xD0, CHR 0xB5, CHR 0xD1, CHR 0x81, CHR 0xD0, CHR 0xBA, CHR 0xD0, CHR 0xB0,
        CHR 0xD1, CHR 0x8F, CHR 0x20, CHR 0xD0, CHR 0xBF, CHR 0xD0, CHR 0xBE, CHR 0xD0, CHR 0xB4, CHR 0xD0,
        CHR 0xB4, CHR 0xD0, CHR 0xB5, CHR 0xD1, CHR 0x80, CHR 0xD0, CHR 0xB6, CHR 0xD0, CHR 0xBA, CHR 0xD0,
        CHR 0xB0],
      res_url = ''/support'',
      res_icon = ''Headphones'',
      res_order = JNum 3,
      res_isActive = True\<rparr>,
    \<lparr>res_id = ''4'',
      res_title = [CHR 0xD0, CHR 0x9D, CHR 0xD0, CHR 0xB0, CHR 0xD0, CHR 0xBF, CHR 0xD1, CHR 0x80, CHR 0xD0, CHR 0xB0,
        CHR 0xD0, CHR 0xB2, CHR 0xD0, CHR 0xB8, CHR 0xD1, CHR 0x82, CHR 0xD1, CHR 0x8C, CHR 0x20, CHR 0xD0,
        CHR 0xB7, CHR 0xD0, CHR 0xB0, CHR 0xD1, CHR 0x8F, CHR 0xD0, CHR 0xB2, CHR 0xD0, CHR 0xBA, CHR 0xD1,
        CHR 0x83],
      res_description = [CHR 0xD0, CHR 0x9F, CHR 0xD0, CHR 0xBE, CHR 0xD0, CHR 0xB4, CHR 0xD0, CHR 0xB0, CHR 0xD1, CHR 0x87,
        CHR 0xD0, CHR 0xB0, CHR 0x20, CHR 0xD0, CHR 0xB7, CHR 0xD0, CHR 0xB0, CHR 0xD1, CHR 0x8F, CHR 0xD0,
        CHR 0xB2, CHR 0xD0, CHR 0xBE, CHR 0xD0, CHR 0xBA, CHR 0x20, CHR 0xD0, CHR 0xB8, CHR 0x20, CHR 0xD0,
        CHR 0xBE, CHR 0xD0, CHR 0xB1, CHR 0xD1, CHR 0x80, CHR 0xD0, CHR 0xB0, CHR 0xD1, CHR 0x89, CHR 0xD0,
        CHR 0xB5, CHR 0xD0, CHR 0xBD, CHR 0xD0, CHR 0xB8, CHR 0xD0, CHR 0xB9],
      res_url = ''/requests'',
      res_icon = ''Send'',
      res_order = JNum 4,
      res_isActive = True\<rparr>]"

text \<open>Users (first, last, middle name): Administrator Sistemy Portala, Ivan Ivanov Ivanovich.\<close>

definition mock_users :: "user list" where
  "mock_users = [
    \<lparr>user_id = ''admin'',
      domain = ''admin@gov27.ru'',
      firstName = [CHR 0xD0, CHR 0x90, CHR 0xD0, CHR 0xB4, CHR 0xD0, CHR 0xBC, CHR 0xD0, CHR 0xB8, CHR 0xD0, CHR 0xBD,
        CHR 0xD0, CHR 0xB8, CHR 0xD1, CHR 0x81, CHR 0xD1, CHR 0x82, CHR 0xD1, CHR 0x80, CHR 0xD0, CHR 0xB0,
        CHR 0xD1, CHR 0x82, CHR 0xD0, CHR 0xBE, CHR 0xD1, CHR 0x80],
      lastName = [CHR 0xD0, CHR 0xA1, CHR 0xD0, CHR 0xB8, CHR 0xD1, CHR 0x81, CHR 0xD1, CHR 0x82, CHR 0xD0, CHR 0xB5,
        CHR 0xD0, CHR 0xBC, CHR 0xD1, CHR 0x8B],
      middleName = [CHR 0xD0, CHR 0x9F, CHR 0xD0, CHR 0xBE, CHR 0xD1, CHR 0x80, CHR 0xD1, CHR 0x82, CHR 0xD0, CHR 0xB0,
        CHR 0xD0, CHR 0xBB, CHR 0xD0, CHR 0xB0],
      ministry = ''1'',
      department = ''1'',
      position = ''4'',
      address = ''1'',
      officeNumber = ''101'',
      phoneNumber = ''+7 (4212) 12-34-56'',
      internalPhone = ''1234'',
      email = ''admin@gov27.ru'',
      role = RoleAdmin,
      isFirstLogin = False\<rparr>,
    \<lparr>user_id = ''user1'',
      domain = ''ivanov@gov27.ru'',
      firstName = [CHR 0xD0, CHR 0x98, CHR 0xD0, CHR 0xB2, CHR 0xD0, CHR 0xB0, CHR 0xD0, CHR 0xBD],
      lastName = [CHR 0xD0, CHR 0x98, CHR 0xD0, CHR 0xB2, CHR 0xD0, CHR 0xB0, CHR 0xD0, CHR 0xBD, CHR 0xD0, CHR 0xBE,
        CHR 0xD0, CHR 0xB2],
      middleName = [CHR 0xD0, CHR 0x98, CHR 0xD0, CHR 0xB2, CHR 0xD0, CHR 0xB0, CHR 0xD0, CHR 0xBD, CHR 0xD0, CHR 0xBE,
        CHR 0xD0, CHR 0xB2, CHR 0xD0, CHR 0xB8, CHR 0xD1, CHR 0x87],
      ministry = ''1'',
      department = ''1'',
      position = ''2'',
      address = ''1'',
      officeNumber = ''201'',
      phoneNumber = ''+7 (4212) 12-34-57'',
      internalPhone = ''1235'',
      email = ''ivanov@gov27.ru'',
      role = RoleUser,
      isFirstLogin = False\<rparr>]"

end
