(* ===== verification/Auth_Context.thy ===== *)
theory Auth_Context
  imports Mock_Data
begin

text \<open>
  The \<open>AuthProvider\<close> of \<open>src/src/context/AuthContext.tsx\<close>: its React state (the
  \<open>AuthState\<close> fields and the five reference lists), the browser's
  \<open>localStorage['portal_user']\<close> cell it persists the session in, and one definition per
  operation it hands to the tree through the context. React's \<open>setX\<close> calls inside one
  handler are applied in order to an explicit state record.

  Three points of the source shape the model.
  \<^item> \<open>JSON.stringify\<close>/\<open>JSON.parse\<close>: the stored text is one of \<open>stored\<close>: the
    serialisation of a user, the text \<open>null\<close>, the empty string, or text that does not
    parse. A parse failure is the \<open>SyntaxError\<close> that \<open>JSON.parse\<close> throws.
  \<^item> \<open>localStorage.setItem\<close> throws (\<open>QuotaExceededError\<close>) when the browser's storage is
    not writable; \<open>storage_writable\<close> records which. An operation that calls it returns
    the thrown error or its value, paired with the state after the effects that already
    happened: React keeps a \<open>setUser\<close> made before the throw.
  \<^item> Closures: \<open>updateUserProfile\<close> and \<open>completeFirstLogin\<close> read \<open>user\<close> from the
    render that created them, not from the current state. Their first argument is that
    captured value; a caller from a fresh render passes \<open>user s\<close>.
\<close>

datatype stored = Saved user | SavedNull | SavedEmpty | Malformed

datatype js_error = SyntaxError | QuotaExceededError

record ctx_state = auth_state +
  ministries :: "ministry list"
  departments :: "department list"
  positions :: "position list"
  addresses :: "address list"
  resources :: "resource list"
  storage :: "stored option"
  storage_writable :: bool

text \<open>The result of a call that may throw: the error or the returned value, and the state
  after the call's effects.\<close>

type_synonym 'a outcome = "(js_error + 'a) \<times> ctx_state"

text \<open>Sequencing with exceptions: a thrown error skips the rest of the block.\<close>

definition js_then :: "'a outcome \<Rightarrow> ('a \<Rightarrow> ctx_state \<Rightarrow> 'b outcome) \<Rightarrow> 'b outcome" where
  "js_then r k = (case r of (Inl e, s) \<Rightarrow> (Inl e, s) | (Inr v, s) \<Rightarrow> k v s)"

text \<open>\<open>localStorage.setItem('portal_user', JSON.stringify(u))\<close>.\<close>

definition setItem :: "user \<Rightarrow> ctx_state \<Rightarrow> unit outcome" where
  "setItem u s = (if storage_writable s then (Inr (), s\<lparr>storage := Some (Saved u)\<rparr>)
     else (Inl QuotaExceededError, s))"

subsection \<open>Start-up: the initial state and the restoring effect\<close>

text \<open>The \<open>useState\<close> initialisers; the storage cell and its writability are whatever
  the browser provides.\<close>

definition initial_ctx :: "stored option \<Rightarrow> bool \<Rightarrow> ctx_state" where
  "initial_ctx st w = \<lparr>user = None, isAuthenticated = False, isLoading = True,
     ministries = mock_ministries, departments = mock_departments, positions = mock_positions,
     addresses = mock_addresses, resources = mock_resources, storage = st, storage_writable = w\<rparr>"

text \<open>The mount effect: \<open>getItem\<close>, then \<open>if (savedUser)\<close> (the empty string is falsy),
  \<open>JSON.parse\<close> (throws on malformed text, so \<open>setIsLoading(false)\<close> is never reached),
  \<open>setUser\<close>, \<open>setIsAuthenticated(true)\<close>, \<open>setIsLoading(false)\<close>.\<close>

definition restore_session :: "ctx_state \<Rightarrow> js_error + ctx_state" where
  "restore_session s = (case storage s of
       None \<Rightarrow> Inr (s\<lparr>isLoading := False\<rparr>)
     | Some SavedEmpty \<Rightarrow> Inr (s\<lparr>isLoading := False\<rparr>)
     | Some Malformed \<Rightarrow> Inl SyntaxError
     | Some SavedNull \<Rightarrow> Inr (s\<lparr>user := None, isAuthenticated := True, isLoading := False\<rparr>)
     | Some (Saved u) \<Rightarrow> Inr (s\<lparr>user := Some u, isAuthenticated := True, isLoading := False\<rparr>))"

subsection \<open>Session operations\<close>

text \<open>\<open>login\<close> is asynchronous: \<open>setIsLoading(true)\<close>, then a suspension of one second, then
  the lookup \<open>mockData.users.find(u => u.domain === domain)\<close> and the fixed password
  check. The two halves are separate steps so that the application model can interleave
  at the suspension; \<open>login\<close> is their composition.\<close>

definition login_begin :: "ctx_state \<Rightarrow> ctx_state" where
  "login_begin s = s\<lparr>isLoading := True\<rparr>"

definition find_account :: "string \<Rightarrow> user option" where
  "find_account d = find (\<lambda>u. domain u = d) mock_users"

definition login_resume :: "string \<Rightarrow> string \<Rightarrow> ctx_state \<Rightarrow> bool outcome" where
  "login_resume d pw s = (case find_account d of
       Some u \<Rightarrow> if pw = ''password''
         then js_then (setItem u (s\<lparr>user := Some u, isAuthenticated := True\<rparr>))
                (\<lambda>_ s'. (Inr True, s'\<lparr>isLoading := False\<rparr>))
         else (Inr False, s\<lparr>isLoading := False\<rparr>)
     | None \<Rightarrow> (Inr False, s\<lparr>isLoading := False\<rparr>))"

definition login :: "string \<Rightarrow> string \<Rightarrow> ctx_state \<Rightarrow> bool outcome" where
  "login d pw s = login_resume d pw (login_begin s)"

definition logout :: "ctx_state \<Rightarrow> ctx_state" where
  "logout s = s\<lparr>user := None, isAuthenticated := False, storage := None\<rparr>"

text \<open>\<open>updateUserProfile(data)\<close> with the captured \<open>user\<close>: early return without one,
  else \<open>{ ...user, ...data }\<close> is set, then persisted.\<close>

definition updateUserProfile :: "user option \<Rightarrow> user_patch \<Rightarrow> ctx_state \<Rightarrow> unit outcome" where
  "updateUserProfile cu p s = (case cu of
       None \<Rightarrow> (Inr (), s)
     | Some u \<Rightarrow> setItem (merge_user u p) (s\<lparr>user := Some (merge_user u p)\<rparr>))"

definition completeFirstLogin :: "user option \<Rightarrow> ctx_state \<Rightarrow> unit outcome" where
  "completeFirstLogin cu s = (case cu of
       None \<Rightarrow> (Inr (), s)
     | Some u \<Rightarrow> setItem (u\<lparr>isFirstLogin := False\<rparr>) (s\<lparr>user := Some (u\<lparr>isFirstLogin := False\<rparr>)\<rparr>))"

subsection \<open>The session invariant\<close>

text \<open>A user in memory is authenticated and is exactly the persisted snapshot. The
  converse fails on purpose: the stored text \<open>null\<close> authenticates nobody.\<close>

definition session_consistent :: "ctx_state \<Rightarrow> bool" where
  "session_consistent s \<longleftrightarrow>
     (case user s of None \<Rightarrow> True | Some u \<Rightarrow> isAuthenticated s \<and> storage s = Some (Saved u))"

declare js_then_def [portal_defs] setItem_def [portal_defs] initial_ctx_def [portal_defs] restore_session_def [portal_defs]
  login_begin_def [portal_defs] login_resume_def [portal_defs] login_def [portal_defs]
  logout_def [portal_defs] updateUserProfile_def [portal_defs] completeFirstLogin_def [portal_defs]

subsection \<open>The directory\<close>

lemma mock_users_domains_distinct: "distinct (map domain mock_users)"
  by (simp add: mock_users_def)

lemma find_account_Some_iff: "find_account d = Some u \<longleftrightarrow> u \<in> set mock_users \<and> domain u = d"
  using mock_users_domains_distinct unfolding find_account_def by (rule find_key_Some)

lemma mock_users_first_login: "u \<in> set mock_users \<Longrightarrow> \<not> isFirstLogin u"
  by (auto simp: mock_users_def)


subsection \<open>Exceptions and storage\<close>

lemma js_then_simps [simp]:
  "js_then (Inl e, s) k = (Inl e, s)" "js_then (Inr v, s) k = k v s"
  by (simp_all add: js_then_def)

lemma setItem_writable [simp]:
  "storage_writable s \<Longrightarrow> setItem u s = (Inr (), s\<lparr>storage := Some (Saved u)\<rparr>)"
  by (simp add: setItem_def)

lemma setItem_unwritable [simp]:
  "\<not> storage_writable s \<Longrightarrow> setItem u s = (Inl QuotaExceededError, s)"
  by (simp add: setItem_def)

text \<open>No operation changes whether the browser's storage is writable.\<close>

lemma storage_writable_frame [simp]:
  "storage_writable (snd (setItem u s)) = storage_writable s"
  "storage_writable (snd (login_resume d pw s)) = storage_writable s"
  "storage_writable (snd (login d pw s)) = storage_writable s"
  "storage_writable (snd (updateUserProfile cu p s)) = storage_writable s"
  "storage_writable (snd (completeFirstLogin cu s)) = storage_writable s"
  "storage_writable (logout s) = storage_writable s"
  "storage_writable (login_begin s) = storage_writable s"
  by (auto simp: portal_defs split: option.splits sum.splits prod.splits)

lemma restore_session_frame:
  "restore_session s = Inr t \<Longrightarrow> storage_writable t = storage_writable s \<and> storage t = storage s"
  by (auto simp: restore_session_def split: option.splits stored.splits)

subsection \<open>Preservation of the session invariant\<close>

lemma session_consistent_initial [simp]: "session_consistent (initial_ctx st w)"
  by (simp add: session_consistent_def initial_ctx_def)

lemma restore_session_consistent:
  "restore_session s = Inr t \<Longrightarrow> user s = None \<Longrightarrow> session_consistent t"
  by (auto simp: restore_session_def session_consistent_def split: option.splits stored.splits)

lemma login_begin_consistent [simp]:
  "session_consistent (login_begin s) = session_consistent s"
  by (simp add: login_begin_def session_consistent_def split: option.split)

lemma session_consistent_loading [simp]: "session_consistent (s\<lparr>isLoading := b\<rparr>) = session_consistent s"
  by (simp add: session_consistent_def split: option.split)

lemma login_resume_consistent:
  "session_consistent s \<Longrightarrow> storage_writable s \<Longrightarrow> session_consistent (snd (login_resume d pw s))"
  by (auto simp: login_resume_def session_consistent_def split: option.splits)

lemma logout_consistent [simp]: "session_consistent (logout s)"
  by (simp add: logout_def session_consistent_def)

lemma updateUserProfile_consistent:
  "session_consistent s \<Longrightarrow> storage_writable s \<Longrightarrow> (cu = None \<or> isAuthenticated s) \<Longrightarrow>
   session_consistent (snd (updateUserProfile cu p s))"
  by (auto simp: updateUserProfile_def session_consistent_def split: option.splits)

lemma completeFirstLogin_consistent:
  "session_consistent s \<Longrightarrow> storage_writable s \<Longrightarrow> (cu = None \<or> isAuthenticated s) \<Longrightarrow>
   session_consistent (snd (completeFirstLogin cu s))"
  by (auto simp: completeFirstLogin_def session_consistent_def split: option.splits)

lemma auth_flags_frame [simp]:
  "isAuthenticated (snd (updateUserProfile cu p s)) = isAuthenticated s"
  "isLoading (snd (updateUserProfile cu p s)) = isLoading s"
  "isAuthenticated (snd (completeFirstLogin cu s)) = isAuthenticated s"
  "isLoading (snd (completeFirstLogin cu s)) = isLoading s"
  by (auto simp: portal_defs split: option.splits)

subsection \<open>Credential validation\<close>

text \<open>C1. For every account of the directory and the password \<open>password\<close>, with writable
  storage, \<open>login\<close> answers \<open>true\<close>, makes that account the current user, marks the
  session authenticated, persists the account and clears the loading flag.\<close>

theorem login_known_account:
  assumes "u \<in> set mock_users" and "storage_writable s"
  shows "login (domain u) ''password'' s =
    (Inr True, s\<lparr>isLoading := False, user := Some u, isAuthenticated := True, storage := Some (Saved u)\<rparr>)"
proof -
  from assms(1) have "find_account (domain u) = Some u" by (simp add: find_account_Some_iff)
  with assms(2) show ?thesis by (simp add: login_def login_resume_def login_begin_def)
qed

text \<open>C2. An unknown account and a wrong password are answered identically: \<open>false\<close>,
  and the only change of the state is the cleared loading flag (no session is created
  and nothing is persisted).\<close>

theorem login_rejects:
  assumes "find_account d = None \<or> pw \<noteq> ''password''"
  shows "login d pw s = (Inr False, s\<lparr>isLoading := False\<rparr>)"
  using assms by (auto simp: login_def login_resume_def login_begin_def split: option.split)

subsection \<open>Restoring and clearing the session\<close>

text \<open>C3. The start-up effect fails (the uncaught \<open>SyntaxError\<close> of \<open>JSON.parse\<close>) exactly
  when the stored text is malformed; it never fails on an empty or missing cell.\<close>

theorem restore_session_error_iff:
  "(\<exists>e. restore_session s = Inl e) \<longleftrightarrow> storage s = Some Malformed"
  by (auto simp: restore_session_def split: option.splits stored.splits)

text \<open>Save then restore: a process started on a cell holding the serialisation of a
  user restores exactly that user as an authenticated session.\<close>

theorem restore_saved_user:
  "restore_session (initial_ctx (Some (Saved u)) w) =
     Inr ((initial_ctx (Some (Saved u)) w)\<lparr>user := Some u, isAuthenticated := True, isLoading := False\<rparr>)"
  by (simp add: restore_session_def initial_ctx_def)

text \<open>C4. Logout clears the session in memory and in storage, so a process started
  afterwards restores no session.\<close>

theorem logout_then_restart:
  "user (logout s) = None \<and> \<not> isAuthenticated (logout s) \<and>
   restore_session (initial_ctx (storage (logout s)) w) = Inr ((initial_ctx None w)\<lparr>isLoading := False\<rparr>)"
  by (simp add: logout_def restore_session_def initial_ctx_def)

text \<open>C10. When the storage is not writable, a correct login throws after \<open>setUser\<close> and
  \<open>setIsAuthenticated\<close>: the user is logged in in memory but not persisted, and the
  loading flag is never cleared; nothing is rolled back.\<close>

theorem login_unwritable_storage:
  assumes "u \<in> set mock_users" and "\<not> storage_writable s"
  shows "login (domain u) ''password'' s =
    (Inl QuotaExceededError, s\<lparr>isLoading := True, user := Some u, isAuthenticated := True\<rparr>)"
proof -
  from assms(1) have "find_account (domain u) = Some u" by (simp add: find_account_Some_iff)
  with assms(2) show ?thesis by (simp add: login_def login_resume_def login_begin_def)
qed

subsection \<open>Witnesses\<close>

lemma login_known_account_witness:
  "mock_users ! 1 \<in> set mock_users \<and> storage_writable (initial_ctx None True) \<and>
   login (domain (mock_users ! 1)) ''password'' (initial_ctx None True) =
    (Inr True, (initial_ctx None True)\<lparr>isLoading := False, user := Some (mock_users ! 1),
       isAuthenticated := True, storage := Some (Saved (mock_users ! 1))\<rparr>)"
proof -
  have m: "mock_users ! 1 \<in> set mock_users" by (simp add: mock_users_def)
  have w: "storage_writable (initial_ctx None True)" by (simp add: initial_ctx_def)
  from m w login_known_account [OF m w] show ?thesis by blast
qed

lemma login_rejects_witness:
  "login ''nobody@gov27.ru'' ''password'' (initial_ctx None True) = (Inr False, (initial_ctx None True)\<lparr>isLoading := False\<rparr>)
   \<and> login ''admin@gov27.ru'' ''secret'' (initial_ctx None True) = (Inr False, (initial_ctx None True)\<lparr>isLoading := False\<rparr>)"
proof -
  have n: "find_account ''nobody@gov27.ru'' = None" by (simp add: find_account_def mock_users_def)
  show ?thesis using login_rejects [of "''nobody@gov27.ru''" "''password''" "initial_ctx None True"]
      login_rejects [of "''admin@gov27.ru''" "''secret''" "initial_ctx None True"] n by simp
qed

lemma login_unwritable_storage_witness:
  "mock_users ! 0 \<in> set mock_users \<and> \<not> storage_writable (initial_ctx None False) \<and>
   login (domain (mock_users ! 0)) ''password'' (initial_ctx None False) =
    (Inl QuotaExceededError, (initial_ctx None False)\<lparr>isLoading := True, user := Some (mock_users ! 0),
       isAuthenticated := True\<rparr>)"
proof -
  have m: "mock_users ! 0 \<in> set mock_users" by (simp add: mock_users_def)
  have w: "\<not> storage_writable (initial_ctx None False)" by (simp add: initial_ctx_def)
  from m w login_unwritable_storage [OF m w] show ?thesis by blast
qed

end
