(* ===== verification/Regex.thy ===== *)
theory Regex
  imports Portal_Prelude
begin

text \<open>
  The JavaScript regular expressions of \<open>FirstLoginForm.tsx\<close>, as an abstract syntax with
  a matcher. Both patterns are anchored (\<open>^...$\<close>) and built from character classes,
  concatenation, one-or-more (\<open>+\<close>) and fixed repetition (\<open>{n}\<close>), so \<open>re.test(s)\<close> is
  membership of the whole string in the pattern's language, which \<open>matches\<close> decides by
  trying every split. A class is a predicate on characters (\<open>[^\s@]\<close>, \<open>\d\<close>, a literal).
\<close>

datatype rx = Eps | Cls "char \<Rightarrow> bool" | Cat rx rx | Plus rx

function matches :: "rx \<Rightarrow> string \<Rightarrow> bool" where
  "matches Eps s = (s = [])"
| "matches (Cls p) s = (case s of [c] \<Rightarrow> p c | _ \<Rightarrow> False)"
| "matches (Cat r1 r2) s =
     list_ex (\<lambda>i. matches r1 (take i s) \<and> matches r2 (drop i s)) [0..<Suc (length s)]"
| "matches (Plus r) s = (matches r s \<or>
     list_ex (\<lambda>i. matches r (take i s) \<and> matches (Plus r) (drop i s)) [1..<length s])"
  by pat_completeness auto
termination
  by (relation "inv_image (measure size <*lex*> measure id) (\<lambda>(r, s). (r, length s))") auto

text \<open>A literal character, and \<open>r{n}\<close>.\<close>

definition lit :: "char \<Rightarrow> rx" where
  "lit c = Cls (\<lambda>x. x = c)"

primrec rep :: "nat \<Rightarrow> rx \<Rightarrow> rx" where
  "rep 0 r = Eps"
| "rep (Suc n) r = Cat r (rep n r)"

text \<open>A sequence of patterns, left to right.\<close>

definition rx_seq :: "rx list \<Rightarrow> rx" where
  "rx_seq rs = foldr Cat rs Eps"

subsection \<open>Characterisation of the matcher\<close>

text \<open>The equations for \<open>Cat\<close> and \<open>Plus\<close> recurse on symbolic strings without end
  under the simplifier; they are replaced by the characterisations below.\<close>

declare matches.simps(2) [simp del] matches.simps(3) [simp del] matches.simps(4) [simp del]

lemma matches_Cls [simp]: "matches (Cls p) s \<longleftrightarrow> (\<exists>c. s = [c] \<and> p c)"
  by (simp add: matches.simps(2) split: list.split)

lemma matches_Plus_Nil [simp]: "matches (Plus r) [] \<longleftrightarrow> matches r []"
  by (subst matches.simps(4)) simp

lemma matches_lit [simp]: "matches (lit c) s \<longleftrightarrow> s = [c]"
  by (auto simp: lit_def)

lemma matches_Cat: "matches (Cat r1 r2) s \<longleftrightarrow> (\<exists>a b. s = a @ b \<and> matches r1 a \<and> matches r2 b)"
proof -
  have "matches (Cat r1 r2) s \<longleftrightarrow> (\<exists>i \<le> length s. matches r1 (take i s) \<and> matches r2 (drop i s))"
    by (simp only: matches.simps(3) list_ex_iff set_upt) (auto simp: less_Suc_eq_le)
  also have "\<dots> \<longleftrightarrow> (\<exists>a b. s = a @ b \<and> matches r1 a \<and> matches r2 b)"
  proof
    assume "\<exists>i \<le> length s. matches r1 (take i s) \<and> matches r2 (drop i s)"
    then show "\<exists>a b. s = a @ b \<and> matches r1 a \<and> matches r2 b"
      by (metis append_take_drop_id)
  next
    assume "\<exists>a b. s = a @ b \<and> matches r1 a \<and> matches r2 b"
    then obtain a b where "s = a @ b" "matches r1 a" "matches r2 b" by blast
    then show "\<exists>i \<le> length s. matches r1 (take i s) \<and> matches r2 (drop i s)"
      by (intro exI [of _ "length a"]) simp
  qed
  finally show ?thesis .
qed


lemma matches_Plus_Cls: "matches (Plus (Cls p)) s \<longleftrightarrow> s \<noteq> [] \<and> list_all p s"
proof (induction s rule: length_induct)
  case (1 s)
  show ?case
  proof (cases s)
    case Nil
    then show ?thesis by simp
  next
    case (Cons c t)
    have step: "(\<exists>i \<in> {1..<length s}. matches (Cls p) (take i s) \<and> matches (Plus (Cls p)) (drop i s))
        \<longleftrightarrow> t \<noteq> [] \<and> p c \<and> list_all p t"
    proof
      assume "\<exists>i \<in> {1..<length s}. matches (Cls p) (take i s) \<and> matches (Plus (Cls p)) (drop i s)"
      then obtain i where i: "1 \<le> i" "i < length s" and m: "matches (Cls p) (take i s)"
          and r: "matches (Plus (Cls p)) (drop i s)" by auto
      from m i Cons have "i = 1" by (cases i) auto
      with r i "1.IH" Cons m show "t \<noteq> [] \<and> p c \<and> list_all p t" by auto
    next
      assume "t \<noteq> [] \<and> p c \<and> list_all p t"
      with "1.IH" Cons show "\<exists>i \<in> {1..<length s}. matches (Cls p) (take i s) \<and> matches (Plus (Cls p)) (drop i s)"
        by (intro bexI [of _ 1]) auto
    qed
    have "matches (Plus (Cls p)) s \<longleftrightarrow> matches (Cls p) s \<or>
        (\<exists>i \<in> {1..<length s}. matches (Cls p) (take i s) \<and> matches (Plus (Cls p)) (drop i s))"
      by (subst matches.simps(4)) (simp only: list_ex_iff set_upt)
    also have "\<dots> \<longleftrightarrow> (t = [] \<and> p c) \<or> (t \<noteq> [] \<and> p c \<and> list_all p t)"
      using step Cons by auto
    finally show ?thesis using Cons by auto
  qed
qed

lemma matches_rx_seq_Cls:
  "matches (rx_seq (map Cls ps)) s \<longleftrightarrow> list_all2 (\<lambda>p c. p c) ps s"
proof (induction ps arbitrary: s)
  case Nil
  then show ?case by (simp add: rx_seq_def)
next
  case (Cons p ps)
  have unf: "rx_seq (map Cls (p # ps)) = Cat (Cls p) (rx_seq (map Cls ps))"
    by (simp add: rx_seq_def)
  show ?case
  proof
    assume "matches (rx_seq (map Cls (p # ps))) s"
    then obtain c b where "s = c # b" "p c" "matches (rx_seq (map Cls ps)) b"
      unfolding unf matches_Cat by auto
    with Cons.IH show "list_all2 (\<lambda>p c. p c) (p # ps) s" by simp
  next
    assume "list_all2 (\<lambda>p c. p c) (p # ps) s"
    then obtain c b where "s = c # b" "p c" "list_all2 (\<lambda>p c. p c) ps b"
      by (auto simp: list_all2_Cons1)
    with Cons.IH have "s = [c] @ b \<and> matches (Cls p) [c] \<and> matches (rx_seq (map Cls ps)) b"
      by simp
    then show "matches (rx_seq (map Cls (p # ps))) s"
      unfolding unf matches_Cat by blast
  qed
qed

end
