(* ===== verification/Profile_Validation.thy ===== *)
theory Profile_Validation
  imports Regex "HOL-Library.AList"
begin

text \<open>
  The pure part of \<open>src/src/components/profile/FirstLoginForm.tsx\<close>: the form data, the
  two regular expressions, \<open>validateForm\<close> and \<open>handlePhoneFormat\<close>. The error object
  \<open>Record<string, string>\<close> is an association list in insertion order (a property
  assignment on a JavaScript object updates an existing key in place and appends a new
  one, which is \<open>AList.update\<close>); its keys are the form's field names and its values the
  fixed messages of the source, one constructor each.
\<close>

record profile_form =
  fd_firstName :: string
  fd_lastName :: string
  fd_middleName :: string
  fd_ministry :: string
  fd_department :: string
  fd_position :: string
  fd_address :: string
  fd_officeNumber :: string
  fd_phoneNumber :: string
  fd_internalPhone :: string
  fd_email :: string

datatype profile_field = F_firstName | F_lastName | F_middleName | F_ministry | F_department
  | F_position | F_address | F_officeNumber | F_phoneNumber | F_internalPhone | F_email

text \<open>The messages: \<open>Required\<close> is the required-field text, \<open>Select*\<close> the four
  "choose ..." texts, \<open>InvalidEmail\<close> and \<open>PhoneFormat\<close> the two format texts, and
  \<open>Cleared\<close> the empty string \<open>handleInputChange\<close> writes over an error.\<close>

datatype err_msg = Required | SelectMinistry | SelectDepartment | SelectPosition | SelectAddress
  | InvalidEmail | PhoneFormat | Cleared

type_synonym form_errors = "(profile_field \<times> err_msg) list"

subsection \<open>The two patterns\<close>

text \<open>\<open>[^\s@]\<close>\<close>

definition not_space_at :: "char \<Rightarrow> bool" where
  "not_space_at c \<longleftrightarrow> \<not> is_js_space c \<and> c \<noteq> CHR ''@''"

text \<open>\<open>/^[^\s@]+@[^\s@]+\.[^\s@]+$/\<close>\<close>

definition email_rx :: rx where
  "email_rx = rx_seq [Plus (Cls not_space_at), lit (CHR ''@''), Plus (Cls not_space_at),
     lit (CHR ''.''), Plus (Cls not_space_at)]"

text \<open>\<open>/^\+7\s\(\d{4}\)\s\d{2}-\d{2}-\d{2}$/\<close>: every atom is one character, so the
  pattern is a sequence of eighteen classes.\<close>

definition phone_classes :: "(char \<Rightarrow> bool) list" where
  "phone_classes = [(\<lambda>c. c = CHR ''+''), (\<lambda>c. c = CHR ''7''), is_js_space, (\<lambda>c. c = CHR ''('')]
     @ replicate 4 is_js_digit @ [(\<lambda>c. c = CHR '')''), is_js_space]
     @ replicate 2 is_js_digit @ [(\<lambda>c. c = CHR ''-'')]
     @ replicate 2 is_js_digit @ [(\<lambda>c. c = CHR ''-'')]
     @ replicate 2 is_js_digit"

definition phone_rx :: rx where
  "phone_rx = rx_seq (map Cls phone_classes)"

subsection \<open>validateForm\<close>

text \<open>The checks in source order: (condition, key, message). Text fields are tested after
  \<open>trim()\<close>, the four selects only for the empty string; the two format checks run on
  the untrimmed value when it is non-empty and overwrite an earlier message.\<close>

definition validation_checks :: "profile_form \<Rightarrow> (bool \<times> profile_field \<times> err_msg) list" where
  "validation_checks f = [
     (js_trim (fd_firstName f) = [], F_firstName, Required),
     (js_trim (fd_lastName f) = [], F_lastName, Required),
     (js_trim (fd_middleName f) = [], F_middleName, Required),
     (fd_ministry f = [], F_ministry, SelectMinistry),
     (fd_department f = [], F_department, SelectDepartment),
     (fd_position f = [], F_position, SelectPosition),
     (fd_address f = [], F_address, SelectAddress),
     (js_trim (fd_officeNumber f) = [], F_officeNumber, Required),
     (js_trim (fd_phoneNumber f) = [], F_phoneNumber, Required),
     (js_trim (fd_internalPhone f) = [], F_internalPhone, Required),
     (js_trim (fd_email f) = [], F_email, Required),
     (fd_email f \<noteq> [] \<and> \<not> matches email_rx (fd_email f), F_email, InvalidEmail),
     (fd_phoneNumber f \<noteq> [] \<and> \<not> matches phone_rx (fd_phoneNumber f), F_phoneNumber, PhoneFormat)]"

definition run_checks :: "(bool \<times> profile_field \<times> err_msg) list \<Rightarrow> form_errors \<Rightarrow> form_errors" where
  "run_checks cs e = fold (\<lambda>(b, k, m) acc. if b then AList.update k m acc else acc) cs e"

definition validate_errors :: "profile_form \<Rightarrow> form_errors" where
  "validate_errors f = run_checks (validation_checks f) []"

text \<open>The result: the errors the form shows, and \<open>Object.keys(newErrors).length === 0\<close>.\<close>

definition validateForm :: "profile_form \<Rightarrow> form_errors \<times> bool" where
  "validateForm f = (validate_errors f, validate_errors f = [])"

subsection \<open>handlePhoneFormat\<close>

text \<open>\<open>^7(\d{4})(\d{2})(\d{2})(\d{2})\<close>, matched at the start of the digits.\<close>

definition phone_prefix_rx :: rx where
  "phone_prefix_rx = rx_seq (map Cls ((\<lambda>c. c = CHR ''7'') # replicate 10 is_js_digit))"

text \<open>\<open>cleaned.replace(re, '+7 ($1) $2-$3-$4')\<close>: the first (and only possible) match is the
  first eleven characters; the rest of the string is kept.\<close>

definition phone_replace :: "string \<Rightarrow> string" where
  "phone_replace c = (if 11 \<le> length c \<and> matches phone_prefix_rx (take 11 c)
     then ''+7 ('' @ take 4 (drop 1 c) @ '') '' @ take 2 (drop 5 c) @ ''-'' @ take 2 (drop 7 c)
          @ ''-'' @ take 2 (drop 9 c) @ drop 11 c
     else c)"

definition handlePhoneFormat :: "string \<Rightarrow> string" where
  "handlePhoneFormat v = (let cleaned = filter is_js_digit v in
     if take 1 cleaned = ''7'' then phone_replace cleaned else v)"

subsection \<open>The patterns as direct checks\<close>

lemma matches_phone_rx: "matches phone_rx s \<longleftrightarrow> list_all2 (\<lambda>p c. p c) phone_classes s"
  unfolding phone_rx_def by (rule matches_rx_seq_Cls)

lemma matches_phone_prefix_rx:
  "matches phone_prefix_rx s \<longleftrightarrow> list_all2 (\<lambda>p c. p c) ((\<lambda>c. c = CHR ''7'') # replicate 10 is_js_digit) s"
  unfolding phone_prefix_rx_def by (rule matches_rx_seq_Cls)


subsection \<open>The outcome of validation, field by field\<close>

text \<open>What the form should report for one field, read independently of the others: the
  required-field test, and for email and phone the format test, which wins when the
  value is non-empty.\<close>

fun field_outcome :: "profile_form \<Rightarrow> profile_field \<Rightarrow> err_msg option" where
  "field_outcome f F_firstName = (if js_trim (fd_firstName f) = [] then Some Required else None)"
| "field_outcome f F_lastName = (if js_trim (fd_lastName f) = [] then Some Required else None)"
| "field_outcome f F_middleName = (if js_trim (fd_middleName f) = [] then Some Required else None)"
| "field_outcome f F_ministry = (if fd_ministry f = [] then Some SelectMinistry else None)"
| "field_outcome f F_department = (if fd_department f = [] then Some SelectDepartment else None)"
| "field_outcome f F_position = (if fd_position f = [] then Some SelectPosition else None)"
| "field_outcome f F_address = (if fd_address f = [] then Some SelectAddress else None)"
| "field_outcome f F_officeNumber = (if js_trim (fd_officeNumber f) = [] then Some Required else None)"
| "field_outcome f F_phoneNumber = (if fd_phoneNumber f \<noteq> [] \<and> \<not> matches phone_rx (fd_phoneNumber f)
     then Some PhoneFormat else if js_trim (fd_phoneNumber f) = [] then Some Required else None)"
| "field_outcome f F_internalPhone = (if js_trim (fd_internalPhone f) = [] then Some Required else None)"
| "field_outcome f F_email = (if fd_email f \<noteq> [] \<and> \<not> matches email_rx (fd_email f)
     then Some InvalidEmail else if js_trim (fd_email f) = [] then Some Required else None)"

text \<open>The error object read at one key: only the checks for that key matter.\<close>

lemma map_of_run_checks_at:
  "map_of (run_checks cs e) x = fold (\<lambda>(b, k, m) r. if b \<and> k = x then Some m else r) cs (map_of e x)"
  by (induction cs arbitrary: e) (auto simp: run_checks_def update_conv)

lemma distinct_run_checks: "distinct (map fst e) \<Longrightarrow> distinct (map fst (run_checks cs e))"
  by (induction cs arbitrary: e) (auto simp: run_checks_def distinct_update)

lemma validate_errors_distinct: "distinct (map fst (validate_errors f))"
  by (simp add: validate_errors_def distinct_run_checks)

subsection \<open>Helper lemmas for the phone formatter\<close>

lemma list_all2_replicate_classes:
  "list_all2 (\<lambda>p c. p c) (replicate n p) ys \<longleftrightarrow> length ys = n \<and> list_all p ys"
  by (auto simp: list_all2_conv_all_nth list_all_length)

lemma list_all_take_drop [simp]:
  "list_all P xs \<Longrightarrow> list_all P (take n xs)" "list_all P xs \<Longrightarrow> list_all P (drop n xs)"
  by (auto simp: list_all_iff dest: in_set_takeD in_set_dropD)

lemma take_drop_append_drop: "k = n + m \<Longrightarrow> take m (drop n xs) @ drop k xs = drop n xs"
  by (metis add.commute append_take_drop_id drop_drop)

lemma phone_prefix_match:
  assumes "11 \<le> length c"
  shows "matches phone_prefix_rx (take 11 c) \<longleftrightarrow> take 1 c = ''7'' \<and> list_all is_js_digit (take 10 (drop 1 c))"
proof (cases c)
  case Nil
  with assms show ?thesis by simp
next
  case (Cons x xs)
  with assms show ?thesis
    by (auto simp: matches_phone_prefix_rx list_all2_replicate_classes)
qed

lemma phone_replace_filter:
  assumes "list_all is_js_digit c"
  shows "filter is_js_digit (phone_replace c) = c"
proof (cases "11 \<le> length c \<and> matches phone_prefix_rx (take 11 c)")
  case True
  with phone_prefix_match have "take 1 c = ''7''" by blast
  have digits: "filter is_js_digit (take n (drop m c)) = take n (drop m c)"
    "filter is_js_digit (drop m c) = drop m c" for n m
    using assms by (auto intro!: filter_True simp: list_all_iff dest: in_set_takeD in_set_dropD)
  have "filter is_js_digit (phone_replace c) =
      ''7'' @ take 4 (drop 1 c) @ take 2 (drop 5 c) @ take 2 (drop 7 c) @ take 2 (drop 9 c) @ drop 11 c"
    using True by (simp add: phone_replace_def digits is_js_digit_def)
  also have "\<dots> = ''7'' @ drop 1 c"
    by (simp add: take_drop_append_drop)
  also have "\<dots> = c"
    using \<open>take 1 c = ''7''\<close> by (metis append_take_drop_id)
  finally show ?thesis .
next
  case False
  then have "phone_replace c = c" unfolding phone_replace_def by (rule if_not_P)
  with assms show ?thesis by (simp add: filter_True list_all_iff)
qed


lemma filter_digits_all [simp]: "list_all is_js_digit (filter is_js_digit v)"
  by (simp add: list_all_iff)


subsection \<open>Properties of validateForm\<close>

text \<open>C5. The error report is computed over all fields without stopping at the first
  failure: for every field, the message the report holds is exactly that field's own
  outcome (required test, overwritten by the format test for email and phone).\<close>

theorem validate_errors_outcome: "map_of (validate_errors f) k = field_outcome f k"
  by (cases k) (simp_all add: validate_errors_def map_of_run_checks_at validation_checks_def)

text \<open>\<open>validateForm\<close> answers \<open>true\<close> exactly when no field has an error.\<close>

theorem validateForm_ok_iff: "snd (validateForm f) \<longleftrightarrow> (\<forall>k. field_outcome f k = None)"
proof -
  have "validate_errors f = [] \<longleftrightarrow> (\<forall>k. map_of (validate_errors f) k = None)"
    by (cases "validate_errors f") (auto simp: map_of_eq_None_iff)
  moreover have "map_of (validate_errors f) k = field_outcome f k" for k
    by (cases k) (simp_all add: validate_errors_def map_of_run_checks_at validation_checks_def)
  ultimately show ?thesis by (simp add: validateForm_def)
qed

text \<open>C6. The email pattern accepts exactly a non-empty local part, one \<open>@\<close>, a non-empty
  domain part, a dot and a non-empty last part, none of which holds white space or
  another \<open>@\<close>.\<close>

theorem email_rx_iff:
  "matches email_rx s \<longleftrightarrow>
     (\<exists>l d t. s = l @ CHR ''@'' # d @ CHR ''.'' # t \<and> l \<noteq> [] \<and> d \<noteq> [] \<and> t \<noteq> [] \<and>
        list_all not_space_at (l @ d @ t))"
  by (simp add: email_rx_def rx_seq_def matches_Cat matches_Plus_Cls) blast

text \<open>The spec's example: a form valid in every field but \<open>email = "not-an-email"\<close>
  is reported with exactly one error, the email format message.\<close>

theorem validate_only_email_example:
  "validateForm \<lparr>fd_firstName = ''Ivan'', fd_lastName = ''Ivanov'', fd_middleName = ''Ivanovich'',
     fd_ministry = ''1'', fd_department = ''1'', fd_position = ''2'', fd_address = ''1'',
     fd_officeNumber = ''201'', fd_phoneNumber = ''+7 (4212) 12-34-57'', fd_internalPhone = ''1235'',
     fd_email = ''not-an-email''\<rparr> = ([(F_email, InvalidEmail)], False)"
  by code_simp

subsection \<open>Properties of handlePhoneFormat\<close>

text \<open>C7. Eleven digits starting with 7, typed with any punctuation, are formatted into a
  string the phone pattern of \<open>validateForm\<close> accepts.\<close>

theorem handlePhoneFormat_valid:
  assumes "length (filter is_js_digit v) = 11" and "take 1 (filter is_js_digit v) = ''7''"
  shows "matches phone_rx (handlePhoneFormat v)"
proof -
  define c where "c = filter is_js_digit v"
  have d: "list_all is_js_digit c" by (simp add: c_def)
  have len: "length c = 11" and seven: "take 1 c = ''7''" using assms by (simp_all add: c_def)
  have "matches phone_prefix_rx (take 11 c)"
    using phone_prefix_match [of c] len seven d by simp
  with len seven have "handlePhoneFormat v = ''+7 ('' @ take 4 (drop 1 c) @ '') '' @ take 2 (drop 5 c)
      @ ''-'' @ take 2 (drop 7 c) @ ''-'' @ take 2 (drop 9 c)"
    by (simp add: handlePhoneFormat_def phone_replace_def c_def [symmetric])
  with d len show ?thesis
    by (simp add: matches_phone_rx phone_classes_def list_all2_replicate_classes list_all2_append
        is_js_space_def)
qed


text \<open>C8. Formatting is idempotent: formatting the formatted value changes nothing.\<close>

theorem handlePhoneFormat_idem: "handlePhoneFormat (handlePhoneFormat v) = handlePhoneFormat v"
proof (cases "take 1 (filter is_js_digit v) = ''7''")
  case True
  have "filter is_js_digit (phone_replace (filter is_js_digit v)) = filter is_js_digit v"
    by (simp add: phone_replace_filter)
  with True show ?thesis by (simp add: handlePhoneFormat_def Let_def)
next
  case False
  then show ?thesis by (simp add: handlePhoneFormat_def Let_def)
qed


text \<open>The spec's examples: \<open>74212123456\<close> becomes \<open>+7 (4212) 12-34-56\<close>; \<open>123\<close>
  (no leading 7) is returned unchanged.\<close>

theorem handlePhoneFormat_examples:
  "handlePhoneFormat ''74212123456'' = ''+7 (4212) 12-34-56'' \<and> handlePhoneFormat ''123'' = ''123''"
  by code_simp

text \<open>C9. Input whose digits start with 7 but number fewer than eleven is not returned
  unchanged: it comes back stripped to its digits.\<close>

theorem handlePhoneFormat_short:
  assumes "take 1 (filter is_js_digit v) = ''7''" and "length (filter is_js_digit v) < 11"
  shows "handlePhoneFormat v = filter is_js_digit v"
  using assms by (simp add: handlePhoneFormat_def phone_replace_def)

subsection \<open>Witnesses\<close>

lemma handlePhoneFormat_valid_witness:
  "length (filter is_js_digit ''7 (4212) 123456'') = 11 \<and> take 1 (filter is_js_digit ''7 (4212) 123456'') = ''7''
   \<and> matches phone_rx (handlePhoneFormat ''7 (4212) 123456'')"
proof -
  have l: "length (filter is_js_digit ''7 (4212) 123456'') = 11" by code_simp
  have t: "take 1 (filter is_js_digit ''7 (4212) 123456'') = ''7''" by code_simp
  from handlePhoneFormat_valid [OF l t] l t show ?thesis by blast
qed

lemma handlePhoneFormat_short_witness:
  "take 1 (filter is_js_digit ''7 (42'') = ''7'' \<and> length (filter is_js_digit ''7 (42'') < 11
   \<and> handlePhoneFormat ''7 (42'' = ''742''"
proof -
  have t: "take 1 (filter is_js_digit ''7 (42'') = ''7''" by code_simp
  have l: "length (filter is_js_digit ''7 (42'') < 11" by code_simp
  have "filter is_js_digit ''7 (42'' = ''742''" by code_simp
  with handlePhoneFormat_short [OF t l] t l show ?thesis by simp
qed

end
