(* ===== verification/First_Login.thy ===== *)
theory First_Login
  imports Auth_Context Profile_Validation
begin

text \<open>
  The stateful part of \<open>src/src/components/profile/FirstLoginForm.tsx\<close>: the component's
  state (\<open>formData\<close>, \<open>errors\<close>, \<open>isLoading\<close>), its initialisation from the current
  user, \<open>handleInputChange\<close>, the department filter, and \<open>handleSubmit\<close>.

  \<open>handleSubmit\<close> runs the \<open>updateUserProfile\<close> and \<open>completeFirstLogin\<close> of the render
  that created it, so both read the same captured \<open>user\<close>: the parameter \<open>cu\<close>. From
  a fresh render \<open>cu = user c\<close>; the second call does not see the first one's update.
  The two calls run in one task (the \<open>await\<close> resumes in a microtask, before any user
  event), so the handler is one step here.
\<close>

record first_login_state =
  formData :: profile_form
  errors :: form_errors
  fl_isLoading :: bool

text \<open>\<open>user?.field || ''\<close>\<close>

definition user_field_or_empty :: "(user \<Rightarrow> string) \<Rightarrow> user option \<Rightarrow> string" where
  "user_field_or_empty f cu = (case cu of None \<Rightarrow> [] | Some u \<Rightarrow> f u)"

definition init_first_login :: "user option \<Rightarrow> first_login_state" where
  "init_first_login cu = \<lparr>formData = \<lparr>
       fd_firstName = user_field_or_empty firstName cu, fd_lastName = user_field_or_empty lastName cu,
       fd_middleName = user_field_or_empty middleName cu, fd_ministry = user_field_or_empty ministry cu,
       fd_department = user_field_or_empty department cu, fd_position = user_field_or_empty position cu,
       fd_address = user_field_or_empty address cu, fd_officeNumber = user_field_or_empty officeNumber cu,
       fd_phoneNumber = user_field_or_empty phoneNumber cu,
       fd_internalPhone = user_field_or_empty internalPhone cu, fd_email = user_field_or_empty email cu\<rparr>,
     errors = [], fl_isLoading = False\<rparr>"

text \<open>\<open>{ ...prev, [field]: value }\<close>\<close>

fun set_form_field :: "profile_field \<Rightarrow> string \<Rightarrow> profile_form \<Rightarrow> profile_form" where
  "set_form_field F_firstName v f = f\<lparr>fd_firstName := v\<rparr>"
| "set_form_field F_lastName v f = f\<lparr>fd_lastName := v\<rparr>"
| "set_form_field F_middleName v f = f\<lparr>fd_middleName := v\<rparr>"
| "set_form_field F_ministry v f = f\<lparr>fd_ministry := v\<rparr>"
| "set_form_field F_department v f = f\<lparr>fd_department := v\<rparr>"
| "set_form_field F_position v f = f\<lparr>fd_position := v\<rparr>"
| "set_form_field F_address v f = f\<lparr>fd_address := v\<rparr>"
| "set_form_field F_officeNumber v f = f\<lparr>fd_officeNumber := v\<rparr>"
| "set_form_field F_phoneNumber v f = f\<lparr>fd_phoneNumber := v\<rparr>"
| "set_form_field F_internalPhone v f = f\<lparr>fd_internalPhone := v\<rparr>"
| "set_form_field F_email v f = f\<lparr>fd_email := v\<rparr>"

text \<open>\<open>if (errors[field])\<close>: a present, non-empty message.\<close>

definition error_shown :: "form_errors \<Rightarrow> profile_field \<Rightarrow> bool" where
  "error_shown e k \<longleftrightarrow> (case map_of e k of None \<Rightarrow> False | Some m \<Rightarrow> m \<noteq> Cleared)"

definition handleInputChange :: "profile_field \<Rightarrow> string \<Rightarrow> first_login_state \<Rightarrow> first_login_state" where
  "handleInputChange k v st = st\<lparr>formData := set_form_field k v (formData st),
     errors := (if error_shown (errors st) k then AList.update k Cleared (errors st) else errors st)\<rparr>"

text \<open>The phone input's \<open>onChange\<close>: the value goes through \<open>handlePhoneFormat\<close> first.\<close>

definition handlePhoneChange :: "string \<Rightarrow> first_login_state \<Rightarrow> first_login_state" where
  "handlePhoneChange v st = handleInputChange F_phoneNumber (handlePhoneFormat v) st"

definition filteredDepartments :: "department list \<Rightarrow> profile_form \<Rightarrow> department list" where
  "filteredDepartments ds f = filter (\<lambda>d. dep_ministryId d = fd_ministry f) ds"

text \<open>\<open>updateUserProfile(formData)\<close>: the form object has exactly the eleven form keys.\<close>

definition form_patch :: "profile_form \<Rightarrow> user_patch" where
  "form_patch f = \<lparr>up_id = None, up_domain = None, up_firstName = Some (fd_firstName f),
     up_lastName = Some (fd_lastName f), up_middleName = Some (fd_middleName f),
     up_ministry = Some (fd_ministry f), up_department = Some (fd_department f),
     up_position = Some (fd_position f), up_address = Some (fd_address f),
     up_officeNumber = Some (fd_officeNumber f), up_phoneNumber = Some (fd_phoneNumber f),
     up_internalPhone = Some (fd_internalPhone f), up_email = Some (fd_email f),
     up_role = None, up_isFirstLogin = None\<rparr>"

text \<open>\<open>handleSubmit\<close>: validation (its \<open>setErrors\<close> included) and the early return; then
  \<open>setIsLoading(true)\<close>, the \<open>try\<close> block, the \<open>catch\<close> that only logs, and the
  \<open>finally\<close> that clears the flag.\<close>

definition handleSubmit :: "user option \<Rightarrow> first_login_state \<Rightarrow> ctx_state \<Rightarrow> first_login_state \<times> ctx_state" where
  "handleSubmit cu st c = (case validateForm (formData st) of (errs, ok) \<Rightarrow>
     if \<not> ok then (st\<lparr>errors := errs\<rparr>, c)
     else (case js_then (updateUserProfile cu (form_patch (formData st)) c)
                  (\<lambda>_ c1. completeFirstLogin cu c1) of
             (_, c') \<Rightarrow> (st\<lparr>errors := errs, fl_isLoading := False\<rparr>, c')))"

subsection \<open>A session waiting for its profile\<close>

text \<open>The directory has no account waiting for its profile; such a session comes from
  storage. Here: Ivanov's record with the first-login flag set, restored at start-up.\<close>

definition pending_ivanov :: user where
  "pending_ivanov = (mock_users ! 1)\<lparr>isFirstLogin := True\<rparr>"

definition pending_ctx :: ctx_state where
  "pending_ctx = (initial_ctx (Some (Saved pending_ivanov)) True)\<lparr>user := Some pending_ivanov,
     isAuthenticated := True, isLoading := False\<rparr>"

text \<open>The form after the user changes the office number from 201 to 305.\<close>

definition edited_form :: first_login_state where
  "edited_form = handleInputChange F_officeNumber ''305'' (init_first_login (Some pending_ivanov))"

declare init_first_login_def [portal_defs] handleInputChange_def [portal_defs]
  handlePhoneChange_def [portal_defs] filteredDepartments_def [portal_defs]
  form_patch_def [portal_defs] handleSubmit_def [portal_defs]

subsection \<open>Helper lemmas on the submit handler\<close>

lemma handleSubmit_consistent:
  assumes "session_consistent c" "storage_writable c" "cu = None \<or> isAuthenticated c"
  shows "session_consistent (snd (handleSubmit cu st c))"
proof -
  obtain r1 c1 where u: "updateUserProfile cu (form_patch (formData st)) c = (r1, c1)" by fastforce
  have eq: "c1 = snd (updateUserProfile cu (form_patch (formData st)) c)" using u by simp
  have c1: "session_consistent c1" "storage_writable c1" "isAuthenticated c1 = isAuthenticated c"
    using updateUserProfile_consistent [OF assms] assms(2) unfolding eq by simp_all
  have "session_consistent (snd (completeFirstLogin cu c1))"
    using completeFirstLogin_consistent [OF c1(1,2)] c1(3) assms(3) by blast
  with assms(1) u c1(1) show ?thesis
    by (auto simp: handleSubmit_def js_then_def split: prod.splits sum.splits)
qed

lemma handleSubmit_frame [simp]:
  "storage_writable (snd (handleSubmit cu st c)) = storage_writable c"
  "isLoading (snd (handleSubmit cu st c)) = isLoading c"
  "isAuthenticated (snd (handleSubmit cu st c)) = isAuthenticated c"
  by (auto simp: portal_defs split: prod.splits sum.splits option.splits)

lemma handleSubmit_user:
  assumes "user c = Some u"
  shows "user (snd (handleSubmit (user c) st c)) =
    (if \<not> snd (validateForm (formData st)) then Some u
     else if storage_writable c then Some (u\<lparr>isFirstLogin := False\<rparr>)
     else Some (merge_user u (form_patch (formData st))))"
  using assms by (auto simp: handleSubmit_def updateUserProfile_def completeFirstLogin_def validateForm_def)

lemma form_patch_flag [simp]: "up_isFirstLogin (form_patch f) = None"
  by (simp add: form_patch_def)

subsection \<open>Submitting the profile\<close>

text \<open>C11. With a valid form and writable storage, \<open>handleSubmit\<close> from a fresh render
  ends with the user as it was before the form, only its first-login flag cleared: the
  stale \<open>completeFirstLogin\<close> overwrites the profile \<open>updateUserProfile\<close> has just set, in
  memory and in storage. The submitted form data is lost.\<close>

theorem handleSubmit_discards_profile:
  assumes "snd (validateForm (formData st))" and "user c = Some u" and "storage_writable c"
  shows "snd (handleSubmit (user c) st c) =
    c\<lparr>user := Some (u\<lparr>isFirstLogin := False\<rparr>), storage := Some (Saved (u\<lparr>isFirstLogin := False\<rparr>))\<rparr>"
  using assms by (simp add: handleSubmit_def updateUserProfile_def completeFirstLogin_def validateForm_def)

text \<open>C12. An invalid form changes nothing in the session: the component shows the full
  error report and the context state is untouched.\<close>

theorem handleSubmit_invalid:
  assumes "\<not> snd (validateForm (formData st))"
  shows "handleSubmit cu st c = (st\<lparr>errors := fst (validateForm (formData st))\<rparr>, c)"
  using assms by (simp add: handleSubmit_def validateForm_def)

text \<open>C13. When storage is not writable, the first \<open>setItem\<close> throws after \<open>setUser\<close>:
  the merged profile stays in memory, the first-login flag stays set, nothing is
  persisted, and the error is only logged. Nothing is rolled back.\<close>

theorem handleSubmit_unwritable:
  assumes "snd (validateForm (formData st))" and "user c = Some u" and "\<not> storage_writable c"
  shows "snd (handleSubmit (user c) st c) = c\<lparr>user := Some (merge_user u (form_patch (formData st)))\<rparr>"
  using assms by (simp add: handleSubmit_def updateUserProfile_def validateForm_def)

text \<open>C14. Changing the ministry never resets the department, and validation does not
  relate the two: on a form that passes validation, choosing any other ministry keeps
  the chosen department, whichever ministry it belongs to, and the form still passes.\<close>

theorem department_outside_ministry_accepted:
  assumes "snd (validateForm (formData st))" and "m \<noteq> []"
  shows "fd_department (formData (handleInputChange F_ministry m st)) = fd_department (formData st) \<and>
         snd (validateForm (formData (handleInputChange F_ministry m st)))"
proof -
  have f: "formData (handleInputChange F_ministry m st) = (formData st)\<lparr>fd_ministry := m\<rparr>"
    by (simp add: handleInputChange_def)
  have ok: "\<forall>k. field_outcome (formData st) k = None" using assms(1) validateForm_ok_iff by blast
  have same: "field_outcome ((formData st)\<lparr>fd_ministry := m\<rparr>) k = field_outcome (formData st) k"
    if "k \<noteq> F_ministry" for k
    using that by (cases k) simp_all
  have "field_outcome ((formData st)\<lparr>fd_ministry := m\<rparr>) k = None" for k
    using ok same [of k] assms(2) by (cases "k = F_ministry") auto
  with f show ?thesis by (simp add: validateForm_ok_iff)
qed

subsection \<open>Witnesses\<close>

lemma handleSubmit_discards_profile_witness:
  "snd (validateForm (formData edited_form)) \<and> user pending_ctx = Some pending_ivanov \<and>
   storage_writable pending_ctx \<and>
   snd (handleSubmit (user pending_ctx) edited_form pending_ctx) =
     pending_ctx\<lparr>user := Some (pending_ivanov\<lparr>isFirstLogin := False\<rparr>),
       storage := Some (Saved (pending_ivanov\<lparr>isFirstLogin := False\<rparr>))\<rparr>"
proof -
  have v: "snd (validateForm (formData edited_form))" by code_simp
  have u: "user pending_ctx = Some pending_ivanov" by (simp add: pending_ctx_def)
  have w: "storage_writable pending_ctx" by (simp add: pending_ctx_def initial_ctx_def)
  from v u w handleSubmit_discards_profile [OF v u w] show ?thesis by blast
qed

lemma handleSubmit_invalid_witness:
  "\<not> snd (validateForm (formData (init_first_login None))) \<and>
   handleSubmit None (init_first_login None) pending_ctx =
     ((init_first_login None)\<lparr>errors := fst (validateForm (formData (init_first_login None)))\<rparr>, pending_ctx)"
proof -
  have v: "\<not> snd (validateForm (formData (init_first_login None)))" by code_simp
  from v handleSubmit_invalid [OF v] show ?thesis by blast
qed

lemma handleSubmit_unwritable_witness:
  "snd (validateForm (formData edited_form)) \<and> user (pending_ctx\<lparr>storage_writable := False\<rparr>) = Some pending_ivanov \<and>
   \<not> storage_writable (pending_ctx\<lparr>storage_writable := False\<rparr>) \<and>
   snd (handleSubmit (user (pending_ctx\<lparr>storage_writable := False\<rparr>)) edited_form (pending_ctx\<lparr>storage_writable := False\<rparr>)) =
     (pending_ctx\<lparr>storage_writable := False\<rparr>)\<lparr>user := Some (merge_user pending_ivanov (form_patch (formData edited_form)))\<rparr>"
proof -
  have v: "snd (validateForm (formData edited_form))" by code_simp
  have u: "user (pending_ctx\<lparr>storage_writable := False\<rparr>) = Some pending_ivanov" by (simp add: pending_ctx_def)
  have w: "\<not> storage_writable (pending_ctx\<lparr>storage_writable := False\<rparr>)" by simp
  from v u w handleSubmit_unwritable [OF v u w] show ?thesis by blast
qed

lemma department_outside_ministry_accepted_witness:
  "fd_department (formData (handleInputChange F_ministry ''2'' (init_first_login (Some pending_ivanov)))) = ''1'' \<and>
   ''1'' \<notin> dep_id ` set (filteredDepartments mock_departments
            (formData (handleInputChange F_ministry ''2'' (init_first_login (Some pending_ivanov))))) \<and>
   snd (validateForm (formData (handleInputChange F_ministry ''2'' (init_first_login (Some pending_ivanov)))))"
proof -
  have v: "snd (validateForm (formData (init_first_login (Some pending_ivanov))))" by code_simp
  have d: "fd_department (formData (init_first_login (Some pending_ivanov))) = ''1'' \<and>
     ''1'' \<notin> dep_id ` set (filteredDepartments mock_departments
            (formData (handleInputChange F_ministry ''2'' (init_first_login (Some pending_ivanov)))))" by code_simp
  from department_outside_ministry_accepted [OF v, of "''2''"] d show ?thesis by simp
qed

end
