(* ===== verification/Login_Form.thy ===== *)
theory Login_Form
  imports Auth_Context
begin

text \<open>
  \<open>src/src/components/auth/LoginForm.tsx\<close>: the submit handler and what the form
  renders. The typed account and
  password are its arguments; the component's \<open>error\<close> state is one of three messages
  (none, "fill in all fields", "invalid credentials"). The handler is asynchronous, so it
  is two halves: up to the \<open>await\<close> of \<open>login\<close> (clear the message, check both fields,
  call \<open>login\<close>, which sets the loading flag and suspends), and after it (show the
  invalid-credentials message when \<open>login\<close> answered \<open>false\<close>). The second half runs in
  whatever component instance issued the call; whether that instance is still mounted is
  the application's business (Portal_App). When \<open>login\<close> throws, the rejection escapes
  \<open>handleSubmit\<close> unhandled and the message stays as it was.
\<close>

datatype login_msg = NoMsg | FillAllFields | InvalidCredentials

text \<open>Up to the \<open>await\<close>: the message, the context, and the suspended call if one was
  made.\<close>

definition login_submit_begin ::
  "string \<Rightarrow> string \<Rightarrow> ctx_state \<Rightarrow> login_msg \<times> ctx_state \<times> (string \<times> string) option" where
  "login_submit_begin d pw c = (if d = [] \<or> pw = [] then (FillAllFields, c, None)
     else (NoMsg, login_begin c, Some (d, pw)))"

text \<open>After the \<open>await\<close>: \<open>if (!success) setError(...)\<close>.\<close>

definition login_submit_resume :: "login_msg \<Rightarrow> string \<Rightarrow> string \<Rightarrow> ctx_state \<Rightarrow> login_msg \<times> ctx_state" where
  "login_submit_resume m d pw c = (case login_resume d pw c of
       (Inr True, c') \<Rightarrow> (m, c')
     | (Inr False, c') \<Rightarrow> (InvalidCredentials, c')
     | (Inl _, c') \<Rightarrow> (m, c'))"

text \<open>What the form renders of its state and of the context's \<open>isLoading\<close>: both inputs
  and the submit button are \<open>disabled={isLoading}\<close>, the button reads "Signing in..."
  with a spinner instead of "Sign in" while loading, and \<open>{error && <Alert>}\<close> shows the
  message when there is one. Labels, placeholders and the demo credentials are fixed
  text.\<close>

datatype login_button = BtnSignIn | BtnSigningIn

record login_view =
  lv_inputs_disabled :: bool
  lv_alert :: "login_msg option"
  lv_button :: login_button
  lv_button_disabled :: bool

definition login_render :: "bool \<Rightarrow> login_msg \<Rightarrow> login_view" where
  "login_render loading err = \<lparr>lv_inputs_disabled = loading,
     lv_alert = (if err = NoMsg then None else Some err),
     lv_button = (if loading then BtnSigningIn else BtnSignIn), lv_button_disabled = loading\<rparr>"

lemma login_submit_resume_ctx [simp]: "snd (login_submit_resume m d pw c) = snd (login_resume d pw c)"
  by (simp add: login_submit_resume_def split: prod.split sum.split bool.split)

lemma login_submit_resume_eq: "login_submit_resume m d pw c = (m', c') \<Longrightarrow> c' = snd (login_resume d pw c)"
  using login_submit_resume_ctx [of m d pw c] by simp

text \<open>The message after the \<open>await\<close>: the one before, or the invalid-credentials message
  when \<open>login\<close> only cleared the loading flag.\<close>

lemma login_submit_resume_msg:
  "fst (login_submit_resume m d pw c) = m \<or>
   (fst (login_submit_resume m d pw c) = InvalidCredentials \<and> snd (login_resume d pw c) = c\<lparr>isLoading := False\<rparr>)"
  by (auto simp: login_submit_resume_def login_resume_def js_then_def setItem_def
      split: option.splits if_splits sum.splits prod.splits bool.splits)

text \<open>Seen from the handler, a rejected login ends with the invalid-credentials message
  and only the loading flag cleared.\<close>

lemma login_submit_rejected:
  assumes "find_account d = None \<or> pw \<noteq> ''password''"
  shows "login_submit_resume m d pw (login_begin c) = (InvalidCredentials, c\<lparr>isLoading := False\<rparr>)"
  using assms by (auto simp: login_submit_resume_def login_resume_def login_begin_def split: option.split)

text \<open>The form never calls \<open>login\<close> with an empty field: the state is untouched,
  nothing is suspended, and the form asks for both fields.\<close>

theorem login_form_empty_field:
  assumes "d = [] \<or> pw = []"
  shows "login_submit_begin d pw c = (FillAllFields, c, None)"
  using assms by (simp add: login_submit_begin_def)

lemma login_form_empty_field_witness:
  "(''admin@gov27.ru'' = [] \<or> ([]::string) = []) \<and>
   login_submit_begin ''admin@gov27.ru'' [] (initial_ctx None True) = (FillAllFields, initial_ctx None True, None)"
proof -
  have h: "''admin@gov27.ru'' = [] \<or> ([]::string) = []" by simp
  from h login_form_empty_field [OF h] show ?thesis by blast
qed

end
