(* ===== verification/Navigation_Menu.thy ===== *)
theory Navigation_Menu
  imports Auth_Types
begin

text \<open>
  \<open>src/src/components/layout/Navigation.tsx\<close>: the two item lists, the role filter and
  the rendered buttons.
  An item keeps its id, icon and access list; its Russian label is display text only.
\<close>

record nav_item =
  nav_id :: string
  nav_icon :: string
  nav_access :: "role list"

definition navigation :: "nav_item list" where
  "navigation = [
     \<lparr>nav_id = ''dashboard'', nav_icon = ''Home'', nav_access = [RoleAdmin, RoleUser]\<rparr>,
     \<lparr>nav_id = ''profile'', nav_icon = ''User'', nav_access = [RoleAdmin, RoleUser]\<rparr>]"

definition adminNavigation :: "nav_item list" where
  "adminNavigation = [
     \<lparr>nav_id = ''admin'', nav_icon = ''Settings'', nav_access = [RoleAdmin]\<rparr>,
     \<lparr>nav_id = ''ministries'', nav_icon = ''Building'', nav_access = [RoleAdmin]\<rparr>,
     \<lparr>nav_id = ''departments'', nav_icon = ''Users'', nav_access = [RoleAdmin]\<rparr>,
     \<lparr>nav_id = ''positions'', nav_icon = ''Briefcase'', nav_access = [RoleAdmin]\<rparr>,
     \<lparr>nav_id = ''addresses'', nav_icon = ''MapPin'', nav_access = [RoleAdmin]\<rparr>,
     \<lparr>nav_id = ''resources'', nav_icon = ''Grid3x3'', nav_access = [RoleAdmin]\<rparr>]"

text \<open>\<open>user?.role === 'admin'\<close> and \<open>user?.role || 'user'\<close>.\<close>

definition is_admin :: "user option \<Rightarrow> bool" where
  "is_admin u \<longleftrightarrow> (case u of None \<Rightarrow> False | Some x \<Rightarrow> role x = RoleAdmin)"

definition effective_role :: "user option \<Rightarrow> role" where
  "effective_role u = (case u of None \<Rightarrow> RoleUser | Some x \<Rightarrow> role x)"

definition allNavigation :: "user option \<Rightarrow> nav_item list" where
  "allNavigation u = (if is_admin u then navigation @ adminNavigation else navigation)"

definition filteredNavigation :: "user option \<Rightarrow> nav_item list" where
  "filteredNavigation u = filter (\<lambda>i. effective_role u \<in> set (nav_access i)) (allNavigation u)"

text \<open>The ids a click on the menu can pass to \<open>onViewChange\<close>.\<close>

definition menu_ids :: "user option \<Rightarrow> string list" where
  "menu_ids u = map nav_id (filteredNavigation u)"

text \<open>The rendered menu: a button per item of \<open>filteredNavigation\<close>, highlighted
  (\<open>variant="default"\<close>) when \<open>currentView === item.id\<close>, with the Admin badge when
  \<open>item.access.includes('admin') && user?.role === 'admin'\<close>; its click calls
  \<open>onViewChange(item.id)\<close>.\<close>

record nav_button =
  nb_id :: string
  nb_icon :: string
  nb_active :: bool
  nb_badge :: bool

definition nav_render :: "user option \<Rightarrow> string \<Rightarrow> nav_button list" where
  "nav_render u v = map (\<lambda>i. \<lparr>nb_id = nav_id i, nb_icon = nav_icon i, nb_active = (v = nav_id i),
     nb_badge = (RoleAdmin \<in> set (nav_access i) \<and> is_admin u)\<rparr>) (filteredNavigation u)"

text \<open>The menu offers exactly the dashboard and the profile to a signed-in
  non-administrator, and all eight views to an administrator.\<close>

theorem menu_ids_by_role:
  "menu_ids (Some u) = (if role u = RoleAdmin
     then [''dashboard'', ''profile'', ''admin'', ''ministries'', ''departments'', ''positions'', ''addresses'', ''resources'']
     else [''dashboard'', ''profile''])"
proof (cases "role u")
  case RoleAdmin
  then show ?thesis
    by (simp add: menu_ids_def filteredNavigation_def allNavigation_def is_admin_def effective_role_def
        navigation_def adminNavigation_def)
next
  case RoleUser
  then show ?thesis
    by (simp add: menu_ids_def filteredNavigation_def allNavigation_def is_admin_def effective_role_def
        navigation_def)
qed

lemma filteredNavigation_admin_access: "list_all (\<lambda>i. RoleAdmin \<in> set (nav_access i)) (filteredNavigation u)"
  by (simp add: filteredNavigation_def allNavigation_def navigation_def adminNavigation_def)

text \<open>C35. The menu's buttons are the menu's ids, the highlighted one is the current
  view's, and the Admin badge marks every button of an administrator's menu, the
  dashboard and the profile included, since their access lists name the administrator
  too; a regular user's buttons carry none.\<close>

theorem nav_render_buttons:
  "map nb_id (nav_render u v) = menu_ids u \<and>
   map nb_active (nav_render u v) = map (\<lambda>i. i = v) (menu_ids u) \<and>
   map nb_badge (nav_render u v) = replicate (length (menu_ids u)) (is_admin u)"
proof -
  have "map nb_badge (nav_render u v) = map (\<lambda>i. is_admin u) (filteredNavigation u)"
    using filteredNavigation_admin_access [of u] by (simp add: nav_render_def list_all_iff)
  then show ?thesis by (auto simp: nav_render_def menu_ids_def comp_def map_replicate_const)
qed

end
