(* ===== verification/Reference_Data.thy ===== *)
theory Reference_Data
  imports Auth_Context
begin

text \<open>
  The fifteen reference-data operations of \<open>src/src/context/AuthContext.tsx\<close> (lines
  169--232): for each of ministries, departments, positions, addresses and resources an
  \<open>add\<close> that appends the item with the id \<open>Date.now().toString()\<close>, an \<open>update\<close> that
  spreads a \<open>Partial\<close> patch over every item with the given id, and a \<open>delete\<close> that
  filters the id out. \<open>Date.now()\<close> is the argument \<open>now\<close> (milliseconds, a natural number).
  The operations are also collected in a datatype with one step function, the interface
  the admin panel drives. The invariant is the one the spec names for these lists:
  identifiers are unique.
\<close>

definition addMinistry :: "nat \<Rightarrow> ministry \<Rightarrow> ctx_state \<Rightarrow> ctx_state" where
  "addMinistry now m s = s\<lparr>ministries := ministries s @ [m\<lparr>min_id := string_of_nat now\<rparr>]\<rparr>"

definition updateMinistry :: "string \<Rightarrow> ministry_patch \<Rightarrow> ctx_state \<Rightarrow> ctx_state" where
  "updateMinistry i p s = s\<lparr>ministries :=
     update_where (\<lambda>m. min_id m = i) (\<lambda>m. merge_ministry m p) (ministries s)\<rparr>"

definition deleteMinistry :: "string \<Rightarrow> ctx_state \<Rightarrow> ctx_state" where
  "deleteMinistry i s = s\<lparr>ministries := remove_where (\<lambda>m. min_id m = i) (ministries s)\<rparr>"

definition addDepartment :: "nat \<Rightarrow> department \<Rightarrow> ctx_state \<Rightarrow> ctx_state" where
  "addDepartment now d s = s\<lparr>departments := departments s @ [d\<lparr>dep_id := string_of_nat now\<rparr>]\<rparr>"

definition updateDepartment :: "string \<Rightarrow> department_patch \<Rightarrow> ctx_state \<Rightarrow> ctx_state" where
  "updateDepartment i p s = s\<lparr>departments :=
     update_where (\<lambda>d. dep_id d = i) (\<lambda>d. merge_department d p) (departments s)\<rparr>"

definition deleteDepartment :: "string \<Rightarrow> ctx_state \<Rightarrow> ctx_state" where
  "deleteDepartment i s = s\<lparr>departments := remove_where (\<lambda>d. dep_id d = i) (departments s)\<rparr>"

definition addPosition :: "nat \<Rightarrow> position \<Rightarrow> ctx_state \<Rightarrow> ctx_state" where
  "addPosition now q s = s\<lparr>positions := positions s @ [q\<lparr>pos_id := string_of_nat now\<rparr>]\<rparr>"

definition updatePosition :: "string \<Rightarrow> position_patch \<Rightarrow> ctx_state \<Rightarrow> ctx_state" where
  "updatePosition i p s = s\<lparr>positions :=
     update_where (\<lambda>q. pos_id q = i) (\<lambda>q. merge_position q p) (positions s)\<rparr>"

definition deletePosition :: "string \<Rightarrow> ctx_state \<Rightarrow> ctx_state" where
  "deletePosition i s = s\<lparr>positions := remove_where (\<lambda>q. pos_id q = i) (positions s)\<rparr>"

definition addAddress :: "nat \<Rightarrow> address \<Rightarrow> ctx_state \<Rightarrow> ctx_state" where
  "addAddress now a s = s\<lparr>addresses := addresses s @ [a\<lparr>adr_id := string_of_nat now\<rparr>]\<rparr>"

definition updateAddress :: "string \<Rightarrow> address_patch \<Rightarrow> ctx_state \<Rightarrow> ctx_state" where
  "updateAddress i p s = s\<lparr>addresses :=
     update_where (\<lambda>a. adr_id a = i) (\<lambda>a. merge_address a p) (addresses s)\<rparr>"

definition deleteAddress :: "string \<Rightarrow> ctx_state \<Rightarrow> ctx_state" where
  "deleteAddress i s = s\<lparr>addresses := remove_where (\<lambda>a. adr_id a = i) (addresses s)\<rparr>"

definition addResource :: "nat \<Rightarrow> resource \<Rightarrow> ctx_state \<Rightarrow> ctx_state" where
  "addResource now r s = s\<lparr>resources := resources s @ [r\<lparr>res_id := string_of_nat now\<rparr>]\<rparr>"

definition updateResource :: "string \<Rightarrow> resource_patch \<Rightarrow> ctx_state \<Rightarrow> ctx_state" where
  "updateResource i p s = s\<lparr>resources :=
     update_where (\<lambda>r. res_id r = i) (\<lambda>r. merge_resource r p) (resources s)\<rparr>"

definition deleteResource :: "string \<Rightarrow> ctx_state \<Rightarrow> ctx_state" where
  "deleteResource i s = s\<lparr>resources := remove_where (\<lambda>r. res_id r = i) (resources s)\<rparr>"

subsection \<open>The operations as one interface\<close>

datatype ref_op =
    AddMinistry nat ministry | UpdateMinistry string ministry_patch | DeleteMinistry string
  | AddDepartment nat department | UpdateDepartment string department_patch | DeleteDepartment string
  | AddPosition nat position | UpdatePosition string position_patch | DeletePosition string
  | AddAddress nat address | UpdateAddress string address_patch | DeleteAddress string
  | AddResource nat resource | UpdateResource string resource_patch | DeleteResource string

fun apply_ref_op :: "ref_op \<Rightarrow> ctx_state \<Rightarrow> ctx_state" where
  "apply_ref_op (AddMinistry n x) = addMinistry n x"
| "apply_ref_op (UpdateMinistry i p) = updateMinistry i p"
| "apply_ref_op (DeleteMinistry i) = deleteMinistry i"
| "apply_ref_op (AddDepartment n x) = addDepartment n x"
| "apply_ref_op (UpdateDepartment i p) = updateDepartment i p"
| "apply_ref_op (DeleteDepartment i) = deleteDepartment i"
| "apply_ref_op (AddPosition n x) = addPosition n x"
| "apply_ref_op (UpdatePosition i p) = updatePosition i p"
| "apply_ref_op (DeletePosition i) = deletePosition i"
| "apply_ref_op (AddAddress n x) = addAddress n x"
| "apply_ref_op (UpdateAddress i p) = updateAddress i p"
| "apply_ref_op (DeleteAddress i) = deleteAddress i"
| "apply_ref_op (AddResource n x) = addResource n x"
| "apply_ref_op (UpdateResource i p) = updateResource i p"
| "apply_ref_op (DeleteResource i) = deleteResource i"

text \<open>The invariant: ids unique in each list.\<close>

definition ref_ids_distinct :: "ctx_state \<Rightarrow> bool" where
  "ref_ids_distinct s \<longleftrightarrow> distinct (map min_id (ministries s)) \<and> distinct (map dep_id (departments s)) \<and>
     distinct (map pos_id (positions s)) \<and> distinct (map adr_id (addresses s)) \<and>
     distinct (map res_id (resources s))"

text \<open>When an operation keeps it: an add whose timestamp is not already an id of its list,
  an update whose patch leaves the id alone or repeats it, any delete.\<close>

definition keeps_id :: "string \<Rightarrow> string option \<Rightarrow> bool" where
  "keeps_id i p \<longleftrightarrow> p = None \<or> p = Some i"

fun ref_op_ok :: "ref_op \<Rightarrow> ctx_state \<Rightarrow> bool" where
  "ref_op_ok (AddMinistry n _) s = (string_of_nat n \<notin> set (map min_id (ministries s)))"
| "ref_op_ok (UpdateMinistry i p) s = keeps_id i (mp_id p)"
| "ref_op_ok (AddDepartment n _) s = (string_of_nat n \<notin> set (map dep_id (departments s)))"
| "ref_op_ok (UpdateDepartment i p) s = keeps_id i (dp_id p)"
| "ref_op_ok (AddPosition n _) s = (string_of_nat n \<notin> set (map pos_id (positions s)))"
| "ref_op_ok (UpdatePosition i p) s = keeps_id i (pp_id p)"
| "ref_op_ok (AddAddress n _) s = (string_of_nat n \<notin> set (map adr_id (addresses s)))"
| "ref_op_ok (UpdateAddress i p) s = keeps_id i (ap_id p)"
| "ref_op_ok (AddResource n _) s = (string_of_nat n \<notin> set (map res_id (resources s)))"
| "ref_op_ok (UpdateResource i p) s = keeps_id i (rp_id p)"
| "ref_op_ok _ s = True"

declare addMinistry_def [portal_defs] updateMinistry_def [portal_defs] deleteMinistry_def [portal_defs]
  addDepartment_def [portal_defs] updateDepartment_def [portal_defs] deleteDepartment_def [portal_defs]
  addPosition_def [portal_defs] updatePosition_def [portal_defs] deletePosition_def [portal_defs]
  addAddress_def [portal_defs] updateAddress_def [portal_defs] deleteAddress_def [portal_defs]
  addResource_def [portal_defs] updateResource_def [portal_defs] deleteResource_def [portal_defs]

subsection \<open>Lemmas on the operations\<close>

lemma update_where_keeps_distinct:
  assumes "keeps_id i pid" "\<And>x. key (f x) = patch_field (key x) pid" "distinct (map key xs)"
  shows "distinct (map key (update_where (\<lambda>x. key x = i) f xs))"
proof -
  have "map key (update_where (\<lambda>x. key x = i) f xs) = map key xs"
    using assms(1,2) by (intro map_update_where) (auto simp: keeps_id_def)
  with assms(3) show ?thesis by simp
qed

lemma find_update_where:
  "(\<And>x. key x = i \<Longrightarrow> key (f x) = i) \<Longrightarrow>
   find (\<lambda>x. key x = i) (update_where (\<lambda>x. key x = i) f xs) = map_option f (find (\<lambda>x. key x = i) xs)"
  by (induction xs) (auto simp: update_where_def)

lemma find_remove_where:
  "find (\<lambda>x. key x = j) (remove_where (\<lambda>x. key x = i) xs) =
   (if j = i then None else find (\<lambda>x. key x = j) xs)"
  by (induction xs) (auto simp: remove_where_def)

lemmas ref_op_defs = addMinistry_def updateMinistry_def deleteMinistry_def
  addDepartment_def updateDepartment_def deleteDepartment_def
  addPosition_def updatePosition_def deletePosition_def
  addAddress_def updateAddress_def deleteAddress_def
  addResource_def updateResource_def deleteResource_def

lemma ref_op_frame [simp]:
  "user (apply_ref_op op s) = user s" "isAuthenticated (apply_ref_op op s) = isAuthenticated s"
  "isLoading (apply_ref_op op s) = isLoading s" "storage (apply_ref_op op s) = storage s"
  "storage_writable (apply_ref_op op s) = storage_writable s"
  by (cases op; simp add: ref_op_defs)+

text \<open>Every reference-data operation keeps identifiers unique, provided an add's timestamp
  is not an id of its list yet and an update's patch leaves the id unchanged.\<close>

lemma apply_ref_op_ids:
  assumes "ref_ids_distinct s" "ref_op_ok op s"
  shows "ref_ids_distinct (apply_ref_op op s)"
  using assms
  by (cases op) (simp_all add: ref_ids_distinct_def ref_op_defs distinct_map_remove_where
                      update_where_keeps_distinct)

text \<open>C22. Two adds in the same millisecond give two items the same id: the uniqueness
  of identifiers rests on \<open>Date.now()\<close> advancing between adds.\<close>

theorem same_millisecond_adds_duplicate_id:
  "\<not> distinct (map min_id (ministries (addMinistry now m2 (addMinistry now m1 s))))"
  by (simp add: addMinistry_def)

text \<open>After \<open>updateMinistry i p\<close> with a patch that keeps the id, looking the id up
  gives the old entry with the patch spread over it, and nothing when there was none.\<close>

theorem updateMinistry_find:
  assumes "keeps_id i (mp_id p)"
  shows "find (\<lambda>m. min_id m = i) (ministries (updateMinistry i p s)) =
         map_option (\<lambda>m. merge_ministry m p) (find (\<lambda>m. min_id m = i) (ministries s))"
  using assms by (auto simp: updateMinistry_def keeps_id_def intro!: find_update_where)

theorem updateMinistry_find_witness:
  "find (\<lambda>m. min_id m = ''2'') (ministries (updateMinistry ''2'' \<lparr>mp_id = None, mp_name = Some ''MON'', mp_code = None\<rparr> (initial_ctx None True)))
   = Some \<lparr>min_id = ''2'', min_name = ''MON'', min_code = ''MON''\<rparr>"
proof -
  have "keeps_id ''2'' (mp_id \<lparr>mp_id = None, mp_name = Some ''MON'', mp_code = None\<rparr>)"
    by (simp add: keeps_id_def)
  from updateMinistry_find [OF this, of "initial_ctx None True"] show ?thesis by code_simp
qed

text \<open>\<open>deleteMinistry i\<close> removes exactly the id \<open>i\<close>: afterwards it is not found, and
  every other id is found as before.\<close>

theorem deleteMinistry_find:
  "find (\<lambda>m. min_id m = j) (ministries (deleteMinistry i s)) =
   (if j = i then None else find (\<lambda>m. min_id m = j) (ministries s))"
  by (simp add: deleteMinistry_def find_remove_where)

end
