(* ===== verification/Admin_Panel.thy ===== *)
theory Admin_Panel
  imports Reference_Data "HOL-Library.AList"
begin

text \<open>
  The admin screens of \<open>src/src/components/admin/AdminPanel.tsx\<close>: one component for the
  five sections, a dialog with a form (\<open>FormContent\<close>) that adds an item or edits the
  item the dialog was opened for, and a delete button per table row. The form's state is
  a dynamic JavaScript object (\<open>{ ...prev, [field]: value }\<close>), modelled as an association
  list of property names and values; submitting passes it to the context operation of
  the section, as an \<open>Omit<T, 'id'>\<close> for an add and a \<open>Partial<T>\<close> for an update. The
  panel's calls to the context are values of \<open>ref_op\<close> (Reference_Data), the interface
  both sides agree on. Radix' dialog unmounts its content when closed, so the form state
  is created afresh, by the \<open>useState\<close> initialiser, each time the dialog opens; the open
  operations below include that mount.
\<close>

text \<open>\<open>AdminPanelProps.section\<close>.\<close>

datatype admin_section = SecMinistries | SecDepartments | SecPositions | SecAddresses | SecResources

text \<open>The values the form stores: strings from text inputs and selects, the number
  \<open>parseInt\<close> makes of the order input, the boolean \<open>isActive\<close>.\<close>

datatype js_val = JStr string | JNumber js_number | JBool bool

type_synonym form_data = "(string \<times> js_val) list"

text \<open>An element of \<open>getSectionData()\<close>, the \<open>any\<close> of \<open>editingItem\<close> and \<open>renderTableRow\<close>.\<close>

datatype ref_item = IMinistry ministry | IDepartment department | IPosition position
  | IAddress address | IResource resource

fun item_id :: "ref_item \<Rightarrow> string" where
  "item_id (IMinistry m) = min_id m"
| "item_id (IDepartment d) = dep_id d"
| "item_id (IPosition q) = pos_id q"
| "item_id (IAddress a) = adr_id a"
| "item_id (IResource r) = res_id r"

definition getSectionData :: "admin_section \<Rightarrow> ctx_state \<Rightarrow> ref_item list" where
  "getSectionData sec c = (case sec of
       SecMinistries \<Rightarrow> map IMinistry (ministries c)
     | SecDepartments \<Rightarrow> map IDepartment (departments c)
     | SecPositions \<Rightarrow> map IPosition (positions c)
     | SecAddresses \<Rightarrow> map IAddress (addresses c)
     | SecResources \<Rightarrow> map IResource (resources c))"

text \<open>\<open>renderTableRow\<close> of a department: the ministry column is
  \<open>ministries.find(m => m.id === item.ministryId)?.name\<close>, empty when no ministry has the id.\<close>

definition department_row :: "ctx_state \<Rightarrow> department \<Rightarrow> string \<times> string option \<times> string" where
  "department_row c d = (dep_name d, map_option min_name (find (\<lambda>m. min_id m = dep_ministryId d) (ministries c)),
     dep_code d)"

subsection \<open>The form\<close>

text \<open>\<open>{ ...editingItem }\<close>: the item's properties.\<close>

fun item_form :: "ref_item \<Rightarrow> form_data" where
  "item_form (IMinistry m) = [(''id'', JStr (min_id m)), (''name'', JStr (min_name m)), (''code'', JStr (min_code m))]"
| "item_form (IDepartment d) = [(''id'', JStr (dep_id d)), (''name'', JStr (dep_name d)),
     (''ministryId'', JStr (dep_ministryId d)), (''code'', JStr (dep_code d))]"
| "item_form (IPosition q) = [(''id'', JStr (pos_id q)), (''name'', JStr (pos_name q)), (''code'', JStr (pos_code q))]"
| "item_form (IAddress a) = [(''id'', JStr (adr_id a)), (''street'', JStr (adr_street a)),
     (''building'', JStr (adr_building a)), (''city'', JStr (adr_city a)), (''postalCode'', JStr (adr_postalCode a))]"
| "item_form (IResource r) = [(''id'', JStr (res_id r)), (''title'', JStr (res_title r)),
     (''description'', JStr (res_description r)), (''url'', JStr (res_url r)), (''icon'', JStr (res_icon r)),
     (''order'', JNumber (res_order r)), (''isActive'', JBool (res_isActive r))]"

text \<open>The empty form of each section.\<close>

definition blank_form :: "admin_section \<Rightarrow> form_data" where
  "blank_form sec = (case sec of
       SecMinistries \<Rightarrow> [(''name'', JStr ''''), (''code'', JStr '''')]
     | SecDepartments \<Rightarrow> [(''name'', JStr ''''), (''ministryId'', JStr ''''), (''code'', JStr '''')]
     | SecPositions \<Rightarrow> [(''name'', JStr ''''), (''code'', JStr '''')]
     | SecAddresses \<Rightarrow> [(''street'', JStr ''''), (''building'', JStr ''''), (''city'', JStr ''''),
                        (''postalCode'', JStr '''')]
     | SecResources \<Rightarrow> [(''title'', JStr ''''), (''description'', JStr ''''), (''url'', JStr ''''),
                        (''icon'', JStr ''Link''), (''order'', JNumber (JNum 1)), (''isActive'', JBool True)])"

text \<open>The \<open>useState\<close> initialiser of \<open>FormContent\<close>.\<close>

definition init_form :: "admin_section \<Rightarrow> ref_item option \<Rightarrow> form_data" where
  "init_form sec ed = (case ed of Some it \<Rightarrow> item_form it | None \<Rightarrow> blank_form sec)"

text \<open>The inputs \<open>renderFormFields\<close> shows for a section, and what each \<open>onChange\<close>
  stores: the text as it is, except \<open>parseInt(e.target.value)\<close> for the order.
  The form has no input for \<open>id\<close> nor for \<open>isActive\<close>.\<close>

definition form_fields :: "admin_section \<Rightarrow> string list" where
  "form_fields sec = (case sec of
       SecMinistries \<Rightarrow> [''name'', ''code'']
     | SecDepartments \<Rightarrow> [''name'', ''ministryId'', ''code'']
     | SecPositions \<Rightarrow> [''name'', ''code'']
     | SecAddresses \<Rightarrow> [''street'', ''building'', ''city'', ''postalCode'']
     | SecResources \<Rightarrow> [''title'', ''description'', ''url'', ''icon'', ''order''])"

definition input_value :: "string \<Rightarrow> string \<Rightarrow> js_val" where
  "input_value k v = (if k = ''order'' then JNumber (js_parseInt v) else JStr v)"

text \<open>\<open>handleInputChange\<close>.\<close>

definition form_input :: "string \<Rightarrow> js_val \<Rightarrow> form_data \<Rightarrow> form_data" where
  "form_input k v f = AList.update k v f"

text \<open>The property types the interfaces of \<open>types/auth.ts\<close> declare for each section's
  item, and what it means for the form's object to conform to them: every property is
  one the interface declares, holding a value of the declared type.\<close>

datatype js_type = TString | TNumber | TBoolean

fun js_type_of :: "js_val \<Rightarrow> js_type" where
  "js_type_of (JStr _) = TString"
| "js_type_of (JNumber _) = TNumber"
| "js_type_of (JBool _) = TBoolean"

definition field_type :: "admin_section \<Rightarrow> string \<Rightarrow> js_type option" where
  "field_type sec k = (case sec of
       SecMinistries \<Rightarrow> if k \<in> set [''id'', ''name'', ''code''] then Some TString else None
     | SecDepartments \<Rightarrow> if k \<in> set [''id'', ''name'', ''ministryId'', ''code''] then Some TString else None
     | SecPositions \<Rightarrow> if k \<in> set [''id'', ''name'', ''code''] then Some TString else None
     | SecAddresses \<Rightarrow> if k \<in> set [''id'', ''street'', ''building'', ''city'', ''postalCode''] then Some TString
                     else None
     | SecResources \<Rightarrow> if k \<in> set [''id'', ''title'', ''description'', ''url'', ''icon''] then Some TString
                     else if k = ''order'' then Some TNumber else if k = ''isActive'' then Some TBoolean
                     else None)"

definition form_typed :: "admin_section \<Rightarrow> form_data \<Rightarrow> bool" where
  "form_typed sec f \<longleftrightarrow> list_all (\<lambda>(k, v). field_type sec k = Some (js_type_of v)) f"

fun item_section :: "ref_item \<Rightarrow> admin_section" where
  "item_section (IMinistry _) = SecMinistries"
| "item_section (IDepartment _) = SecDepartments"
| "item_section (IPosition _) = SecPositions"
| "item_section (IAddress _) = SecAddresses"
| "item_section (IResource _) = SecResources"

subsection \<open>From the form to the context\<close>

text \<open>Reading a property of the submitted object as the typed field of the interface.\<close>

definition str_prop :: "form_data \<Rightarrow> string \<Rightarrow> string option" where
  "str_prop f k = (case map_of f k of Some (JStr s) \<Rightarrow> Some s | _ \<Rightarrow> None)"

definition num_prop :: "form_data \<Rightarrow> string \<Rightarrow> js_number option" where
  "num_prop f k = (case map_of f k of Some (JNumber n) \<Rightarrow> Some n | _ \<Rightarrow> None)"

definition bool_prop :: "form_data \<Rightarrow> string \<Rightarrow> bool option" where
  "bool_prop f k = (case map_of f k of Some (JBool b) \<Rightarrow> Some b | _ \<Rightarrow> None)"

text \<open>The submitted object as a \<open>Partial<T>\<close> of its section.\<close>

definition ministry_data :: "form_data \<Rightarrow> ministry_patch" where
  "ministry_data f = \<lparr>mp_id = str_prop f ''id'', mp_name = str_prop f ''name'', mp_code = str_prop f ''code''\<rparr>"

definition department_data :: "form_data \<Rightarrow> department_patch" where
  "department_data f = \<lparr>dp_id = str_prop f ''id'', dp_name = str_prop f ''name'',
     dp_ministryId = str_prop f ''ministryId'', dp_code = str_prop f ''code''\<rparr>"

definition position_data :: "form_data \<Rightarrow> position_patch" where
  "position_data f = \<lparr>pp_id = str_prop f ''id'', pp_name = str_prop f ''name'', pp_code = str_prop f ''code''\<rparr>"

definition address_data :: "form_data \<Rightarrow> address_patch" where
  "address_data f = \<lparr>ap_id = str_prop f ''id'', ap_street = str_prop f ''street'',
     ap_building = str_prop f ''building'', ap_city = str_prop f ''city'',
     ap_postalCode = str_prop f ''postalCode''\<rparr>"

definition resource_data :: "form_data \<Rightarrow> resource_patch" where
  "resource_data f = \<lparr>rp_id = str_prop f ''id'', rp_title = str_prop f ''title'',
     rp_description = str_prop f ''description'', rp_url = str_prop f ''url'', rp_icon = str_prop f ''icon'',
     rp_order = num_prop f ''order'', rp_isActive = bool_prop f ''isActive''\<rparr>"

text \<open>The \<open>Omit<T, 'id'>\<close> an add receives: the submitted object read as a whole item. The
  blank forms carry every field of their section, so the default values below are never
  read; the add itself overwrites the id.\<close>

definition add_op :: "admin_section \<Rightarrow> nat \<Rightarrow> form_data \<Rightarrow> ref_op" where
  "add_op sec now f = (case sec of
       SecMinistries \<Rightarrow> AddMinistry now (merge_ministry \<lparr>min_id = '''', min_name = '''', min_code = ''''\<rparr> (ministry_data f))
     | SecDepartments \<Rightarrow> AddDepartment now (merge_department
          \<lparr>dep_id = '''', dep_name = '''', dep_ministryId = '''', dep_code = ''''\<rparr> (department_data f))
     | SecPositions \<Rightarrow> AddPosition now (merge_position \<lparr>pos_id = '''', pos_name = '''', pos_code = ''''\<rparr> (position_data f))
     | SecAddresses \<Rightarrow> AddAddress now (merge_address
          \<lparr>adr_id = '''', adr_street = '''', adr_building = '''', adr_city = '''', adr_postalCode = ''''\<rparr> (address_data f))
     | SecResources \<Rightarrow> AddResource now (merge_resource
          \<lparr>res_id = '''', res_title = '''', res_description = '''', res_url = '''', res_icon = '''',
           res_order = JNum 0, res_isActive = False\<rparr> (resource_data f)))"

text \<open>\<open>handleUpdate(id, data)\<close> and \<open>handleDelete(id)\<close>: the switch on the section.\<close>

definition update_op :: "admin_section \<Rightarrow> string \<Rightarrow> form_data \<Rightarrow> ref_op" where
  "update_op sec i f = (case sec of
       SecMinistries \<Rightarrow> UpdateMinistry i (ministry_data f)
     | SecDepartments \<Rightarrow> UpdateDepartment i (department_data f)
     | SecPositions \<Rightarrow> UpdatePosition i (position_data f)
     | SecAddresses \<Rightarrow> UpdateAddress i (address_data f)
     | SecResources \<Rightarrow> UpdateResource i (resource_data f))"

definition delete_op :: "admin_section \<Rightarrow> string \<Rightarrow> ref_op" where
  "delete_op sec i = (case sec of
       SecMinistries \<Rightarrow> DeleteMinistry i
     | SecDepartments \<Rightarrow> DeleteDepartment i
     | SecPositions \<Rightarrow> DeletePosition i
     | SecAddresses \<Rightarrow> DeleteAddress i
     | SecResources \<Rightarrow> DeleteResource i)"

subsection \<open>The panel's state and handlers\<close>

text \<open>\<open>isDialogOpen\<close>, \<open>editingItem\<close>, and the \<open>formData\<close> of the mounted \<open>FormContent\<close>.\<close>

record panel_state =
  isDialogOpen :: bool
  editingItem :: "ref_item option"
  panel_formData :: form_data

definition init_panel :: panel_state where
  "init_panel = \<lparr>isDialogOpen = False, editingItem = None, panel_formData = []\<rparr>"

definition openAddDialog :: "admin_section \<Rightarrow> panel_state \<Rightarrow> panel_state" where
  "openAddDialog sec st = st\<lparr>editingItem := None, isDialogOpen := True, panel_formData := init_form sec None\<rparr>"

definition openEditDialog :: "admin_section \<Rightarrow> ref_item \<Rightarrow> panel_state \<Rightarrow> panel_state" where
  "openEditDialog sec it st = st\<lparr>editingItem := Some it, isDialogOpen := True,
     panel_formData := init_form sec (Some it)\<rparr>"

text \<open>\<open>onCancel\<close>: the dialog closes; \<open>editingItem\<close> stays.\<close>

definition cancelDialog :: "panel_state \<Rightarrow> panel_state" where
  "cancelDialog st = st\<lparr>isDialogOpen := False\<rparr>"

definition panel_input :: "string \<Rightarrow> string \<Rightarrow> panel_state \<Rightarrow> panel_state" where
  "panel_input k v st = st\<lparr>panel_formData := form_input k (input_value k v) (panel_formData st)\<rparr>"

text \<open>\<open>FormContent.handleSubmit\<close>: \<open>onSubmit(formData)\<close>, which is
  \<open>handleUpdate(editingItem.id, data)\<close> when an item is being edited and
  \<open>handleAdd(data)\<close> otherwise; both close the dialog and clear \<open>editingItem\<close>.\<close>

definition panel_submit :: "admin_section \<Rightarrow> nat \<Rightarrow> panel_state \<Rightarrow> ctx_state \<Rightarrow> panel_state \<times> ctx_state" where
  "panel_submit sec now st c = (let op = (case editingItem st of
         Some it \<Rightarrow> update_op sec (item_id it) (panel_formData st)
       | None \<Rightarrow> add_op sec now (panel_formData st))
     in (st\<lparr>isDialogOpen := False, editingItem := None\<rparr>, apply_ref_op op c))"

definition handleDelete :: "admin_section \<Rightarrow> string \<Rightarrow> ctx_state \<Rightarrow> ctx_state" where
  "handleDelete sec i c = apply_ref_op (delete_op sec i) c"

text \<open>The panel's events and what guards them: the add button and the rows' edit and delete
  buttons are behind the modal dialog while it is open; the form's inputs, its cancel and
  its submit exist only while it is open. A row is named by its position in the table;
  the ministry select offers the ids of the ministries.\<close>

datatype panel_event = OpenAdd | OpenEdit nat | Input string string | Cancel | Submit nat | Delete nat

definition panel_input_allows :: "admin_section \<Rightarrow> ctx_state \<Rightarrow> string \<Rightarrow> string \<Rightarrow> bool" where
  "panel_input_allows sec c k v = (k \<in> set (form_fields sec) \<and>
     (if k = ''ministryId'' then v \<in> set (map min_id (ministries c)) else True))"

fun panel_step :: "admin_section \<Rightarrow> panel_event \<Rightarrow> panel_state \<times> ctx_state \<Rightarrow> (panel_state \<times> ctx_state) option" where
  "panel_step sec OpenAdd (st, c) = (if isDialogOpen st then None else Some (openAddDialog sec st, c))"
| "panel_step sec (OpenEdit n) (st, c) = (if isDialogOpen st \<or> length (getSectionData sec c) \<le> n then None
     else Some (openEditDialog sec (getSectionData sec c ! n) st, c))"
| "panel_step sec (Input k v) (st, c) = (if isDialogOpen st \<and> panel_input_allows sec c k v
     then Some (panel_input k v st, c) else None)"
| "panel_step sec Cancel (st, c) = (if isDialogOpen st then Some (cancelDialog st, c) else None)"
| "panel_step sec (Submit now) (st, c) = (if isDialogOpen st then Some (panel_submit sec now st c) else None)"
| "panel_step sec (Delete n) (st, c) = (if isDialogOpen st \<or> length (getSectionData sec c) \<le> n then None
     else Some (st, handleDelete sec (item_id (getSectionData sec c ! n)) c))"

declare getSectionData_def [portal_defs] blank_form_def [portal_defs] init_form_def [portal_defs]
  form_fields_def [portal_defs] input_value_def [portal_defs] form_input_def [portal_defs]
  add_op_def [portal_defs] update_op_def [portal_defs] delete_op_def [portal_defs]
  openAddDialog_def [portal_defs] openEditDialog_def [portal_defs] cancelDialog_def [portal_defs]
  panel_input_def [portal_defs] panel_submit_def [portal_defs] handleDelete_def [portal_defs]
  panel_input_allows_def [portal_defs]

subsection \<open>Invariant of the panel\<close>

text \<open>While an item is edited, the form carries that item's id: no input writes \<open>id\<close>.\<close>

definition panel_inv :: "panel_state \<Rightarrow> bool" where
  "panel_inv st \<longleftrightarrow> (case editingItem st of
       Some it \<Rightarrow> str_prop (panel_formData st) ''id'' = Some (item_id it)
     | None \<Rightarrow> True)"

text \<open>The timestamp of an add is not yet an id of the section.\<close>

definition fresh_now :: "admin_section \<Rightarrow> nat \<Rightarrow> ctx_state \<Rightarrow> bool" where
  "fresh_now sec now c \<longleftrightarrow> string_of_nat now \<notin> set (map item_id (getSectionData sec c))"

lemmas form_props = ministry_data_def department_data_def position_data_def
  address_data_def resource_data_def str_prop_def num_prop_def bool_prop_def

lemma str_prop_item_form [simp]: "str_prop (item_form it) ''id'' = Some (item_id it)"
  by (cases it) (simp_all add: str_prop_def)

lemma str_prop_form_input [simp]: "k \<noteq> j \<Longrightarrow> str_prop (form_input k v f) j = str_prop f j"
  by (simp add: str_prop_def form_input_def update_conv')

lemma id_not_form_field [simp]: "k \<in> set (form_fields sec) \<Longrightarrow> k \<noteq> ''id''"
  by (cases sec) (auto simp: form_fields_def)

lemma panel_inv_ops:
  "panel_inv init_panel"
  "panel_inv (openAddDialog sec st)"
  "panel_inv (openEditDialog sec it st)"
  "panel_inv st \<Longrightarrow> panel_inv (cancelDialog st)"
  "panel_inv st \<Longrightarrow> k \<in> set (form_fields sec) \<Longrightarrow> panel_inv (panel_input k v st)"
  "panel_inv (fst (panel_submit sec now st c))"
  by (auto simp: panel_inv_def init_panel_def openAddDialog_def openEditDialog_def init_form_def
      cancelDialog_def panel_input_def panel_submit_def Let_def split: option.split)

lemma list_all_update: "list_all P f \<Longrightarrow> P (k, v) \<Longrightarrow> list_all P (AList.update k v f)"
  by (induction f) auto

lemma form_typed_blank: "form_typed sec (blank_form sec)"
  by (cases sec) (simp_all add: form_typed_def blank_form_def field_type_def)

lemma form_typed_item: "form_typed (item_section it) (item_form it)"
  by (cases it) (simp_all add: form_typed_def field_type_def)

lemma item_section_getSectionData: "it \<in> set (getSectionData sec c) \<Longrightarrow> item_section it = sec"
  by (cases sec) (auto simp: getSectionData_def)

lemma form_typed_input:
  assumes "form_typed sec f" "k \<in> set (form_fields sec)"
  shows "form_typed sec (form_input k (input_value k v) f)"
proof -
  have "field_type sec k = Some (js_type_of (input_value k v))"
    using assms(2) by (cases sec) (auto simp: form_fields_def field_type_def input_value_def)
  with assms(1) show ?thesis by (simp add: form_typed_def form_input_def list_all_update)
qed

text \<open>While the dialog is open, its form conforms to the section's interface.\<close>

lemma panel_step_typed:
  assumes "panel_step sec e (st, c) = Some (st', c')"
    and "isDialogOpen st \<longrightarrow> form_typed sec (panel_formData st)"
  shows "isDialogOpen st' \<longrightarrow> form_typed sec (panel_formData st')"
proof (cases e)
  case (OpenEdit n)
  with assms(1) have "n < length (getSectionData sec c)"
    and st': "st' = openEditDialog sec (getSectionData sec c ! n) st" by (auto split: if_splits)
  then have "item_section (getSectionData sec c ! n) = sec" using item_section_getSectionData nth_mem by blast
  with st' show ?thesis using form_typed_item [of "getSectionData sec c ! n"]
    by (simp add: openEditDialog_def init_form_def)
qed (use assms in \<open>auto simp: openAddDialog_def init_form_def form_typed_blank cancelDialog_def
      panel_input_def panel_input_allows_def form_typed_input panel_submit_def Let_def split: if_splits\<close>)

lemma add_op_ok: "fresh_now sec now c \<Longrightarrow> ref_op_ok (add_op sec now f) c"
  by (cases sec) (simp_all add: fresh_now_def getSectionData_def add_op_def comp_def)

lemma update_op_ok: "str_prop f ''id'' = Some i \<Longrightarrow> ref_op_ok (update_op sec i f) c"
  by (cases sec) (simp_all add: update_op_def form_props keeps_id_def)

text \<open>Opening an item for editing and submitting the form untouched gives the item back.\<close>

lemma edit_op_self:
  assumes "ref_ids_distinct c" "it \<in> set (getSectionData sec c)"
  shows "apply_ref_op (update_op sec (item_id it) (item_form it)) c = c"
  using assms
  by (cases sec) (auto simp: ref_ids_distinct_def form_props portal_defs
      update_where_self [of min_id] update_where_self [of dep_id] update_where_self [of pos_id]
      update_where_self [of adr_id] update_where_self [of res_id])

lemma panel_step_frame:
  assumes "panel_step sec e (st, c) = Some (st', c')"
  shows "user c' = user c \<and> isAuthenticated c' = isAuthenticated c \<and> isLoading c' = isLoading c \<and>
         storage c' = storage c \<and> storage_writable c' = storage_writable c"
  using assms by (cases e) (auto simp: panel_submit_def handleDelete_def Let_def split: if_splits)

lemma panel_step_inv:
  "panel_step sec e (st, c) = Some (st', c') \<Longrightarrow> panel_inv st \<Longrightarrow> panel_inv st'"
  by (cases e) (auto simp: panel_inv_ops panel_input_allows_def split: if_splits,
      metis fst_conv panel_inv_ops(6))

text \<open>A submit of the panel keeps identifiers unique: an edit keeps the id of the edited
  item, and an add uses a timestamp that is not yet an id of the section.\<close>

lemma panel_submit_ids:
  assumes "panel_inv st" "ref_ids_distinct c" "fresh_now sec now c"
  shows "ref_ids_distinct (snd (panel_submit sec now st c))"
proof (cases "editingItem st")
  case None
  with assms(2,3) show ?thesis by (simp add: panel_submit_def apply_ref_op_ids add_op_ok)
next
  case (Some it)
  with assms(1) have "str_prop (panel_formData st) ''id'' = Some (item_id it)" by (simp add: panel_inv_def)
  with Some assms(2) show ?thesis by (simp add: panel_submit_def apply_ref_op_ids update_op_ok)
qed

subsection \<open>Properties of the panel\<close>

text \<open>C24. Submitting the edit dialog of an item without changing a field leaves the
  reference data as it was, in every section, when identifiers are unique.\<close>

theorem edit_unchanged:
  assumes "ref_ids_distinct c" "it \<in> set (getSectionData sec c)"
  shows "snd (panel_submit sec now (openEditDialog sec it st) c) = c"
  using edit_op_self [OF assms] by (simp add: panel_submit_def openEditDialog_def init_form_def)

theorem edit_unchanged_witness:
  "snd (panel_submit SecMinistries 0 (openEditDialog SecMinistries (IMinistry (mock_ministries ! 0)) init_panel)
     (initial_ctx None True)) = initial_ctx None True"
proof -
  have "ref_ids_distinct (initial_ctx None True)"
       "IMinistry (mock_ministries ! 0) \<in> set (getSectionData SecMinistries (initial_ctx None True))"
    by code_simp+
  then show ?thesis by (rule edit_unchanged)
qed

text \<open>C25. Clearing the order input of a resource's edit dialog and saving stores
  \<open>NaN\<close> as its order: \<open>parseInt('')\<close> is \<open>NaN\<close> and nothing checks it.\<close>

theorem clear_order_stores_NaN:
  assumes "ref_ids_distinct c" "r \<in> set (resources c)"
  shows "find (\<lambda>x. res_id x = res_id r) (resources (snd (panel_submit SecResources now
           (panel_input ''order'' '''' (openEditDialog SecResources (IResource r) st)) c))) =
         Some (r\<lparr>res_order := JNaN\<rparr>)"
proof -
  have "find (\<lambda>x. res_id x = res_id r) (resources c) = Some r"
    using assms by (simp add: ref_ids_distinct_def find_key_Some)
  then show ?thesis
    by (simp add: panel_submit_def panel_input_def openEditDialog_def init_form_def update_op_def
        updateResource_def find_update_where form_props form_input_def input_value_def merge_resource_def)
qed

theorem clear_order_stores_NaN_witness:
  "find (\<lambda>x. res_id x = ''1'') (resources (snd (panel_submit SecResources 0
     (panel_input ''order'' '''' (openEditDialog SecResources (IResource (mock_resources ! 0)) init_panel))
     (initial_ctx None True)))) = Some ((mock_resources ! 0)\<lparr>res_order := JNaN\<rparr>)"
proof -
  have "ref_ids_distinct (initial_ctx None True)" "mock_resources ! 0 \<in> set (resources (initial_ctx None True))"
    by code_simp+
  from clear_order_stores_NaN [OF this, of 0 init_panel] show ?thesis
    by (simp add: mock_resources_def)
qed

text \<open>C23. Deleting a ministry in the panel keeps the departments that refer to it, and
  their rows then show no ministry.\<close>

theorem delete_ministry_blank_row:
  assumes "d \<in> set (departments c)" "dep_ministryId d = i"
  shows "d \<in> set (departments (handleDelete SecMinistries i c)) \<and>
         department_row (handleDelete SecMinistries i c) d = (dep_name d, None, dep_code d)"
  using assms by (simp add: handleDelete_def delete_op_def deleteMinistry_def department_row_def
      remove_where_def find_None_iff)

theorem delete_ministry_blank_row_witness:
  "mock_departments ! 0 \<in> set (departments (handleDelete SecMinistries ''1'' (initial_ctx None True))) \<and>
   department_row (handleDelete SecMinistries ''1'' (initial_ctx None True)) (mock_departments ! 0) =
     (dep_name (mock_departments ! 0), None, dep_code (mock_departments ! 0))"
proof -
  have "mock_departments ! 0 \<in> set (departments (initial_ctx None True))"
       "dep_ministryId (mock_departments ! 0) = ''1''"
    by code_simp+
  then show ?thesis by (rule delete_ministry_blank_row)
qed

end
