(* ===== verification/Dashboard.thy ===== *)
theory Dashboard
  imports Auth_Context "HOL-Library.Multiset"
begin

text \<open>
  The main screen's components that read the context: \<open>src/src/components/dashboard/
  Dashboard.tsx\<close> (the active resources in the order of their \<open>order\<close> field, the click on
  a resource, the ministry and department named under the greeting) and
  \<open>src/src/components/layout/Header.tsx\<close> (the avatar's initials, the administrator
  badge, the directory entries of the signed-in user). The sort is
  \<open>Array.prototype.sort\<close> with the comparator \<open>(a, b) => a.order - b.order\<close>; the standard
  makes the sort stable and fixes its result only when the comparator is consistent. A
  \<open>NaN\<close> order makes the difference \<open>NaN\<close>, which the sort reads as \<open>0\<close>: such an item
  compares equal to every other, and once two other items differ in order the
  comparator is inconsistent and the order of the result is left to the engine. That
  case is the value \<open>None\<close>.
\<close>

text \<open>SortCompare reads the comparator's result as a number, \<open>NaN\<close> as \<open>+0\<close>.\<close>

definition order_key :: "js_number \<Rightarrow> int" where
  "order_key n = (case n of JNum i \<Rightarrow> i | JNaN \<Rightarrow> 0)"

text \<open>\<open>a - b\<close> on numbers: \<open>NaN\<close> when either side is \<open>NaN\<close>.\<close>

definition js_sub :: "js_number \<Rightarrow> js_number \<Rightarrow> js_number" where
  "js_sub x y = (case (x, y) of (JNum i, JNum j) \<Rightarrow> JNum (i - j) | _ \<Rightarrow> JNaN)"

text \<open>The comparator of the code, \<open>(a, b) => a.order - b.order\<close>, as SortCompare reads it.\<close>

definition order_cmp :: "resource \<Rightarrow> resource \<Rightarrow> int" where
  "order_cmp a b = order_key (js_sub (res_order a) (res_order b))"

text \<open>\<open>Array.prototype.sort\<close> with a comparator: the standard fixes the result of a
  consistent comparator, a stable sort (an element goes after every earlier element that
  does not compare above it). Insertion sort driven by the comparator alone computes it.\<close>

fun insort_cmp :: "('a \<Rightarrow> 'a \<Rightarrow> int) \<Rightarrow> 'a \<Rightarrow> 'a list \<Rightarrow> 'a list" where
  "insort_cmp cmp x [] = [x]"
| "insort_cmp cmp x (y # ys) = (if cmp x y \<le> 0 then x # y # ys else y # insort_cmp cmp x ys)"

fun js_sort :: "('a \<Rightarrow> 'a \<Rightarrow> int) \<Rightarrow> 'a list \<Rightarrow> 'a list" where
  "js_sort cmp [] = []"
| "js_sort cmp (x # xs) = insort_cmp cmp x (js_sort cmp xs)"

text \<open>\<open>resources.filter(r => r.isActive).sort((a, b) => a.order - b.order)\<close>. With numeric
  orders the comparator is consistent and the sort is \<open>js_sort\<close>. A \<open>NaN\<close> order makes
  the difference \<open>NaN\<close>, read as \<open>0\<close>: such an item compares equal to every other, and
  once two other items differ in order the comparator is inconsistent and the result is
  left to the engine (\<open>None\<close>); when all numeric orders agree, every comparison gives
  \<open>0\<close> and the stable sort keeps the list.\<close>

definition activeResources :: "resource list \<Rightarrow> resource list option" where
  "activeResources rs = (let act = filter res_isActive rs in
     if list_all (\<lambda>r. res_order r \<noteq> JNaN) act then Some (js_sort order_cmp act)
     else if length (remdups (filter (\<lambda>n. n \<noteq> JNaN) (map res_order act))) \<le> 1 then Some act
     else None)"

text \<open>\<open>handleResourceClick(url)\<close>: a new tab for an absolute \<open>http\<close> URL, otherwise only a
  line on the console.\<close>

datatype click_effect = OpenWindow string | ConsoleLog string

definition handleResourceClick :: "string \<Rightarrow> click_effect" where
  "handleResourceClick url = (if take 4 url = ''http'' then OpenWindow url else ConsoleLog url)"

text \<open>The greeting's second line: \<open>userMinistry?.name\<close> and \<open>userDepartment?.name\<close>.\<close>

definition dashboard_affiliation :: "ctx_state \<Rightarrow> user \<Rightarrow> string option \<times> string option" where
  "dashboard_affiliation c u = (map_option min_name (find (\<lambda>m. min_id m = ministry u) (ministries c)),
     map_option dep_name (find (\<lambda>d. dep_id d = department u) (departments c)))"

text \<open>What \<open>Dashboard\<close> renders from the context: nothing without a user
  (\<open>if (!user) return null\<close>); otherwise the greeting with \<open>user.firstName\<close>, the names
  of the user's ministry and department (\<open>{userMinistry?.name}\<close> renders nothing when the
  lookup fails), and a card per active resource in the sorted order, showing its icon,
  title and description and calling \<open>handleResourceClick(resource.url)\<close> on a click.
  The recent activities, quick actions and notices are fixed markup.\<close>

record resource_card =
  card_icon :: string
  card_title :: string
  card_description :: string
  card_click :: click_effect

definition card_of :: "resource \<Rightarrow> resource_card" where
  "card_of r = \<lparr>card_icon = res_icon r, card_title = res_title r, card_description = res_description r,
     card_click = handleResourceClick (res_url r)\<rparr>"

record dashboard_view =
  dv_firstName :: string
  dv_ministry :: string
  dv_department :: string
  dv_cards :: "resource_card list option"

definition dashboard_render :: "ctx_state \<Rightarrow> dashboard_view option" where
  "dashboard_render c = (case user c of None \<Rightarrow> None | Some u \<Rightarrow>
     (case dashboard_affiliation c u of (mn, dn) \<Rightarrow> Some
       \<lparr>dv_firstName = firstName u,
        dv_ministry = (case mn of None \<Rightarrow> [] | Some n \<Rightarrow> n),
        dv_department = (case dn of None \<Rightarrow> [] | Some n \<Rightarrow> n),
        dv_cards = map_option (map card_of) (activeResources (resources c))\<rparr>))"

subsection \<open>Header\<close>

text \<open>\<open>s.charAt(0)\<close>: the first UTF-16 unit. Strings here are UTF-8 bytes, so the first
  character is the bytes its lead byte announces; a character outside the Basic
  Multilingual Plane, of which \<open>charAt\<close> returns half a surrogate pair, is not modelled.\<close>

definition utf8_len :: "char \<Rightarrow> nat" where
  "utf8_len c = (if of_char c < (128::nat) then 1 else if of_char c < (224::nat) then 2
     else if of_char c < (240::nat) then 3 else 4)"

definition js_charAt0 :: "string \<Rightarrow> string" where
  "js_charAt0 s = (case s of [] \<Rightarrow> [] | c # _ \<Rightarrow> take (utf8_len c) s)"

definition getInitials :: "string \<Rightarrow> string \<Rightarrow> string" where
  "getInitials fn ln = js_charAt0 fn @ js_charAt0 ln"

text \<open>What the header shows of the signed-in user: the initials, the badge when
  \<open>user.role === 'admin'\<close>, and the names of the ministry, department and position.\<close>

record header_view =
  hv_initials :: string
  hv_adminBadge :: bool
  hv_ministry :: "string option"
  hv_department :: "string option"
  hv_position :: "string option"

definition header_of :: "ctx_state \<Rightarrow> header_view option" where
  "header_of c = (case user c of None \<Rightarrow> None | Some u \<Rightarrow> Some
     \<lparr>hv_initials = getInitials (firstName u) (lastName u), hv_adminBadge = (role u = RoleAdmin),
      hv_ministry = map_option min_name (find (\<lambda>m. min_id m = ministry u) (ministries c)),
      hv_department = map_option dep_name (find (\<lambda>d. dep_id d = department u) (departments c)),
      hv_position = map_option pos_name (find (\<lambda>q. pos_id q = position u) (positions c))\<rparr>)"

declare order_key_def [portal_defs] js_sub_def [portal_defs] order_cmp_def [portal_defs] activeResources_def [portal_defs] handleResourceClick_def [portal_defs]
  dashboard_affiliation_def [portal_defs] utf8_len_def [portal_defs] js_charAt0_def [portal_defs]
  getInitials_def [portal_defs] header_of_def [portal_defs] card_of_def [portal_defs]
  dashboard_render_def [portal_defs]

subsection \<open>Properties\<close>

lemma insort_cmp_key:
  assumes "\<And>y. y \<in> set ys \<Longrightarrow> cmp x y \<le> 0 \<longleftrightarrow> f x \<le> f y"
  shows "insort_cmp cmp x ys = insort_key f x ys"
  using assms by (induction ys) auto

lemma set_js_sort [simp]: "set (js_sort cmp xs) = set xs"
proof (induction xs)
  case (Cons x xs)
  have "set (insort_cmp cmp x ys) = insert x (set ys)" for ys by (induction ys) auto
  with Cons show ?case by simp
qed simp

lemma js_sort_key:
  assumes "\<And>x y. x \<in> set xs \<Longrightarrow> y \<in> set xs \<Longrightarrow> cmp x y \<le> 0 \<longleftrightarrow> f x \<le> f y"
  shows "js_sort cmp xs = sort_key f xs"
  using assms by (induction xs) (auto intro!: insort_cmp_key)

lemma order_cmp_le:
  "res_order x \<noteq> JNaN \<Longrightarrow> res_order y \<noteq> JNaN \<Longrightarrow>
   order_cmp x y \<le> 0 \<longleftrightarrow> order_key (res_order x) \<le> order_key (res_order y)"
  by (cases "res_order x"; cases "res_order y") (simp_all add: order_cmp_def js_sub_def order_key_def)

text \<open>C26. With numeric orders the code's comparator sort is the stable sort by order: the
  dashboard lists exactly the active resources, in ascending order, resources of equal
  order in the order of the context's list.\<close>

theorem activeResources_sorted:
  assumes "list_all (\<lambda>r. res_order r \<noteq> JNaN) (filter res_isActive rs)"
  shows "\<exists>out. activeResources rs = Some out \<and> out = sort_key (\<lambda>r. order_key (res_order r)) (filter res_isActive rs) \<and>
           sorted (map (\<lambda>r. order_key (res_order r)) out) \<and>
           mset out = mset (filter res_isActive rs) \<and>
           (\<forall>k. filter (\<lambda>r. order_key (res_order r) = k) out =
                filter (\<lambda>r. order_key (res_order r) = k) (filter res_isActive rs))"
proof -
  have "js_sort order_cmp (filter res_isActive rs) = sort_key (\<lambda>r. order_key (res_order r)) (filter res_isActive rs)"
    using assms by (intro js_sort_key order_cmp_le) (auto simp: list_all_iff)
  with assms show ?thesis by (simp add: activeResources_def sort_key_stable)
qed

theorem activeResources_sorted_witness:
  "\<exists>out. activeResources mock_resources = Some out \<and>
     out = sort_key (\<lambda>r. order_key (res_order r)) (filter res_isActive mock_resources) \<and>
     sorted (map (\<lambda>r. order_key (res_order r)) out) \<and>
     mset out = mset (filter res_isActive mock_resources) \<and>
     (\<forall>k. filter (\<lambda>r. order_key (res_order r) = k) out =
          filter (\<lambda>r. order_key (res_order r) = k) (filter res_isActive mock_resources))"
proof -
  have "list_all (\<lambda>r. res_order r \<noteq> JNaN) (filter res_isActive mock_resources)" by code_simp
  then show ?thesis by (rule activeResources_sorted)
qed

end
