(* ===== verification/Portal_App.thy ===== *)
theory Portal_App
  imports First_Login Login_Form Navigation_Menu Admin_Panel Dashboard
begin

text \<open>
  The application: \<open>src/src/Portal.tsx\<close> renders one of four screens from the context
  state and its own \<open>currentView\<close> state; the screens' handlers are the events. The
  whole application is a deterministic step function on \<open>app_state\<close> (the context, the
  browser's storage, \<open>Portal\<close>'s \<open>currentView\<close>, and the local state of the mounted
  forms), guarded by the screen on display: an event is possible only on the screen
  whose component handles it. A component's local state is created when it mounts:
  \<open>settle\<close> re-initialises the first-login form and the login form's message when their
  screen appears. \<open>Portal\<close> itself stays mounted, so \<open>currentView\<close> survives logout.
  An error thrown by the mount effect is uncaught and stops the application.
\<close>

datatype content = DashboardView | ProfileView | AdminHomeView | AdminPanelView admin_section

datatype screen = LoadingScreen | LoginScreen | FirstLoginScreen | MainScreen content

text \<open>\<open>renderContent\<close>: the switch on \<open>currentView\<close>, \<open>Dashboard\<close> by default.\<close>

definition renderContent :: "string \<Rightarrow> content" where
  "renderContent v = (if v = ''dashboard'' then DashboardView
     else if v = ''profile'' then ProfileView
     else if v = ''admin'' then AdminHomeView
     else if v = ''ministries'' then AdminPanelView SecMinistries
     else if v = ''departments'' then AdminPanelView SecDepartments
     else if v = ''positions'' then AdminPanelView SecPositions
     else if v = ''addresses'' then AdminPanelView SecAddresses
     else if v = ''resources'' then AdminPanelView SecResources
     else DashboardView)"

definition portal_render :: "ctx_state \<Rightarrow> string \<Rightarrow> screen" where
  "portal_render c v = (if isLoading c then LoadingScreen
     else (case user c of
             None \<Rightarrow> LoginScreen
           | Some u \<Rightarrow> if \<not> isAuthenticated c then LoginScreen
                       else if isFirstLogin u then FirstLoginScreen
                       else MainScreen (renderContent v)))"

record app_state =
  ctx :: ctx_state
  currentView :: string
  fl :: first_login_state
  login_error :: login_msg
  booted :: bool
  crashed :: "js_error option"
  panel :: panel_state
  pending_login :: "(string \<times> string) option"

definition app_init :: "stored option \<Rightarrow> bool \<Rightarrow> app_state" where
  "app_init st w = \<lparr>ctx = initial_ctx st w, currentView = ''dashboard'',
     fl = init_first_login None, login_error = NoMsg, booted = False, crashed = None,
     panel = init_panel, pending_login = None\<rparr>"

definition screen_of :: "app_state \<Rightarrow> screen" where
  "screen_of a = portal_render (ctx a) (currentView a)"

text \<open>The section of the admin panel on display, if any. \<open>renderContent\<close> returns an
  \<open>AdminPanel\<close> element at the same place for every section, so React keeps one
  instance, and its state, while the view moves between sections.\<close>

definition panel_section :: "screen \<Rightarrow> admin_section option" where
  "panel_section s = (case s of MainScreen (AdminPanelView sec) \<Rightarrow> Some sec | _ \<Rightarrow> None)"

text \<open>The panel's dialog is modal: while it is open, its overlay takes every click
  outside it, the menu and the header's logout included.\<close>

definition modal_open :: "app_state \<Rightarrow> bool" where
  "modal_open a = (panel_section (screen_of a) \<noteq> None \<and> isDialogOpen (panel a))"

text \<open>Mounting: a screen that appears creates its component's state afresh.\<close>

definition settle :: "app_state \<Rightarrow> app_state \<Rightarrow> app_state" where
  "settle a b = (let b1 = (if screen_of b = FirstLoginScreen \<and> screen_of a \<noteq> FirstLoginScreen
                          then b\<lparr>fl := init_first_login (user (ctx b))\<rparr> else b)
                 in let b2 = (if screen_of b1 = LoginScreen \<and> screen_of a \<noteq> LoginScreen
                              then b1\<lparr>login_error := NoMsg\<rparr> else b1)
                 in if panel_section (screen_of b2) \<noteq> None \<and> panel_section (screen_of a) = None
                    then b2\<lparr>panel := init_panel\<rparr> else b2)"

datatype app_event =
    Boot
  | LoginSubmit string string
  | LoginResume
  | ProfileEdit profile_field string
  | ProfileSubmit
  | Logout
  | Navigate string
  | Panel panel_event

text \<open>The values a select of the first-login form can deliver: the options it lists. The
  department select lists the departments of the chosen ministry and is disabled while
  no ministry is chosen. Text inputs deliver anything; the phone input goes through
  \<open>handlePhoneFormat\<close>.\<close>

definition select_allows :: "ctx_state \<Rightarrow> profile_form \<Rightarrow> profile_field \<Rightarrow> string \<Rightarrow> bool" where
  "select_allows c f k v = (case k of
       F_ministry \<Rightarrow> v \<in> set (map min_id (ministries c))
     | F_department \<Rightarrow> fd_ministry f \<noteq> [] \<and> v \<in> set (map dep_id (filteredDepartments (departments c) f))
     | F_position \<Rightarrow> v \<in> set (map pos_id (positions c))
     | F_address \<Rightarrow> v \<in> set (map adr_id (addresses c))
     | _ \<Rightarrow> True)"

definition profile_edit :: "profile_field \<Rightarrow> string \<Rightarrow> first_login_state \<Rightarrow> first_login_state" where
  "profile_edit k v st = (if k = F_phoneNumber then handlePhoneChange v st else handleInputChange k v st)"

text \<open>One event on a live application, guarded by the screen that handles it.\<close>

fun live_step :: "app_event \<Rightarrow> app_state \<Rightarrow> app_state option" where
  "live_step Boot a = (if booted a then None
     else (case restore_session (ctx a) of
             Inl err \<Rightarrow> Some (a\<lparr>booted := True, crashed := Some err\<rparr>)
           | Inr c' \<Rightarrow> Some (settle a (a\<lparr>ctx := c', booted := True\<rparr>))))"
| "live_step (LoginSubmit d pw) a = (if screen_of a \<noteq> LoginScreen then None
     else (case login_submit_begin d pw (ctx a) of
             (m, c', p) \<Rightarrow> Some (settle a (a\<lparr>ctx := c', login_error := m, pending_login := p\<rparr>))))"
| "live_step LoginResume a = (case pending_login a of
       None \<Rightarrow> None
     | Some (d, pw) \<Rightarrow> (case login_submit_resume (login_error a) d pw (ctx a) of
         (m, c') \<Rightarrow> Some (settle a (a\<lparr>ctx := c', login_error := m, pending_login := None\<rparr>))))"
| "live_step (ProfileEdit k v) a =
     (if screen_of a \<noteq> FirstLoginScreen \<or> \<not> select_allows (ctx a) (formData (fl a)) k v then None
      else Some (a\<lparr>fl := profile_edit k v (fl a)\<rparr>))"
| "live_step ProfileSubmit a = (if screen_of a \<noteq> FirstLoginScreen then None
     else (case handleSubmit (user (ctx a)) (fl a) (ctx a) of
             (st', c') \<Rightarrow> Some (settle a (a\<lparr>ctx := c', fl := st'\<rparr>))))"
| "live_step Logout a = (case screen_of a of
       MainScreen _ \<Rightarrow> if modal_open a then None else Some (settle a (a\<lparr>ctx := logout (ctx a)\<rparr>))
     | _ \<Rightarrow> None)"
| "live_step (Navigate v) a = (case screen_of a of
       MainScreen _ \<Rightarrow> if v \<in> set (menu_ids (user (ctx a))) \<and> \<not> modal_open a
                      then Some (settle a (a\<lparr>currentView := v\<rparr>)) else None
     | _ \<Rightarrow> None)"
| "live_step (Panel e) a = (case panel_section (screen_of a) of
       Some sec \<Rightarrow> (case panel_step sec e (panel a, ctx a) of
           Some (st', c') \<Rightarrow> Some (a\<lparr>panel := st', ctx := c'\<rparr>)
         | None \<Rightarrow> None)
     | None \<Rightarrow> None)"

text \<open>After an uncaught error nothing runs.\<close>

definition app_step :: "app_event \<Rightarrow> app_state \<Rightarrow> app_state option" where
  "app_step e a = (if crashed a \<noteq> None then None else live_step e a)"

fun app_run :: "app_event list \<Rightarrow> app_state \<Rightarrow> app_state option" where
  "app_run [] a = Some a"
| "app_run (e # es) a = (case app_step e a of None \<Rightarrow> None | Some b \<Rightarrow> app_run es b)"

inductive reachable :: "app_state \<Rightarrow> bool" where
  init: "reachable (app_init st w)"
| step: "reachable a \<Longrightarrow> app_step e a = Some b \<Longrightarrow> reachable b"

declare renderContent_def [portal_defs] portal_render_def [portal_defs] app_init_def [portal_defs]
  screen_of_def [portal_defs] panel_section_def [portal_defs] settle_def [portal_defs] select_allows_def [portal_defs]
  profile_edit_def [portal_defs] app_step_def [portal_defs]


subsection \<open>The application invariant\<close>

text \<open>Before the mount effect nobody is signed in and the spinner shows; with writable
  storage the session is consistent (Auth_Context).\<close>

definition app_inv :: "app_state \<Rightarrow> bool" where
  "app_inv a \<longleftrightarrow> (\<not> booted a \<longrightarrow> user (ctx a) = None \<and> isLoading (ctx a) \<and> pending_login a = None) \<and>
     (storage_writable (ctx a) \<longrightarrow> session_consistent (ctx a)) \<and> panel_inv (panel a) \<and>
     (pending_login a \<noteq> None \<longrightarrow> isLoading (ctx a) \<and> \<not> (isAuthenticated (ctx a) \<and> user (ctx a) \<noteq> None)) \<and>
     login_error a \<noteq> InvalidCredentials"

text \<open>While an admin panel is on screen with its dialog open, the dialog's form conforms
  to the interface of the panel's section.\<close>

definition panel_typed :: "app_state \<Rightarrow> bool" where
  "panel_typed a = (case panel_section (screen_of a) of
       Some sec \<Rightarrow> if isDialogOpen (panel a) then form_typed sec (panel_formData (panel a)) else True
     | None \<Rightarrow> True)"

subsection \<open>The profile-completion gate of the specification\<close>

text \<open>The spec's state machine over the current identity (section 4.3): no identity,
  an identity waiting for its profile, an active one.\<close>

datatype gate = Unauthenticated | PendingProfile | Active

definition gate_of :: "ctx_state \<Rightarrow> gate" where
  "gate_of c = (case user c of None \<Rightarrow> Unauthenticated
     | Some u \<Rightarrow> if \<not> isAuthenticated c then Unauthenticated
                 else if isFirstLogin u then PendingProfile else Active)"

text \<open>The operations of the specification that act on the gate, and the transition each
  one makes: \<open>restore()\<close> at start-up yields whatever identity is stored; a successful
  \<open>authenticate()\<close> leads to the waiting or the active state according to the identity's
  first-login flag, a failed one changes nothing; \<open>submitProfile\<close> activates a waiting
  identity when it passes validation and is saved, and leaves it waiting when
  validation fails or when saving fails (rolled back); logout returns to no identity from
  every state. Everything else the user does leaves the gate where it is.\<close>

datatype gate_op = Restore | SignIn bool | AuthFailure | SubmitProfile | ValidationFailure
  | PersistenceFailure | SignOut | NoGateOp

inductive gate_trans :: "gate_op \<Rightarrow> gate \<Rightarrow> gate \<Rightarrow> bool" where
  restore: "gate_trans Restore Unauthenticated g"
| sign_in_pending: "gate_trans (SignIn True) Unauthenticated PendingProfile"
| sign_in_active: "gate_trans (SignIn False) Unauthenticated Active"
| auth_failure: "gate_trans AuthFailure Unauthenticated Unauthenticated"
| submit: "gate_trans SubmitProfile PendingProfile Active"
| invalid: "gate_trans ValidationFailure PendingProfile PendingProfile"
| persistence_failure: "gate_trans PersistenceFailure PendingProfile PendingProfile"
| sign_out: "gate_trans SignOut g Unauthenticated"
| no_op: "gate_trans NoGateOp g g"

text \<open>Which operation of the specification an event of the application performs, read
  off the event and the state it happens in: the mount effect restores, the resumed
  login authenticates the submitted pair, the first-login submit submits the profile
  (failing validation, or failing to save with unwritable storage), the header's logout
  signs out.\<close>

definition gate_op_of :: "app_event \<Rightarrow> app_state \<Rightarrow> gate_op" where
  "gate_op_of e a = (case e of
       Boot \<Rightarrow> Restore
     | LoginResume \<Rightarrow> (case pending_login a of
           Some (d, pw) \<Rightarrow> (case find_account d of
               Some u \<Rightarrow> if pw = ''password'' then SignIn (isFirstLogin u) else AuthFailure
             | None \<Rightarrow> AuthFailure)
         | None \<Rightarrow> NoGateOp)
     | ProfileSubmit \<Rightarrow> (if \<not> snd (validateForm (formData (fl a))) then ValidationFailure
         else if storage_writable (ctx a) then SubmitProfile else PersistenceFailure)
     | Logout \<Rightarrow> SignOut
     | _ \<Rightarrow> NoGateOp)"

subsection \<open>Scenarios\<close>

text \<open>Ivanov signs in on a fresh browser.\<close>

definition signed_in :: app_state where
  "signed_in = the (app_run [Boot, LoginSubmit ''ivanov@gov27.ru'' ''password'', LoginResume] (app_init None True))"

text \<open>A browser that kept Ivanov's record with the first-login flag set: after start-up
  the profile form shows; submitting it unchanged completes the profile.\<close>

definition pending_booted :: app_state where
  "pending_booted = the (app_run [Boot] (app_init (Some (Saved pending_ivanov)) True))"

definition profile_done :: app_state where
  "profile_done = the (app_step ProfileSubmit pending_booted)"

text \<open>The administrator opens the ministries panel and signs out; Ivanov signs in.\<close>

definition leak_trace :: "app_event list" where
  "leak_trace = [Boot, LoginSubmit ''admin@gov27.ru'' ''password'', LoginResume, Navigate ''ministries'', Logout,
     LoginSubmit ''ivanov@gov27.ru'' ''password'', LoginResume]"

text \<open>Ivanov types a wrong password.\<close>

definition rejected_login :: app_state where
  "rejected_login = the (app_run [Boot, LoginSubmit ''ivanov@gov27.ru'' ''qwerty'', LoginResume] (app_init None True))"

text \<open>The administrator opens the resources panel, opens the add dialog and types a title.\<close>

definition admin_adding :: app_state where
  "admin_adding = the (app_run [Boot, LoginSubmit ''admin@gov27.ru'' ''password'', LoginResume, Navigate ''resources'',
     Panel OpenAdd, Panel (Input ''title'' ''SED'')] (app_init None True))"

subsection \<open>Lemmas on steps\<close>

lemma settle_frame [simp]:
  "ctx (settle a b) = ctx b" "currentView (settle a b) = currentView b"
  "booted (settle a b) = booted b" "crashed (settle a b) = crashed b"
  "pending_login (settle a b) = pending_login b"
  by (simp_all add: settle_def Let_def)

lemma screen_login_facts:
  "screen_of a = LoginScreen \<Longrightarrow> \<not> isLoading (ctx a) \<and> \<not> (isAuthenticated (ctx a) \<and> user (ctx a) \<noteq> None)"
  by (auto simp: screen_of_def portal_render_def split: option.splits if_splits)

text \<open>A component that mounts starts without a message; the login form keeps one only
  while it stays on screen.\<close>

lemma settle_login_error [simp]:
  "login_error (settle a b) = (if screen_of b = LoginScreen \<and> screen_of a \<noteq> LoginScreen then NoMsg
     else login_error b)"
  by (cases "screen_of b = LoginScreen \<and> screen_of a \<noteq> LoginScreen") (auto simp: settle_def Let_def screen_of_def)

lemma settle_panel_inv [simp]: "panel_inv (panel b) \<Longrightarrow> panel_inv (panel (settle a b))"
  by (simp add: settle_def Let_def panel_inv_ops)

lemma app_inv_init: "app_inv (app_init st w)"
  unfolding app_inv_def app_init_def by (simp add: initial_ctx_def session_consistent_def panel_inv_ops)

lemma screen_not_loading: "screen_of a \<noteq> LoadingScreen \<Longrightarrow> \<not> isLoading (ctx a)"
  by (auto simp: screen_of_def portal_render_def)

lemma screen_first_login:
  "screen_of a = FirstLoginScreen \<Longrightarrow> \<exists>u. user (ctx a) = Some u \<and> isAuthenticated (ctx a) \<and> isFirstLogin u"
  by (auto simp: screen_of_def portal_render_def split: option.splits if_splits)

lemma live_step_inv:
  assumes step: "live_step e a = Some b" and inv: "app_inv a"
  shows "app_inv b"
proof (cases e)
  case Boot
  with step have nb: "\<not> booted a" by (auto split: if_splits)
  with inv have "user (ctx a) = None" by (simp add: app_inv_def)
  with step Boot inv show ?thesis
    by (auto simp: app_inv_def restore_session_consistent dest: restore_session_frame
        split: if_splits sum.splits)
next
  case (LoginSubmit d pw)
  with step have scr: "screen_of a = LoginScreen" and
    b: "b = settle a (a\<lparr>ctx := fst (snd (login_submit_begin d pw (ctx a))),
           login_error := fst (login_submit_begin d pw (ctx a)),
           pending_login := snd (snd (login_submit_begin d pw (ctx a)))\<rparr>)"
    by (auto split: if_splits prod.splits)
  from screen_login_facts [OF scr] have l: "\<not> isLoading (ctx a)"
    and g: "\<not> (isAuthenticated (ctx a) \<and> user (ctx a) \<noteq> None)" by auto
  with inv have bt: "booted a" by (auto simp: app_inv_def)
  with inv l g show ?thesis
    by (auto simp: b app_inv_def login_submit_begin_def login_begin_def)
next
  case LoginResume
  with step obtain d pw where p: "pending_login a = Some (d, pw)" and
    b: "b = settle a (a\<lparr>ctx := snd (login_resume d pw (ctx a)),
           login_error := fst (login_submit_resume (login_error a) d pw (ctx a)), pending_login := None\<rparr>)"
    by (auto split: option.splits prod.splits dest: login_submit_resume_eq)
  from p inv have bt: "booted a" and l: "isLoading (ctx a)"
    and g: "\<not> (isAuthenticated (ctx a) \<and> user (ctx a) \<noteq> None)" by (auto simp: app_inv_def)
  from l have sa: "screen_of a \<noteq> LoginScreen" by (auto simp: screen_of_def portal_render_def)
  have "login_error b \<noteq> InvalidCredentials"
    using login_submit_resume_msg [of "login_error a" d pw "ctx a"]
  proof
    assume "fst (login_submit_resume (login_error a) d pw (ctx a)) = login_error a"
    with inv show ?thesis by (simp add: b app_inv_def)
  next
    assume r: "fst (login_submit_resume (login_error a) d pw (ctx a)) = InvalidCredentials \<and>
      snd (login_resume d pw (ctx a)) = (ctx a)\<lparr>isLoading := False\<rparr>"
    with g have "portal_render (snd (login_resume d pw (ctx a))) (currentView a) = LoginScreen"
      by (auto simp: portal_render_def split: option.split)
    with sa show ?thesis by (simp add: b screen_of_def)
  qed
  with inv bt show ?thesis using login_resume_consistent [of "ctx a" d pw]
    by (auto simp: b app_inv_def)
next
  case (ProfileEdit k v)
  with step inv show ?thesis by (auto simp: app_inv_def split: if_splits)
next
  case ProfileSubmit
  with step have scr: "screen_of a = FirstLoginScreen" and
    b: "b = settle a (a\<lparr>ctx := snd (handleSubmit (user (ctx a)) (fl a) (ctx a)),
                        fl := fst (handleSubmit (user (ctx a)) (fl a) (ctx a))\<rparr>)"
    by (auto split: if_splits prod.splits)
  from scr obtain u where "user (ctx a) = Some u" "isAuthenticated (ctx a)" "\<not> isLoading (ctx a)"
    using screen_first_login screen_not_loading by fastforce
  with inv show ?thesis by (auto simp: b app_inv_def handleSubmit_consistent)
next
  case Logout
  with step obtain b0 where scr: "\<exists>x. screen_of a = MainScreen x" and b: "b = settle a b0"
    and b0: "ctx b0 = logout (ctx a)" "booted b0 = booted a" "panel b0 = panel a"
      "pending_login b0 = pending_login a" "login_error b0 = login_error a"
    by (auto split: screen.splits if_splits)
  from scr have "\<not> isLoading (ctx a)" using screen_not_loading by fastforce
  with inv b0 show ?thesis by (auto simp: b app_inv_def)
next
  case (Navigate v)
  with step inv show ?thesis by (auto simp: app_inv_def split: screen.splits if_splits)
next
  case (Panel e)
  with step obtain sec st' c' where p: "panel_step sec e (panel a, ctx a) = Some (st', c')"
    and b: "b = a\<lparr>panel := st', ctx := c'\<rparr>"
    by (auto split: option.splits)
  from panel_step_frame [OF p] panel_step_inv [OF p] inv show ?thesis
    by (auto simp: b app_inv_def session_consistent_def split: option.split)
qed

lemma screen_of_cong:
  "user (ctx b) = user (ctx a) \<Longrightarrow> isAuthenticated (ctx b) = isAuthenticated (ctx a) \<Longrightarrow>
   isLoading (ctx b) = isLoading (ctx a) \<Longrightarrow> currentView b = currentView a \<Longrightarrow> screen_of b = screen_of a"
  by (simp add: screen_of_def portal_render_def split: option.split)

lemma settle_panel_typed:
  "panel_section (screen_of a) = None \<or> panel_typed b \<Longrightarrow> panel_typed (settle a b)"
  by (auto simp: settle_def Let_def panel_typed_def init_panel_def screen_of_def split: option.splits)

lemma live_step_panel_typed:
  assumes step: "live_step e a = Some b" and inv: "app_inv a" and pt: "panel_typed a"
  shows "panel_typed b"
proof (cases "panel_section (screen_of a)")
  case None
  show ?thesis
  proof (cases e)
    case Boot
    with step consider (crash) err where "b = a\<lparr>booted := True, crashed := Some err\<rparr>"
      | (ok) c' where "b = settle a (a\<lparr>ctx := c', booted := True\<rparr>)"
      by (auto split: if_splits sum.splits)
    then show ?thesis
    proof cases
      case crash
      with None show ?thesis by (simp add: panel_typed_def screen_of_def)
    next
      case ok
      with None show ?thesis by (simp add: settle_panel_typed)
    qed
  next
    case (ProfileEdit k v)
    with step None show ?thesis by (auto simp: panel_typed_def screen_of_def split: if_splits)
  next
    case (Panel pe)
    with step None show ?thesis by simp
  next
    case (Navigate v)
    with step None show ?thesis by (auto intro: settle_panel_typed split: screen.splits if_splits)
  next
    case Logout
    with step None show ?thesis by (auto intro: settle_panel_typed split: screen.splits if_splits)
  qed (use step None in \<open>auto intro!: settle_panel_typed split: if_splits option.splits prod.splits sum.splits\<close>)
next
  case (Some sec)
  then obtain x where scr: "screen_of a = MainScreen x" by (auto simp: panel_section_def split: screen.splits)
  show ?thesis
  proof (cases e)
    case (Panel pe)
    with step Some obtain st' c' where p: "panel_step sec pe (panel a, ctx a) = Some (st', c')"
      and b: "b = a\<lparr>panel := st', ctx := c'\<rparr>" by (auto split: option.splits)
    from panel_step_frame [OF p] have "screen_of b = screen_of a" by (intro screen_of_cong) (simp_all add: b)
    with pt Some panel_step_typed [OF p] show ?thesis by (auto simp: panel_typed_def b split: if_splits)
  next
    case (Navigate v)
    with step scr have "\<not> isDialogOpen (panel a)" and b: "b = settle a (a\<lparr>currentView := v\<rparr>)"
      using Some by (auto simp: modal_open_def split: if_splits)
    then have "panel_typed (a\<lparr>currentView := v\<rparr>)" by (simp add: panel_typed_def split: option.split)
    with b show ?thesis by (simp add: settle_panel_typed)
  next
    case Logout
    with step scr obtain b0 where b: "b = settle a b0" and "ctx b0 = logout (ctx a)" "currentView b0 = currentView a"
      by (auto split: if_splits)
    then have "panel_section (screen_of b0) = None"
      by (simp add: screen_of_def portal_render_def logout_def panel_section_def)
    then have "panel_typed b0" by (simp add: panel_typed_def)
    with b show ?thesis by (simp add: settle_panel_typed)
  next
    case Boot
    with step inv have "isLoading (ctx a)" by (auto simp: app_inv_def split: if_splits)
    with scr show ?thesis by (simp add: screen_of_def portal_render_def)
  next
    case LoginResume
    with step inv have "isLoading (ctx a)" by (auto simp: app_inv_def split: option.splits)
    with scr show ?thesis by (simp add: screen_of_def portal_render_def)
  qed (use step scr in \<open>auto split: if_splits option.splits\<close>)
qed

lemma app_step_inv: "app_step e a = Some b \<Longrightarrow> app_inv a \<Longrightarrow> app_inv b"
  by (auto simp: app_step_def intro: live_step_inv split: if_splits)

lemma reachable_app_inv: "reachable a \<Longrightarrow> app_inv a"
  by (induction rule: reachable.induct) (auto intro: app_inv_init app_step_inv)

lemma reachable_panel_typed: "reachable a \<Longrightarrow> panel_typed a"
proof (induction rule: reachable.induct)
  case (init st w)
  then show ?case by (simp add: panel_typed_def app_init_def screen_of_def portal_render_def initial_ctx_def
        panel_section_def)
next
  case (step a e b)
  then have "live_step e a = Some b" by (simp add: app_step_def split: if_splits)
  with step reachable_app_inv show ?case by (blast intro: live_step_panel_typed)
qed

lemma app_run_reachable: "reachable a \<Longrightarrow> app_run es a = Some b \<Longrightarrow> reachable b"
proof (induction es arbitrary: a)
  case Nil
  then show ?case by simp
next
  case (Cons e es)
  then show ?case by (auto intro: reachable.step split: option.splits)
qed


lemma screen_login_gate: "screen_of a = LoginScreen \<Longrightarrow> gate_of (ctx a) = Unauthenticated"
  by (auto simp: screen_of_def portal_render_def gate_of_def split: option.splits if_splits)

lemma screen_first_login_gate: "screen_of a = FirstLoginScreen \<Longrightarrow> gate_of (ctx a) = PendingProfile"
  by (auto simp: screen_of_def portal_render_def gate_of_def split: option.splits if_splits)

lemma gate_of_cong: "user c' = user c \<Longrightarrow> isAuthenticated c' = isAuthenticated c \<Longrightarrow> gate_of c' = gate_of c"
  by (simp add: gate_of_def split: option.split)

lemma gate_logout [simp]: "gate_of (logout c) = Unauthenticated"
  by (simp add: gate_of_def logout_def)

lemma live_step_gate_cases:
  assumes "live_step e a = Some b" and "app_inv a"
  shows "gate_of (ctx b) = gate_of (ctx a) \<or> gate_of (ctx b) = Unauthenticated \<or>
    gate_of (ctx a) = Unauthenticated \<or>
    (e = ProfileSubmit \<and> gate_of (ctx a) = PendingProfile \<and> snd (validateForm (formData (fl a))) \<and>
     storage_writable (ctx a) \<and> gate_of (ctx b) = Active)"
proof (cases e)
  case Boot
  with assms have "user (ctx a) = None" by (auto simp: app_inv_def split: if_splits)
  then show ?thesis by (simp add: gate_of_def)
next
  case (LoginSubmit d pw)
  with assms(1) have "screen_of a = LoginScreen" by (auto split: if_splits)
  then show ?thesis by (simp add: screen_login_gate)
next
  case LoginResume
  with assms(1) obtain p where "pending_login a = Some p" by (auto split: option.splits)
  with assms(2) have "gate_of (ctx a) = Unauthenticated"
    by (auto simp: app_inv_def gate_of_def split: option.splits)
  then show ?thesis by simp
next
  case (ProfileEdit k v)
  with assms(1) show ?thesis by (auto split: if_splits)
next
  case ProfileSubmit
  with assms(1) have scr: "screen_of a = FirstLoginScreen" and
    b: "ctx b = snd (handleSubmit (user (ctx a)) (fl a) (ctx a))"
    by (auto split: if_splits prod.splits)
  from scr obtain u where u: "user (ctx a) = Some u" "isAuthenticated (ctx a)" "isFirstLogin u"
    using screen_first_login by blast
  from scr have g: "gate_of (ctx a) = PendingProfile" by (rule screen_first_login_gate)
  show ?thesis using handleSubmit_user [OF u(1), of "fl a"] u g ProfileSubmit
    by (auto simp: b gate_of_def)
next
  case Logout
  with assms(1) show ?thesis by (auto split: screen.splits if_splits)
next
  case (Navigate v)
  with assms(1) show ?thesis by (auto split: screen.splits if_splits)
next
  case (Panel e)
  with assms(1) obtain sec st' c' where p: "panel_step sec e (panel a, ctx a) = Some (st', c')"
    and b: "ctx b = c'"
    by (auto split: option.splits)
  from panel_step_frame [OF p] have "gate_of c' = gate_of (ctx a)" by (metis gate_of_cong)
  with b show ?thesis by simp
qed


lemma gate_login_resume:
  "gate_of (snd (login_resume d pw c)) = (case find_account d of
     Some u \<Rightarrow> if pw = ''password'' then (if isFirstLogin u then PendingProfile else Active) else gate_of c
   | None \<Rightarrow> gate_of c)"
  by (auto simp: login_resume_def js_then_def setItem_def gate_of_def split: option.split prod.split sum.split)

lemma gate_login_submit_begin: "gate_of (fst (snd (login_submit_begin d pw c))) = gate_of c"
  by (simp add: login_submit_begin_def login_begin_def gate_of_def split: option.split)

lemma gate_handleSubmit:
  assumes "user c = Some u" "isAuthenticated c" "isFirstLogin u"
  shows "gate_of (snd (handleSubmit (user c) st c)) =
    (if snd (validateForm (formData st)) \<and> storage_writable c then Active else PendingProfile)"
  using handleSubmit_user [OF assms(1), of st] assms by (auto simp: gate_of_def merge_user_def)

text \<open>Every step of a live application makes the gate transition of the operation its
  event performs.\<close>

lemma live_step_gate_trans:
  assumes "live_step e a = Some b" and "app_inv a"
  shows "gate_trans (gate_op_of e a) (gate_of (ctx a)) (gate_of (ctx b))"
proof (cases e)
  case Boot
  with assms have "user (ctx a) = None" by (auto simp: app_inv_def split: if_splits)
  with Boot show ?thesis by (simp add: gate_of_def gate_op_of_def gate_trans.restore)
next
  case (LoginSubmit d pw)
  with assms(1) have "ctx b = fst (snd (login_submit_begin d pw (ctx a)))"
    by (auto split: if_splits prod.splits)
  with LoginSubmit show ?thesis by (simp add: gate_login_submit_begin gate_op_of_def gate_trans.no_op)
next
  case LoginResume
  with assms(1) obtain d pw where p: "pending_login a = Some (d, pw)"
    and b: "ctx b = snd (login_resume d pw (ctx a))"
    by (auto dest: login_submit_resume_eq split: option.splits prod.splits)
  from p assms(2) have "gate_of (ctx a) = Unauthenticated"
    by (auto simp: app_inv_def gate_of_def split: option.splits)
  with LoginResume p b show ?thesis
    by (auto simp: gate_login_resume gate_op_of_def intro: gate_trans.intros split: option.split)
next
  case (ProfileEdit k v)
  with assms(1) show ?thesis by (auto simp: gate_op_of_def intro: gate_trans.no_op split: if_splits)
next
  case ProfileSubmit
  with assms(1) have scr: "screen_of a = FirstLoginScreen" and
    b: "ctx b = snd (handleSubmit (user (ctx a)) (fl a) (ctx a))"
    by (auto split: if_splits prod.splits)
  from scr obtain u where u: "user (ctx a) = Some u" "isAuthenticated (ctx a)" "isFirstLogin u"
    using screen_first_login by blast
  from scr have "gate_of (ctx a) = PendingProfile" by (rule screen_first_login_gate)
  with ProfileSubmit b gate_handleSubmit [OF u, of "fl a"] show ?thesis
    by (auto simp: gate_op_of_def intro: gate_trans.intros)
next
  case Logout
  with assms(1) show ?thesis
    by (auto simp: gate_op_of_def intro: gate_trans.sign_out split: screen.splits if_splits)
next
  case (Navigate v)
  with assms(1) show ?thesis
    by (auto simp: gate_op_of_def intro: gate_trans.no_op split: screen.splits if_splits)
next
  case (Panel pe)
  with assms(1) obtain sec st' c' where p: "panel_step sec pe (panel a, ctx a) = Some (st', c')"
    and b: "ctx b = c'"
    by (auto split: option.splits)
  from panel_step_frame [OF p] have "gate_of c' = gate_of (ctx a)" by (metis gate_of_cong)
  with b Panel show ?thesis by (simp add: gate_op_of_def gate_trans.no_op)
qed

subsection \<open>Properties of the application\<close>

text \<open>C15. The "invalid credentials" message is never on screen. \<open>login\<close> sets the
  loading flag before its \<open>await\<close>, so \<open>Portal\<close> replaces the login form by the spinner and
  the form unmounts; the message the handler sets after a rejected login goes to that
  unmounted instance, and the form that mounts when loading ends starts without one.\<close>

theorem invalid_credentials_never_shown: "reachable a \<Longrightarrow> login_error a \<noteq> InvalidCredentials"
  using reachable_app_inv by (simp add: app_inv_def)

text \<open>C16. In every reachable state of the application with writable storage, a user in
  memory is authenticated and is exactly the persisted record.\<close>

theorem reachable_session_consistent:
  "reachable a \<Longrightarrow> storage_writable (ctx a) \<Longrightarrow> session_consistent (ctx a)"
  using reachable_app_inv by (simp add: app_inv_def)

text \<open>C17. Save/restore across a restart: from any reachable state with writable storage
  and a signed-in user, a new process started on the same storage restores that user.\<close>

theorem restart_restores_session:
  assumes "reachable a" and "storage_writable (ctx a)" and "user (ctx a) = Some u"
  shows "restore_session (initial_ctx (storage (ctx a)) w) =
    Inr ((initial_ctx (storage (ctx a)) w)\<lparr>user := Some u, isAuthenticated := True, isLoading := False\<rparr>)"
proof -
  from reachable_app_inv [OF assms(1)] assms(2) have "session_consistent (ctx a)" by (simp add: app_inv_def)
  with assms(3) have "storage (ctx a) = Some (Saved u)" by (simp add: session_consistent_def)
  then show ?thesis by (simp add: restore_session_def initial_ctx_def)
qed

text \<open>C18. The administrator views are not protected by role: \<open>currentView\<close> survives
  logout, so a non-administrator who signs in after an administrator left the ministries
  panel open is shown that panel (with its add, edit and delete actions).\<close>

theorem admin_panel_reachable_by_user:
  "\<exists>a u. reachable a \<and> user (ctx a) = Some u \<and> role u = RoleUser \<and>
     screen_of a = MainScreen (AdminPanelView SecMinistries)"
proof -
  obtain a where run: "app_run leak_trace (app_init None True) = Some a"
    and props: "user (ctx a) = Some (mock_users ! 1) \<and> screen_of a = MainScreen (AdminPanelView SecMinistries)"
  proof -
    have "case app_run leak_trace (app_init None True) of
        Some a \<Rightarrow> user (ctx a) = Some (mock_users ! 1) \<and> screen_of a = MainScreen (AdminPanelView SecMinistries)
      | None \<Rightarrow> False" by code_simp
    then show ?thesis using that by (auto split: option.splits)
  qed
  have "reachable a" using app_run_reachable [OF reachable.init run] .
  moreover have "role (mock_users ! 1) = RoleUser" by (simp add: mock_users_def)
  ultimately show ?thesis using props by blast
qed

text \<open>C19. Refinement of the specification's gate: every step of the application makes
  exactly the transition of the specification's operation its event performs. A
  resumed login moves from no identity to the waiting or active state that the
  account's flag dictates, or nowhere when the credentials are wrong; a profile
  submission activates only when it is valid and saved and otherwise stays waiting; a
  logout always ends without identity; every other event leaves the gate unchanged.\<close>

theorem gate_refinement:
  assumes "reachable a" and "app_step e a = Some b"
  shows "gate_trans (gate_op_of e a) (gate_of (ctx a)) (gate_of (ctx b))"
proof -
  from assms have "live_step e a = Some b" by (simp add: app_step_def split: if_splits)
  from live_step_gate_trans [OF this reachable_app_inv [OF assms(1)]] show ?thesis .
qed

text \<open>C20. A session waiting for its profile becomes active only by a submission of a form
  that passes validation, with writable storage.\<close>

theorem profile_completion_only_by_valid_submit:
  assumes "reachable a" and "app_step e a = Some b"
    and "gate_of (ctx a) = PendingProfile" and "gate_of (ctx b) = Active"
  shows "e = ProfileSubmit \<and> snd (validateForm (formData (fl a))) \<and> storage_writable (ctx a)"
proof -
  from assms(2) have "live_step e a = Some b" by (simp add: app_step_def split: if_splits)
  from live_step_gate_cases [OF this reachable_app_inv [OF assms(1)]] assms(3,4)
  show ?thesis by auto
qed

text \<open>C21. In every reachable state showing an admin panel, submitting its form with a
  timestamp that is not yet an id of the section keeps the identifiers of the
  reference data unique: the dialog of an edit never changes the id it was opened for.\<close>

theorem reachable_panel_submit_ids:
  assumes "reachable a" and "app_step (Panel (Submit now)) a = Some b"
    and "panel_section (screen_of a) = Some sec"
    and "ref_ids_distinct (ctx a)" and "fresh_now sec now (ctx a)"
  shows "ref_ids_distinct (ctx b)"
proof -
  from assms(2,3) have "isDialogOpen (panel a)" and b: "ctx b = snd (panel_submit sec now (panel a) (ctx a))"
    by (auto simp: app_step_def split: if_splits option.splits prod.splits)
  moreover have "panel_inv (panel a)" using reachable_app_inv [OF assms(1)] by (simp add: app_inv_def)
  ultimately show ?thesis using panel_submit_ids assms(4,5) by simp
qed

text \<open>C28. In every reachable state that shows an admin panel with its dialog open, the
  dialog's form object conforms to the interface of the panel's section in
  \<open>types/auth.ts\<close>: it has only properties the interface declares, each of the declared
  type (the order a number, possibly \<open>NaN\<close>; the active flag a boolean; the rest strings).\<close>

theorem reachable_panel_form_typed:
  assumes "reachable a" and "panel_section (screen_of a) = Some sec" and "isDialogOpen (panel a)"
  shows "form_typed sec (panel_formData (panel a))"
  using reachable_panel_typed [OF assms(1)] assms(2,3) by (simp add: panel_typed_def)

subsection \<open>Witnesses\<close>

lemma signed_in_facts:
  "app_run [Boot, LoginSubmit ''ivanov@gov27.ru'' ''password'', LoginResume] (app_init None True) = Some signed_in \<and>
   user (ctx signed_in) = Some (mock_users ! 1) \<and> storage_writable (ctx signed_in)"
  unfolding signed_in_def by code_simp

lemma reachable_signed_in: "reachable signed_in"
  using app_run_reachable [OF reachable.init] signed_in_facts by blast

lemma pending_facts:
  "app_run [Boot] (app_init (Some (Saved pending_ivanov)) True) = Some pending_booted \<and>
   app_step ProfileSubmit pending_booted = Some profile_done \<and>
   gate_of (ctx pending_booted) = PendingProfile \<and> gate_of (ctx profile_done) = Active"
  unfolding pending_booted_def profile_done_def by code_simp

lemma reachable_pending_booted: "reachable pending_booted"
  using app_run_reachable [OF reachable.init] pending_facts by blast

lemma reachable_session_consistent_witness:
  "reachable signed_in \<and> storage_writable (ctx signed_in) \<and> session_consistent (ctx signed_in)"
  using reachable_session_consistent [OF reachable_signed_in] reachable_signed_in signed_in_facts by blast

lemma restart_restores_session_witness:
  "reachable signed_in \<and> storage_writable (ctx signed_in) \<and> user (ctx signed_in) = Some (mock_users ! 1) \<and>
   restore_session (initial_ctx (storage (ctx signed_in)) True) =
     Inr ((initial_ctx (storage (ctx signed_in)) True)\<lparr>user := Some (mock_users ! 1), isAuthenticated := True,
       isLoading := False\<rparr>)"
  using restart_restores_session [OF reachable_signed_in, of "mock_users ! 1" True]
    reachable_signed_in signed_in_facts by blast

lemma gate_refinement_witness:
  "reachable pending_booted \<and> app_step ProfileSubmit pending_booted = Some profile_done \<and>
   gate_trans (gate_op_of ProfileSubmit pending_booted) (gate_of (ctx pending_booted)) (gate_of (ctx profile_done))"
  using gate_refinement [OF reachable_pending_booted, of ProfileSubmit profile_done]
    reachable_pending_booted pending_facts by blast

lemma profile_completion_only_by_valid_submit_witness:
  "reachable pending_booted \<and> app_step ProfileSubmit pending_booted = Some profile_done \<and>
   gate_of (ctx pending_booted) = PendingProfile \<and> gate_of (ctx profile_done) = Active \<and>
   snd (validateForm (formData (fl pending_booted))) \<and> storage_writable (ctx pending_booted)"
  using profile_completion_only_by_valid_submit [OF reachable_pending_booted, of ProfileSubmit profile_done]
    reachable_pending_booted pending_facts by blast

lemma admin_adding_facts:
  "app_run [Boot, LoginSubmit ''admin@gov27.ru'' ''password'', LoginResume, Navigate ''resources'',
     Panel OpenAdd, Panel (Input ''title'' ''SED'')] (app_init None True) = Some admin_adding \<and>
   panel_section (screen_of admin_adding) = Some SecResources \<and> ref_ids_distinct (ctx admin_adding) \<and>
   fresh_now SecResources 1731 (ctx admin_adding) \<and>
   app_step (Panel (Submit 1731)) admin_adding = Some (the (app_step (Panel (Submit 1731)) admin_adding))"
  unfolding admin_adding_def by code_simp

lemma reachable_panel_submit_ids_witness:
  "ref_ids_distinct (ctx (the (app_step (Panel (Submit 1731)) admin_adding)))"
proof -
  have "reachable admin_adding" using app_run_reachable [OF reachable.init] admin_adding_facts by blast
  then show ?thesis using reachable_panel_submit_ids admin_adding_facts by blast
qed

lemma rejected_login_facts:
  "app_run [Boot, LoginSubmit ''ivanov@gov27.ru'' ''qwerty'', LoginResume] (app_init None True) = Some rejected_login \<and>
   screen_of rejected_login = LoginScreen \<and> user (ctx rejected_login) = None"
  unfolding rejected_login_def by code_simp

lemma invalid_credentials_never_shown_witness:
  "reachable rejected_login \<and> screen_of rejected_login = LoginScreen \<and>
   login_error rejected_login \<noteq> InvalidCredentials"
proof -
  have r: "reachable rejected_login" using app_run_reachable [OF reachable.init] rejected_login_facts by blast
  with invalid_credentials_never_shown [OF r] rejected_login_facts show ?thesis by blast
qed

lemma admin_adding_dialog: "isDialogOpen (panel admin_adding)"
  unfolding admin_adding_def by code_simp

lemma reachable_panel_form_typed_witness:
  "reachable admin_adding \<and> panel_section (screen_of admin_adding) = Some SecResources \<and>
   isDialogOpen (panel admin_adding) \<and> form_typed SecResources (panel_formData (panel admin_adding))"
proof -
  have r: "reachable admin_adding" using app_run_reachable [OF reachable.init] admin_adding_facts by blast
  with reachable_panel_form_typed [OF r _ admin_adding_dialog] admin_adding_facts admin_adding_dialog
  show ?thesis by blast
qed

end
