(* ===== verification/Portal_Liveness.thy ===== *)
theory Portal_Liveness
  imports Portal_App
begin

text \<open>
  Progress of the application (Portal_App): which states can still reach the main
  screen. Two invariants of the reachable states carry it: before start-up and while a
  session waits for its profile the reference lists are still the mock lists (no admin
  panel can have run), and after start-up with writable storage the spinner shows only
  while a login is suspended at its \<open>await\<close>. From them, a sequence of events to the main
  screen is built for each screen: resume the login, sign in as the administrator, or
  fill in the first-login form with values its selects offer and submit it. With storage
  that refuses writes, the first-login screen is a trap.
\<close>

text \<open>The reference lists as the provider creates them.\<close>

definition ref_lists_initial :: "ctx_state \<Rightarrow> bool" where
  "ref_lists_initial c \<longleftrightarrow> ministries c = mock_ministries \<and> departments c = mock_departments \<and>
     positions c = mock_positions \<and> addresses c = mock_addresses \<and> resources c = mock_resources"

text \<open>Filling in the first-login form: every field typed or chosen, the phone typed as
  digits and formatted by the form.\<close>

definition fill_edits :: "app_event list" where
  "fill_edits = [ProfileEdit F_firstName ''A'', ProfileEdit F_lastName ''A'', ProfileEdit F_middleName ''A'',
     ProfileEdit F_ministry ''1'', ProfileEdit F_department ''1'', ProfileEdit F_position ''1'',
     ProfileEdit F_address ''1'', ProfileEdit F_officeNumber ''1'', ProfileEdit F_phoneNumber ''74212123456'',
     ProfileEdit F_internalPhone ''1'', ProfileEdit F_email ''a@b.c'']"

definition filled_form :: profile_form where
  "filled_form = \<lparr>fd_firstName = ''A'', fd_lastName = ''A'', fd_middleName = ''A'', fd_ministry = ''1'',
     fd_department = ''1'', fd_position = ''1'', fd_address = ''1'', fd_officeNumber = ''1'',
     fd_phoneNumber = ''+7 (4212) 12-34-56'', fd_internalPhone = ''1'', fd_email = ''a@b.c''\<rparr>"

text \<open>Signing in as the administrator, both halves of the submit.\<close>

definition admin_login :: "app_event list" where
  "admin_login = [LoginSubmit ''admin@gov27.ru'' ''password'', LoginResume]"

text \<open>A browser whose storage refuses writes and kept Ivanov's record with the first-login
  flag set, after start-up.\<close>

definition stuck_booted :: app_state where
  "stuck_booted = the (app_run [Boot] (app_init (Some (Saved pending_ivanov)) False))"

text \<open>The two invariants behind progress.\<close>

definition live_inv :: "app_state \<Rightarrow> bool" where
  "live_inv a \<longleftrightarrow> ((\<not> booted a \<or> gate_of (ctx a) = PendingProfile) \<longrightarrow> ref_lists_initial (ctx a)) \<and>
     (booted a \<and> crashed a = None \<and> storage_writable (ctx a) \<and> pending_login a = None \<longrightarrow> \<not> isLoading (ctx a))"

lemma ref_lists_initial_frame [simp]:
  "ref_lists_initial (login_begin c) = ref_lists_initial c"
  "ref_lists_initial (snd (login_resume d pw c)) = ref_lists_initial c"
  "ref_lists_initial (logout c) = ref_lists_initial c"
  "ref_lists_initial (snd (handleSubmit cu st c)) = ref_lists_initial c"
  by (auto simp: ref_lists_initial_def portal_defs split: option.splits sum.splits prod.splits)

lemma restore_session_lists: "restore_session c = Inr t \<Longrightarrow> ref_lists_initial t = ref_lists_initial c \<and> \<not> isLoading t"
  by (auto simp: restore_session_def ref_lists_initial_def split: option.splits stored.splits)

text \<open>After the \<open>await\<close>, with writable storage, the loading flag is always cleared, and
  nobody waits for a profile: the directory's accounts have completed theirs.\<close>

lemma login_resume_writable: "storage_writable c \<Longrightarrow> \<not> isLoading (snd (login_resume d pw c))"
  by (auto simp: login_resume_def split: option.splits)

lemma login_resume_not_pending:
  "gate_of c \<noteq> PendingProfile \<Longrightarrow> gate_of (snd (login_resume d pw c)) \<noteq> PendingProfile"
  by (auto simp: login_resume_def gate_of_def js_then_def setItem_def find_account_Some_iff
      dest: mock_users_first_login split: option.splits if_splits)

lemma live_step_live_inv:
  assumes step: "live_step e a = Some b" and inv: "app_inv a" and li: "live_inv a"
  shows "live_inv b"
proof (cases e)
  case Boot
  with step have nb: "\<not> booted a" by (auto split: if_splits)
  with inv li have u: "user (ctx a) = None" and lists: "ref_lists_initial (ctx a)"
    by (auto simp: app_inv_def live_inv_def)
  from step Boot nb consider (crash) err where "b = a\<lparr>booted := True, crashed := Some err\<rparr>"
    | (ok) c' where "restore_session (ctx a) = Inr c'" "b = settle a (a\<lparr>ctx := c', booted := True\<rparr>)"
    by (auto split: sum.splits)
  then show ?thesis
  proof cases
    case crash
    with u show ?thesis by (simp add: live_inv_def gate_of_def)
  next
    case ok
    with lists restore_session_lists [OF ok(1)] show ?thesis by (simp add: live_inv_def)
  qed
next
  case (LoginSubmit d pw)
  with step have scr: "screen_of a = LoginScreen" and
    b: "b = settle a (a\<lparr>ctx := fst (snd (login_submit_begin d pw (ctx a))),
           login_error := fst (login_submit_begin d pw (ctx a)),
           pending_login := snd (snd (login_submit_begin d pw (ctx a)))\<rparr>)"
    by (auto split: if_splits prod.splits)
  from scr have g: "gate_of (ctx a) = Unauthenticated" and l: "\<not> isLoading (ctx a)"
    using screen_login_gate screen_not_loading by auto
  from l inv have "booted a" by (auto simp: app_inv_def)
  with g l show ?thesis
    by (auto simp: b live_inv_def login_submit_begin_def login_begin_def gate_of_def split: option.splits)
next
  case LoginResume
  with step obtain d pw where p: "pending_login a = Some (d, pw)" and
    b: "b = settle a (a\<lparr>ctx := snd (login_resume d pw (ctx a)),
           login_error := fst (login_submit_resume (login_error a) d pw (ctx a)), pending_login := None\<rparr>)"
    by (auto split: option.splits prod.splits dest: login_submit_resume_eq)
  from p inv have "booted a" and "gate_of (ctx a) = Unauthenticated"
    by (auto simp: app_inv_def gate_of_def split: option.splits)
  with login_resume_not_pending [of "ctx a" d pw] login_resume_writable [of "ctx a" d pw]
  show ?thesis by (auto simp: b live_inv_def)
next
  case (ProfileEdit k v)
  with step li show ?thesis by (auto simp: live_inv_def split: if_splits)
next
  case ProfileSubmit
  with step have scr: "screen_of a = FirstLoginScreen" and
    b: "ctx b = snd (handleSubmit (user (ctx a)) (fl a) (ctx a))" "booted b = booted a"
       "crashed b = crashed a" "pending_login b = pending_login a"
    by (auto split: if_splits prod.splits)
  from scr have "gate_of (ctx a) = PendingProfile" "\<not> isLoading (ctx a)"
    using screen_first_login_gate screen_not_loading by auto
  with li show ?thesis by (auto simp: b live_inv_def)
next
  case Logout
  with step obtain b0 where scr: "\<exists>x. screen_of a = MainScreen x" and b: "b = settle a b0"
    and b0: "ctx b0 = logout (ctx a)" "booted b0 = booted a" "crashed b0 = crashed a"
      "pending_login b0 = pending_login a"
    by (auto split: screen.splits if_splits)
  from scr have "\<not> isLoading (ctx a)" using screen_not_loading by fastforce
  moreover have "isLoading (logout (ctx a)) = isLoading (ctx a)" by (simp add: logout_def)
  ultimately show ?thesis using inv b0 by (auto simp: b live_inv_def app_inv_def)
next
  case (Navigate v)
  with step have scr: "\<exists>x. screen_of a = MainScreen x" and b: "b = settle a (a\<lparr>currentView := v\<rparr>)"
    by (auto split: screen.splits if_splits)
  from scr have "gate_of (ctx a) = Active" "\<not> isLoading (ctx a)"
    by (auto simp: screen_of_def portal_render_def gate_of_def split: option.splits if_splits)
  with inv show ?thesis by (auto simp: b live_inv_def app_inv_def)
next
  case (Panel pe)
  with step obtain sec st' c' where p: "panel_step sec pe (panel a, ctx a) = Some (st', c')"
    and b: "b = a\<lparr>panel := st', ctx := c'\<rparr>" and s: "panel_section (screen_of a) = Some sec"
    by (auto split: option.splits)
  from s have "gate_of (ctx a) = Active" "\<not> isLoading (ctx a)"
    by (auto simp: panel_section_def screen_of_def portal_render_def gate_of_def split: option.splits if_splits screen.splits)
  moreover from panel_step_frame [OF p] have "gate_of c' = gate_of (ctx a)" by (metis gate_of_cong)
  ultimately show ?thesis using inv panel_step_frame [OF p] by (auto simp: b live_inv_def app_inv_def)
qed

lemma reachable_live_inv: "reachable a \<Longrightarrow> live_inv a"
proof (induction rule: reachable.induct)
  case (init st w)
  then show ?case by (simp add: live_inv_def app_init_def ref_lists_initial_def initial_ctx_def)
next
  case (step a e b)
  then have "live_step e a = Some b" by (simp add: app_step_def split: if_splits)
  with step reachable_app_inv show ?case by (blast intro: live_step_live_inv)
qed

lemma formData_handleInputChange [simp]:
  "formData (handleInputChange k v st) = set_form_field k v (formData st)"
  by (simp add: handleInputChange_def)

lemma fill_edits_run:
  assumes scr: "screen_of a = FirstLoginScreen" and lists: "ref_lists_initial (ctx a)" and cr: "crashed a = None"
  shows "\<exists>b. app_run fill_edits a = Some b \<and> ctx b = ctx a \<and> currentView b = currentView a \<and>
           crashed b = None \<and> pending_login b = pending_login a \<and> formData (fl b) = filled_form"
proof -
  have ph: "handlePhoneFormat ''74212123456'' = ''+7 (4212) 12-34-56''" by code_simp
  have sel: "''1'' \<in> set (map min_id mock_ministries)" "''1'' \<in> set (map pos_id mock_positions)"
    "''1'' \<in> set (map adr_id mock_addresses)"
    "''1'' \<in> set (map dep_id (filter (\<lambda>d. dep_ministryId d = ''1'') mock_departments))"
    by code_simp+
  have "screen_of (a\<lparr>fl := st\<rparr>) = FirstLoginScreen" for st using scr by (simp add: screen_of_def)
  with scr lists cr sel ph show ?thesis
    by (simp add: fill_edits_def app_step_def select_allows_def ref_lists_initial_def profile_edit_def
        handlePhoneChange_def filteredDepartments_def filled_form_def)
qed

lemma app_run_append:
  "app_run (xs @ ys) a = (case app_run xs a of None \<Rightarrow> None | Some b \<Rightarrow> app_run ys b)"
  by (induction xs arbitrary: a) (auto split: option.split)

lemma submit_filled_main:
  assumes scr: "screen_of b = FirstLoginScreen" and f: "formData (fl b) = filled_form"
    and w: "storage_writable (ctx b)" and cr: "crashed b = None"
  shows "\<exists>b'. app_step ProfileSubmit b = Some b' \<and> (\<exists>x. screen_of b' = MainScreen x)"
proof -
  from scr obtain u where u: "user (ctx b) = Some u" "isAuthenticated (ctx b)"
    using screen_first_login by blast
  from scr have l: "\<not> isLoading (ctx b)" using screen_not_loading [of b] by simp
  have v: "snd (validateForm filled_form)" by code_simp
  let ?c = "snd (handleSubmit (user (ctx b)) (fl b) (ctx b))"
  from handleSubmit_user [OF u(1), of "fl b"] v f w have "user ?c = Some (u\<lparr>isFirstLogin := False\<rparr>)" by simp
  with u l have "\<exists>x. portal_render ?c (currentView b) = MainScreen x" by (simp add: portal_render_def)
  with scr cr show ?thesis by (auto simp: app_step_def screen_of_def split: prod.split)
qed

lemma login_screen_main:
  assumes scr: "screen_of a = LoginScreen" and w: "storage_writable (ctx a)" and cr: "crashed a = None"
  shows "\<exists>b x. app_run admin_login a = Some b \<and> screen_of b = MainScreen x"
proof -
  have acc: "find_account ''admin@gov27.ru'' = Some (mock_users ! 0)" "\<not> isFirstLogin (mock_users ! 0)"
    by code_simp+
  from scr have "\<not> isLoading (ctx a)" using screen_login_facts by blast
  with scr w cr acc show ?thesis
    by (simp add: admin_login_def app_step_def login_submit_begin_def login_submit_resume_def login_resume_def
        login_begin_def screen_of_def portal_render_def)
qed

lemma resume_login_or_main:
  assumes p: "pending_login a = Some (d, pw)" and inv: "app_inv a"
    and w: "storage_writable (ctx a)" and cr: "crashed a = None"
  shows "\<exists>b. app_step LoginResume a = Some b \<and> crashed b = None \<and> storage_writable (ctx b) \<and>
           (screen_of b = LoginScreen \<or> (\<exists>x. screen_of b = MainScreen x))"
proof -
  from p inv have g: "\<not> (isAuthenticated (ctx a) \<and> user (ctx a) \<noteq> None)" by (auto simp: app_inv_def)
  have "portal_render (snd (login_resume d pw (ctx a))) v = LoginScreen \<or>
        (\<exists>x. portal_render (snd (login_resume d pw (ctx a))) v = MainScreen x)" for v
    using g w by (auto simp: login_resume_def portal_render_def find_account_Some_iff
        dest: mock_users_first_login split: option.splits)
  with p cr w show ?thesis
    by (auto simp: app_step_def screen_of_def split: prod.split dest: login_submit_resume_eq)
qed

lemma pending_step:
  assumes step: "live_step e a = Some b" and inv: "app_inv a"
    and g: "gate_of (ctx a) = PendingProfile" and w: "\<not> storage_writable (ctx a)"
  shows "gate_of (ctx b) = PendingProfile \<and> \<not> storage_writable (ctx b)"
proof -
  from g obtain u where u: "user (ctx a) = Some u" "isAuthenticated (ctx a)" "isFirstLogin u"
    by (auto simp: gate_of_def split: option.splits if_splits)
  with inv have np: "pending_login a = None" by (cases "pending_login a") (auto simp: app_inv_def)
  from u inv have bt: "booted a" by (auto simp: app_inv_def)
  show ?thesis
  proof (cases "isLoading (ctx a)")
    case True
    then have "screen_of a = LoadingScreen" by (simp add: screen_of_def portal_render_def)
    with step np bt show ?thesis
      by (cases e) (auto simp: panel_section_def split: if_splits screen.splits option.splits)
  next
    case False
    with u have scr: "screen_of a = FirstLoginScreen" by (simp add: screen_of_def portal_render_def)
    show ?thesis
    proof (cases e)
      case ProfileSubmit
      with step scr have c: "ctx b = snd (handleSubmit (user (ctx a)) (fl a) (ctx a))"
        by (auto split: prod.splits)
      from handleSubmit_user [OF u(1), of "fl a"] w u show ?thesis
        by (simp add: c gate_of_def merge_user_def)
    qed (use step scr g w np bt in \<open>auto simp: panel_section_def split: if_splits screen.splits option.splits\<close>)
  qed
qed

text \<open>From the spinner: the pending login resumes, and either signs in or returns to the
  login form, from which the administrator signs in.\<close>

lemma loading_screen_main:
  assumes r: "reachable a" and bt: "booted a" and cr: "crashed a = None" and w: "storage_writable (ctx a)"
    and ld: "screen_of a = LoadingScreen"
  shows "\<exists>es b x. app_run es a = Some b \<and> screen_of b = MainScreen x"
proof -
  from ld have "isLoading (ctx a)" by (auto simp: screen_of_def portal_render_def split: if_splits option.splits)
  with reachable_live_inv [OF r] bt cr w obtain d pw where p: "pending_login a = Some (d, pw)"
    by (auto simp: live_inv_def)
  from resume_login_or_main [OF p reachable_app_inv [OF r] w cr] obtain b where
    st: "app_step LoginResume a = Some b" and b: "crashed b = None" "storage_writable (ctx b)"
    and scr: "screen_of b = LoginScreen \<or> (\<exists>x. screen_of b = MainScreen x)" by blast
  from scr show ?thesis
  proof
    assume "screen_of b = LoginScreen"
    from login_screen_main [OF this b(2,1)] obtain b' x where "app_run admin_login b = Some b'"
      "screen_of b' = MainScreen x" by blast
    with st have "app_run (LoginResume # admin_login) a = Some b' \<and> screen_of b' = MainScreen x" by simp
    then show ?thesis by blast
  next
    assume "\<exists>x. screen_of b = MainScreen x"
    with st have "\<exists>x. app_run [LoginResume] a = Some b \<and> screen_of b = MainScreen x" by simp
    then show ?thesis by blast
  qed
qed

text \<open>From the first-login form: fill it in and submit it.\<close>

lemma first_login_screen_main:
  assumes r: "reachable a" and cr: "crashed a = None" and w: "storage_writable (ctx a)"
    and fs: "screen_of a = FirstLoginScreen"
  shows "\<exists>es b x. app_run es a = Some b \<and> screen_of b = MainScreen x"
proof -
  from fs have "gate_of (ctx a) = PendingProfile" by (rule screen_first_login_gate)
  with reachable_live_inv [OF r] have "ref_lists_initial (ctx a)" by (simp add: live_inv_def)
  from fill_edits_run [OF fs this cr] obtain b where
    run: "app_run fill_edits a = Some b" and b: "ctx b = ctx a" "currentView b = currentView a"
      "crashed b = None" "formData (fl b) = filled_form" by blast
  from b fs have "screen_of b = FirstLoginScreen" by (simp add: screen_of_def)
  from submit_filled_main [OF this b(4) _ b(3)] w b(1) obtain b' x where
    "app_step ProfileSubmit b = Some b'" "screen_of b' = MainScreen x" by auto
  with run have "app_run (fill_edits @ [ProfileSubmit]) a = Some b' \<and> screen_of b' = MainScreen x"
    by (simp add: app_run_append)
  then show ?thesis by blast
qed

text \<open>C29. With writable storage the application can always get to its main screen: from
  every reachable state after start-up that has not crashed, some sequence of events
  leads there (finishing a pending login, signing in, or filling in and submitting the
  first-login form).\<close>

theorem main_screen_reachable:
  assumes r: "reachable a" and bt: "booted a" and cr: "crashed a = None" and w: "storage_writable (ctx a)"
  shows "\<exists>es b x. app_run es a = Some b \<and> screen_of b = MainScreen x"
proof (cases "screen_of a")
  case LoadingScreen
  from loading_screen_main [OF r bt cr w this] show ?thesis .
next
  case LoginScreen
  from login_screen_main [OF this w cr] show ?thesis by blast
next
  case FirstLoginScreen
  from first_login_screen_main [OF r cr w this] show ?thesis .
next
  case (MainScreen x)
  then have "app_run [] a = Some a \<and> screen_of a = MainScreen x" by simp
  then show ?thesis by blast
qed

text \<open>C30. With storage that refuses writes, a session waiting for its profile never gets
  out of that state: the first-login screen has no way out but its submit, whose
  \<open>updateUserProfile\<close> throws before \<open>completeFirstLogin\<close> runs, whatever is typed.\<close>

theorem pending_stuck_unwritable:
  assumes "reachable a" and "gate_of (ctx a) = PendingProfile" and "\<not> storage_writable (ctx a)"
    and "app_run es a = Some b"
  shows "gate_of (ctx b) = PendingProfile"
  using assms
proof (induction es arbitrary: a)
  case Nil
  then show ?case by simp
next
  case (Cons e es)
  then obtain a' where st: "app_step e a = Some a'" and run: "app_run es a' = Some b"
    by (auto split: option.splits)
  from st have "live_step e a = Some a'" by (simp add: app_step_def split: if_splits)
  from pending_step [OF this reachable_app_inv [OF Cons.prems(1)] Cons.prems(2,3)]
  have "gate_of (ctx a') = PendingProfile" "\<not> storage_writable (ctx a')" by auto
  moreover have "reachable a'" using Cons.prems(1) st by (rule reachable.step)
  ultimately show ?case using Cons.IH run by blast
qed

lemma stuck_booted_facts:
  "app_run [Boot] (app_init (Some (Saved pending_ivanov)) False) = Some stuck_booted \<and>
   gate_of (ctx stuck_booted) = PendingProfile \<and> \<not> storage_writable (ctx stuck_booted) \<and>
   app_run [ProfileSubmit] stuck_booted = Some (the (app_run [ProfileSubmit] stuck_booted))"
  unfolding stuck_booted_def by code_simp

lemma pending_stuck_unwritable_witness:
  "gate_of (ctx (the (app_run [ProfileSubmit] stuck_booted))) = PendingProfile"
proof -
  have "reachable stuck_booted" using app_run_reachable [OF reachable.init] stuck_booted_facts by blast
  with pending_stuck_unwritable stuck_booted_facts show ?thesis by blast
qed

lemma pending_booted_live: "booted pending_booted \<and> crashed pending_booted = None \<and> storage_writable (ctx pending_booted)"
  unfolding pending_booted_def by code_simp

lemma main_screen_reachable_witness:
  "\<exists>es b x. app_run es pending_booted = Some b \<and> screen_of b = MainScreen x"
proof -
  from pending_booted_live have "booted pending_booted" "crashed pending_booted = None"
    "storage_writable (ctx pending_booted)" by auto
  then show ?thesis by (rule main_screen_reachable [OF reachable_pending_booted])
qed

end
