(* ===== verification/Admin_Table.thy ===== *)
theory Admin_Table
  imports Admin_Panel
begin

text \<open>
  The table of \<open>src/src/components/admin/AdminPanel.tsx\<close>: \<open>renderTableHeaders\<close>,
  \<open>renderTableRow\<close> and the body \<open>getSectionData().map(item => <TableRow key={item.id}>
  {renderTableRow(item)}</TableRow>)\<close>. The column headers are constants of the source,
  one constructor per label. A cell is a text, the status badge of a resource, or the
  cell of the two buttons, which call \<open>openEditDialog(item)\<close> and
  \<open>handleDelete(item.id)\<close> for the row's item. A number in a cell is rendered as
  \<open>String(n)\<close>, an undefined value (\<open>x?.name\<close> of a missing ministry) as nothing.
  Also the panel's texts: the section title, the dialog's title and submit label, the
  card's title and description, built with \<open>toLowerCase\<close> and \<open>slice\<close>.
\<close>

text \<open>Name, Code, Ministry, Street, Building, City, Postal code, URL, Order, Status, Actions.\<close>

datatype column = ColName | ColCode | ColMinistry | ColStreet | ColBuilding | ColCity | ColPostalCode
  | ColUrl | ColOrder | ColStatus | ColActions

definition renderTableHeaders :: "admin_section \<Rightarrow> column list" where
  "renderTableHeaders sec = (case sec of
       SecMinistries \<Rightarrow> [ColName, ColCode, ColActions]
     | SecDepartments \<Rightarrow> [ColName, ColMinistry, ColCode, ColActions]
     | SecPositions \<Rightarrow> [ColName, ColCode, ColActions]
     | SecAddresses \<Rightarrow> [ColStreet, ColBuilding, ColCity, ColPostalCode, ColActions]
     | SecResources \<Rightarrow> [ColName, ColUrl, ColOrder, ColStatus, ColActions])"

text \<open>\<open>CellBadge b\<close> is the badge \<open>isActive ? 'Active' : 'Inactive'\<close>; \<open>CellActions it i\<close>
  the edit and delete buttons, with the arguments of their handlers:
  \<open>onClick={() => openEditDialog(item)}\<close> and \<open>onClick={() => handleDelete(item.id)}\<close>.\<close>

datatype table_cell = CellText string | CellBadge bool | CellActions ref_item string

text \<open>\<open>String(n)\<close> of a number, in plain digits; JavaScript switches to exponent
  notation from \<open>1e21\<close>, beyond the orders a form can hold as exact numbers (not
  modelled).\<close>

fun js_number_text :: "js_number \<Rightarrow> string" where
  "js_number_text (JNum i) = (if i < 0 then CHR ''-'' # string_of_nat (nat (- i)) else string_of_nat (nat i))"
| "js_number_text JNaN = ''NaN''"

text \<open>\<open>{x}\<close> of a value that may be \<open>undefined\<close>.\<close>

definition opt_text :: "string option \<Rightarrow> string" where
  "opt_text x = (case x of None \<Rightarrow> [] | Some s \<Rightarrow> s)"

text \<open>\<open>renderTableRow(item)\<close>: the switch on the section. The rows are the section's own
  items (\<open>getSectionData()\<close>), so an item of another section never reaches it; such
  pairs give no cells, as the switch's \<open>default\<close> does.\<close>

fun renderTableRow :: "admin_section \<Rightarrow> ctx_state \<Rightarrow> ref_item \<Rightarrow> table_cell list" where
  "renderTableRow SecMinistries c (IMinistry m) =
     [CellText (min_name m), CellText (min_code m), CellActions (IMinistry m) (min_id m)]"
| "renderTableRow SecDepartments c (IDepartment d) = (case department_row c d of (n, mn, code) \<Rightarrow>
     [CellText n, CellText (opt_text mn), CellText code, CellActions (IDepartment d) (dep_id d)])"
| "renderTableRow SecPositions c (IPosition q) =
     [CellText (pos_name q), CellText (pos_code q), CellActions (IPosition q) (pos_id q)]"
| "renderTableRow SecAddresses c (IAddress a) =
     [CellText (adr_street a), CellText (adr_building a), CellText (adr_city a),
      CellText (adr_postalCode a), CellActions (IAddress a) (adr_id a)]"
| "renderTableRow SecResources c (IResource r) =
     [CellText (res_title r), CellText (res_url r), CellText (js_number_text (res_order r)),
      CellBadge (res_isActive r), CellActions (IResource r) (res_id r)]"
| "renderTableRow _ _ _ = []"

text \<open>The table body: each row's React key and its cells.\<close>

definition render_table :: "admin_section \<Rightarrow> ctx_state \<Rightarrow> (string \<times> table_cell list) list" where
  "render_table sec c = map (\<lambda>it. (item_id it, renderTableRow sec c it)) (getSectionData sec c)"

text \<open>A cell belongs under a header: the status column holds the badge, the actions
  column the buttons, every other column a text.\<close>

fun cell_fits :: "column \<Rightarrow> table_cell \<Rightarrow> bool" where
  "cell_fits ColStatus cell = (case cell of CellBadge _ \<Rightarrow> True | _ \<Rightarrow> False)"
| "cell_fits ColActions cell = (case cell of CellActions _ _ \<Rightarrow> True | _ \<Rightarrow> False)"
| "cell_fits _ cell = (case cell of CellText _ \<Rightarrow> True | _ \<Rightarrow> False)"

definition table_well_formed :: "admin_section \<Rightarrow> ctx_state \<Rightarrow> bool" where
  "table_well_formed sec c \<longleftrightarrow>
     list_all (\<lambda>(k, cells). list_all2 cell_fits (renderTableHeaders sec) cells) (render_table sec c)"

subsection \<open>Titles and the dialog\<close>

text \<open>\<open>getSectionTitle()\<close>: Ministerstva, Podrazdeleniya, Dolzhnosti, Adresa, Resursy
  portala (UTF-8 bytes).\<close>

definition getSectionTitle :: "admin_section \<Rightarrow> string" where
  "getSectionTitle sec = (case sec of
       SecMinistries \<Rightarrow> [CHR 0xD0, CHR 0x9C, CHR 0xD0, CHR 0xB8, CHR 0xD0, CHR 0xBD, CHR 0xD0, CHR 0xB8, CHR 0xD1, CHR 0x81, CHR 0xD1, CHR 0x82, CHR 0xD0, CHR 0xB5, CHR 0xD1, CHR 0x80, CHR 0xD1, CHR 0x81, CHR 0xD1, CHR 0x82, CHR 0xD0, CHR 0xB2, CHR 0xD0, CHR 0xB0]
     | SecDepartments \<Rightarrow> [CHR 0xD0, CHR 0x9F, CHR 0xD0, CHR 0xBE, CHR 0xD0, CHR 0xB4, CHR 0xD1, CHR 0x80, CHR 0xD0, CHR 0xB0, CHR 0xD0, CHR 0xB7, CHR 0xD0, CHR 0xB4, CHR 0xD0, CHR 0xB5, CHR 0xD0, CHR 0xBB, CHR 0xD0, CHR 0xB5, CHR 0xD0, CHR 0xBD, CHR 0xD0, CHR 0xB8, CHR 0xD1, CHR 0x8F]
     | SecPositions \<Rightarrow> [CHR 0xD0, CHR 0x94, CHR 0xD0, CHR 0xBE, CHR 0xD0, CHR 0xBB, CHR 0xD0, CHR 0xB6, CHR 0xD0, CHR 0xBD, CHR 0xD0, CHR 0xBE, CHR 0xD1, CHR 0x81, CHR 0xD1, CHR 0x82, CHR 0xD0, CHR 0xB8]
     | SecAddresses \<Rightarrow> [CHR 0xD0, CHR 0x90, CHR 0xD0, CHR 0xB4, CHR 0xD1, CHR 0x80, CHR 0xD0, CHR 0xB5, CHR 0xD1, CHR 0x81, CHR 0xD0, CHR 0xB0]
     | SecResources \<Rightarrow> [CHR 0xD0, CHR 0xA0, CHR 0xD0, CHR 0xB5, CHR 0xD1, CHR 0x81, CHR 0xD1, CHR 0x83, CHR 0xD1, CHR 0x80, CHR 0xD1, CHR 0x81, CHR 0xD1, CHR 0x8B, CHR 0x20, CHR 0xD0, CHR 0xBF, CHR 0xD0, CHR 0xBE, CHR 0xD1, CHR 0x80, CHR 0xD1, CHR 0x82, CHR 0xD0, CHR 0xB0, CHR 0xD0, CHR 0xBB, CHR 0xD0, CHR 0xB0])"

text \<open>The fixed words around it: Redaktirovat (edit), Dobavit (add), Sokhranit (save),
  Spisok (list of), Upravlenie (management of), v sisteme (in the system).\<close>

definition ru_edit :: string where "ru_edit = [CHR 0xD0, CHR 0xA0, CHR 0xD0, CHR 0xB5, CHR 0xD0, CHR 0xB4, CHR 0xD0, CHR 0xB0, CHR 0xD0, CHR 0xBA, CHR 0xD1, CHR 0x82, CHR 0xD0, CHR 0xB8, CHR 0xD1, CHR 0x80, CHR 0xD0, CHR 0xBE, CHR 0xD0, CHR 0xB2, CHR 0xD0, CHR 0xB0, CHR 0xD1, CHR 0x82, CHR 0xD1, CHR 0x8C]"
definition ru_add :: string where "ru_add = [CHR 0xD0, CHR 0x94, CHR 0xD0, CHR 0xBE, CHR 0xD0, CHR 0xB1, CHR 0xD0, CHR 0xB0, CHR 0xD0, CHR 0xB2, CHR 0xD0, CHR 0xB8, CHR 0xD1, CHR 0x82, CHR 0xD1, CHR 0x8C]"
definition ru_save :: string where "ru_save = [CHR 0xD0, CHR 0xA1, CHR 0xD0, CHR 0xBE, CHR 0xD1, CHR 0x85, CHR 0xD1, CHR 0x80, CHR 0xD0, CHR 0xB0, CHR 0xD0, CHR 0xBD, CHR 0xD0, CHR 0xB8, CHR 0xD1, CHR 0x82, CHR 0xD1, CHR 0x8C]"
definition ru_list :: string where "ru_list = [CHR 0xD0, CHR 0xA1, CHR 0xD0, CHR 0xBF, CHR 0xD0, CHR 0xB8, CHR 0xD1, CHR 0x81, CHR 0xD0, CHR 0xBE, CHR 0xD0, CHR 0xBA]"
definition ru_manage :: string where "ru_manage = [CHR 0xD0, CHR 0xA3, CHR 0xD0, CHR 0xBF, CHR 0xD1, CHR 0x80, CHR 0xD0, CHR 0xB0, CHR 0xD0, CHR 0xB2, CHR 0xD0, CHR 0xBB, CHR 0xD0, CHR 0xB5, CHR 0xD0, CHR 0xBD, CHR 0xD0, CHR 0xB8, CHR 0xD0, CHR 0xB5]"
definition ru_in_system :: string where "ru_in_system = [CHR 0xD0, CHR 0xB2, CHR 0x20, CHR 0xD1, CHR 0x81, CHR 0xD0, CHR 0xB8, CHR 0xD1, CHR 0x81, CHR 0xD1, CHR 0x82, CHR 0xD0, CHR 0xB5, CHR 0xD0, CHR 0xBC, CHR 0xD0, CHR 0xB5]"

text \<open>\<open>String.prototype.toLowerCase\<close> on the UTF-8 bytes of ASCII and of the Cyrillic
  capitals U+0400--U+042F (two bytes \<open>D0 80\<close>--\<open>D0 AF\<close>), the letters the titles use;
  every other byte is copied. A continuation byte is never \<open>D0\<close> nor ASCII, so a
  character that is not a capital passes through unchanged.\<close>

definition lower_ascii :: "char \<Rightarrow> char" where
  "lower_ascii c = (if (65::nat) \<le> of_char c \<and> of_char c \<le> (90::nat) then char_of (of_char c + (32::nat)) else c)"

definition cyr_lower :: "char \<Rightarrow> string" where
  "cyr_lower b = (if of_char b < (0x90::nat) then [CHR 0xD1, char_of (of_char b + (0x10::nat))]
     else if of_char b < (0xA0::nat) then [CHR 0xD0, char_of (of_char b + (0x20::nat))]
     else [CHR 0xD1, char_of (of_char b - (0x20::nat))])"

fun js_toLowerCase :: "string \<Rightarrow> string" where
  "js_toLowerCase (a # b # s) = (if a = CHR 0xD0 \<and> (0x80::nat) \<le> of_char b \<and> of_char b < (0xB0::nat)
     then cyr_lower b @ js_toLowerCase s else lower_ascii a # js_toLowerCase (b # s))"
| "js_toLowerCase [a] = [lower_ascii a]"
| "js_toLowerCase [] = []"

text \<open>\<open>s.slice(0, -1)\<close>: the string without its last UTF-16 unit. For a character of the
  Basic Multilingual Plane that is its whole UTF-8 sequence: the trailing continuation
  bytes and their lead byte.\<close>

definition is_utf8_cont :: "char \<Rightarrow> bool" where
  "is_utf8_cont c \<longleftrightarrow> (0x80::nat) \<le> of_char c \<and> of_char c < (0xC0::nat)"

definition js_slice_drop_last :: "string \<Rightarrow> string" where
  "js_slice_drop_last s = rev (drop 1 (dropWhile is_utf8_cont (rev s)))"

text \<open>The dialog's title, \<open>{editingItem ? 'Edit' : 'Add'} {getSectionTitle().toLowerCase()
  .slice(0, -1)}\<close>, meant as the singular noun of the plural title; the submit button of
  \<open>FormContent\<close>, \<open>{editingItem ? 'Save' : 'Add'}\<close>; the card's title and description.\<close>

definition dialog_title :: "admin_section \<Rightarrow> ref_item option \<Rightarrow> string" where
  "dialog_title sec ed = (if ed = None then ru_add else ru_edit) @ '' '' @
     js_slice_drop_last (js_toLowerCase (getSectionTitle sec))"

definition form_submit_label :: "ref_item option \<Rightarrow> string" where
  "form_submit_label ed = (if ed = None then ru_add else ru_save)"

text \<open>What the panel renders: the heading, the dialog (open or not, its title, its submit
  button), the card's title and description, and the table.\<close>

record panel_view =
  pv_heading :: string
  pv_dialog_open :: bool
  pv_dialog_title :: string
  pv_submit_label :: string
  pv_list_title :: string
  pv_list_description :: string
  pv_table :: "(string \<times> table_cell list) list"

definition panel_render :: "admin_section \<Rightarrow> panel_state \<Rightarrow> ctx_state \<Rightarrow> panel_view" where
  "panel_render sec st c = \<lparr>pv_heading = getSectionTitle sec, pv_dialog_open = isDialogOpen st,
     pv_dialog_title = dialog_title sec (editingItem st), pv_submit_label = form_submit_label (editingItem st),
     pv_list_title = ru_list @ '' '' @ js_toLowerCase (getSectionTitle sec),
     pv_list_description = ru_manage @ '' '' @ js_toLowerCase (getSectionTitle sec) @ '' '' @ ru_in_system,
     pv_table = render_table sec c\<rparr>"

subsection \<open>Rows and buttons\<close>

lemma renderTableRow_fits:
  "item_section it = sec \<Longrightarrow> list_all2 cell_fits (renderTableHeaders sec) (renderTableRow sec c it)"
  by (cases it) (auto simp: renderTableHeaders_def split: prod.split)

lemma renderTableRow_last:
  "item_section it = sec \<Longrightarrow> last (renderTableRow sec c it) = CellActions it (item_id it)"
  by (cases it) (auto split: prod.split)

lemma render_table_nth:
  "n < length (getSectionData sec c) \<Longrightarrow>
   render_table sec c ! n = (item_id (getSectionData sec c ! n), renderTableRow sec c (getSectionData sec c ! n))"
  by (simp add: render_table_def)

text \<open>C31. Every row of the table has one cell per column header, each of the header's
  kind: texts under the text columns, the badge under Status, the buttons under Actions.\<close>

theorem table_rows_fit_headers: "table_well_formed sec c"
proof -
  have "list_all2 cell_fits (renderTableHeaders sec) (renderTableRow sec c it)"
    if "it \<in> set (getSectionData sec c)" for it
    using that by (intro renderTableRow_fits item_section_getSectionData)
  then show ?thesis by (auto simp: table_well_formed_def render_table_def list_all_iff)
qed

theorem table_rows_fit_headers_witness: "table_well_formed SecResources (initial_ctx None True)"
  by (rule table_rows_fit_headers)

text \<open>C32. The panel's events name a row by its position: the edit button of the
  \<open>n\<close>-th row opens the dialog on that row's item and its delete button deletes that
  item's id, exactly what the events \<open>OpenEdit n\<close> and \<open>Delete n\<close> do; the row's key is
  the same id.\<close>

theorem row_buttons_are_events:
  assumes "n < length (render_table sec c)" "\<not> isDialogOpen st"
  shows "\<exists>it i. render_table sec c ! n = (i, renderTableRow sec c it) \<and>
           last (renderTableRow sec c it) = CellActions it i \<and>
           panel_step sec (OpenEdit n) (st, c) = Some (openEditDialog sec it st, c) \<and>
           panel_step sec (Delete n) (st, c) = Some (st, handleDelete sec i c)"
proof -
  let ?it = "getSectionData sec c ! n"
  have n: "n < length (getSectionData sec c)" using assms(1) by (simp add: render_table_def)
  then have "item_section ?it = sec" by (intro item_section_getSectionData [of _ _ c]) simp
  with n assms(2) show ?thesis
    by (intro exI [of _ ?it] exI [of _ "item_id ?it"]) (simp add: render_table_nth renderTableRow_last)
qed

theorem row_buttons_are_events_witness:
  "\<exists>it i. render_table SecDepartments (initial_ctx None True) ! 0 = (i, renderTableRow SecDepartments (initial_ctx None True) it) \<and>
     last (renderTableRow SecDepartments (initial_ctx None True) it) = CellActions it i \<and>
     panel_step SecDepartments (OpenEdit 0) (init_panel, initial_ctx None True) =
       Some (openEditDialog SecDepartments it init_panel, initial_ctx None True) \<and>
     panel_step SecDepartments (Delete 0) (init_panel, initial_ctx None True) =
       Some (init_panel, handleDelete SecDepartments i (initial_ctx None True))"
proof -
  have "0 < length (render_table SecDepartments (initial_ctx None True))"
    by (simp add: render_table_def getSectionData_def initial_ctx_def mock_departments_def)
  moreover have "\<not> isDialogOpen init_panel" by (simp add: init_panel_def)
  ultimately show ?thesis by (rule row_buttons_are_events)
qed

end
