(* ===== verification/Spec2Isabelle.thy ===== *)
theory Spec2Isabelle
  imports Portal_Liveness Admin_Table
begin

text \<open>
  \<^bold>\<open>A verification development of the corporate portal.\<close>

  \<^emph>\<open>The program.\<close> \<open>src/src\<close> is a React single-page portal. The context
  \<open>context/AuthContext.tsx\<close> holds the signed-in user, the authentication flags and the
  five reference lists (ministries, departments, positions, addresses, resources) with
  their mock contents, and keeps the user in \<open>localStorage\<close> under \<open>portal_user\<close>.
  \<open>Portal.tsx\<close> chooses the screen from the context: a spinner while loading, the login
  form (\<open>components/auth/LoginForm.tsx\<close>), the first-login profile form
  (\<open>components/profile/FirstLoginForm.tsx\<close>), or the main layout with the header, the
  role-filtered menu (\<open>components/layout/Header.tsx\<close>, \<open>Navigation.tsx\<close>) and the content
  chosen by its own \<open>currentView\<close> state: the dashboard (\<open>components/dashboard/
  Dashboard.tsx\<close>) or one of the admin panels (\<open>components/admin/AdminPanel.tsx\<close>), which
  call the context's add, update and delete operations.

  \<^emph>\<open>The theories.\<close>
  \<^item> \<open>Portal_Prelude\<close>: the JavaScript builtins the code relies on (\<open>\s\<close>, \<open>\d\<close>,
    \<open>trim\<close>, \<open>toString\<close> and \<open>parseInt\<close> of numbers with their round trip, \<open>map\<close>/\<open>filter\<close>
    updates by id, the object spread of one optional field) and the list lemmas shared by
    all components.
  \<^item> \<open>Auth_Types\<close>: the interfaces of \<open>types/auth.ts\<close> as records, \<open>Partial<T>\<close> as
    records of options with the spread as \<open>merge_*\<close>. \<open>Mock_Data\<close>: the mock lists of
    \<open>AuthContext.tsx\<close> (Cyrillic text as UTF-8 bytes).
  \<^item> \<open>Auth_Context\<close>: the provider's state (\<open>ctx_state\<close>: the React state plus the stored
    record and whether storage accepts writes), the mount effect \<open>restore_session\<close>,
    \<open>login\<close> split at its \<open>await\<close> into \<open>login_begin\<close> and \<open>login_resume\<close>, \<open>logout\<close>,
    \<open>updateUserProfile\<close>, \<open>completeFirstLogin\<close>. Exceptions (\<open>JSON.parse\<close>, a full
    storage) are the left values of \<open>'a outcome\<close>; a handler's stale closure over \<open>user\<close>
    is the explicit argument \<open>cu\<close>. Lemmas: login's outcome for known and unknown
    accounts, restoring and its error, the session invariant \<open>session_consistent\<close>.
  \<^item> \<open>Reference_Data\<close>: the fifteen list operations, collected as the datatype \<open>ref_op\<close>
    with the step \<open>apply_ref_op\<close>; identifiers stay unique under fresh timestamps, lookups
    after update and delete.
  \<^item> \<open>Regex\<close> and \<open>Profile_Validation\<close>: the two regular expressions of the profile form as
    terms of a small regex language with a matcher proved against their intended
    languages; \<open>validateForm\<close> as the fold of its thirteen checks into an ordered error
    object; \<open>handlePhoneFormat\<close>. \<open>First_Login\<close>: the form's state and handlers and its
    submit, which calls two context operations in sequence.
  \<^item> \<open>Login_Form\<close>, \<open>Navigation_Menu\<close>: the login form's asynchronous submit in its two
    halves around the \<open>await\<close> (\<open>login_submit_begin\<close>, \<open>login_submit_resume\<close>) and its
    three messages, and what the form renders (\<open>login_render\<close>: disabled controls,
    alert, button label); the menu by role and its rendered buttons (\<open>nav_render\<close>:
    highlight, Admin badge).
  \<^item> \<open>Admin_Panel\<close>: the panel's dialog, its form as a dynamic object, the translation of
    a submit into a \<open>ref_op\<close>, the events \<open>panel_event\<close> with their guards, the invariant
    that an edit's form keeps its item's id, and the typing of the form object against the
    section's interface (\<open>form_typed\<close>, \<open>field_type\<close>: the property types of
    \<open>types/auth.ts\<close>). \<open>Admin_Table\<close>: the panel's table, its column headers and the
    cells of each row (\<open>renderTableHeaders\<close>, \<open>renderTableRow\<close>, \<open>render_table\<close>),
    the action cell with the arguments its buttons pass to their handlers; rows fit their
    headers, and a row's buttons are the panel events on its index; the rendered texts
    (\<open>panel_render\<close>: section title, dialog title and submit label, the card's title)
    with \<open>toLowerCase\<close> and \<open>slice\<close> on UTF-8 bytes.
  \<^item> \<open>Dashboard\<close>: active resources sorted with the code's comparator
    \<open>a.order - b.order\<close> (\<open>js_sort\<close>, an insertion sort driven by the comparator, shown
    equal to the stable sort by order; no fixed order when a \<open>NaN\<close> order makes the
    comparator inconsistent), resource clicks, the
    rendered dashboard (\<open>dashboard_render\<close>: greeting, affiliation, cards), the header.
  \<^item> \<open>Portal_App\<close>: the whole application as a deterministic step function
    \<open>app_step\<close> on \<open>app_state\<close> over the events of every screen, each guarded by the
    screen that handles it; components' local state is created on mount (\<open>settle\<close>);
    \<open>reachable\<close> is the inductive closure from a fresh start on any stored record. The
    invariant \<open>app_inv\<close> is proved by rule induction; the specification's gate
    (unauthenticated, waiting for a profile, active) is refined by the application: each
    event performs one operation of the specification (\<open>gate_op_of\<close>: restore, sign in,
    submit the profile, sign out, or none) and every step makes exactly that operation's
    transition (\<open>gate_trans\<close>). The
    login is two events, \<open>LoginSubmit\<close> and \<open>LoginResume\<close>, with the suspended call in
    \<open>pending_login\<close>; in between the spinner replaces the login form, so the form that
    resumes is unmounted and its message is lost. An open admin dialog is modal
    (\<open>modal_open\<close>): menu and header are not clickable under it. Every reachable panel
    form is well typed.
  \<^item> \<open>Portal_Liveness\<close>: from every reachable state with writable storage an explicit
    event sequence (sign in as the administrator, fill in and submit the first-login form)
    reaches the main screen; with unwritable storage a pending session is stuck.
  \<^item> This theory: properties that need several components at once: an unspecified
    dashboard order reached through the admin panel, one login in flight at a time (the
    spinner, not the form, prevents a second one), a dashboard whose user names a
    deleted ministry, and the header's dropdown (\<open>header_item\<close>), whose logout item
    leads from every uncovered main screen to the login form.

  \<^emph>\<open>Bounds and evaluation.\<close> No loop of the program is unbounded: every definition is
  total and structural, except the regex matcher, whose termination is proved by a
  lexicographic measure on the term and the input. Scenarios are evaluated with
  \<open>code_simp\<close> on concrete event sequences; \<open>Date.now()\<close> is the event's argument, so
  statements about ids name the freshness of that timestamp as a hypothesis. The async
  \<open>login\<close> always resumes in the model (the event \<open>LoginResume\<close>); liveness is stated as
  the existence of a finite event sequence, the user's choice, not as fairness of a
  scheduler. There is no loop in the code that could fail to terminate, so no fuel is
  needed.

  \<^emph>\<open>Not modelled.\<close> \<open>pages/Index.tsx\<close> (a static page that \<open>Portal\<close> does not use), the
  UI library (dialogs, selects, icons) beyond the facts stated above, the rendering of
  markup and styles (fixed labels and placeholders; the admin panel's texts are
  modelled), numbers beyond \<open>2^53\<close> (an order typed with more digits is an exact
  integer here, a rounded or infinite double in JavaScript), \<open>toLowerCase\<close> beyond ASCII
  and the Cyrillic capitals U+0400--U+042F (the only letters the titles contain), the
  1-second delay of \<open>login\<close> beyond the split at the \<open>await\<close>,
  the static lists of recent activity, quick actions and notices of the dashboard (fixed
  markup; the quick-action buttons have no handler), the login form's local \<open>domain\<close> and \<open>password\<close> state (the
  typed values are the arguments of the submit event), \<open>useAuth\<close>'s error outside the
  provider (the application always renders inside it), JavaScript
  values of other types in \<open>localStorage\<close> (a stored text is a user record, \<open>null\<close>,
  empty or malformed), the Unicode members of \<open>\s\<close>, and \<open>charAt\<close> on characters outside
  the Basic Multilingual Plane.
\<close>

subsection \<open>The header's menu\<close>

text \<open>The items of the header's dropdown (\<open>Header.tsx\<close>): Profile and Settings have no
  \<open>onClick\<close>, so a click closes the menu and does nothing else; Logout calls the
  context's \<open>logout\<close>, the application's \<open>Logout\<close> event.\<close>

datatype header_item = HeaderProfile | HeaderSettings | HeaderLogout

definition header_item_event :: "header_item \<Rightarrow> app_event option" where
  "header_item_event i = (case i of HeaderLogout \<Rightarrow> Some Logout | _ \<Rightarrow> None)"

subsection \<open>A scenario across the admin panel and the dashboard\<close>

text \<open>The administrator opens the resources panel, edits the first resource, clears its
  order, saves, and goes to the dashboard.\<close>

definition nan_trace :: "app_event list" where
  "nan_trace = [Boot, LoginSubmit ''admin@gov27.ru'' ''password'', LoginResume, Navigate ''resources'',
     Panel (OpenEdit 0), Panel (Input ''order'' ''''), Panel (Submit 0), Navigate ''dashboard'']"

text \<open>The administrator signs in, deletes the first ministry (their own) in the
  ministries panel, and goes back to the dashboard.\<close>

definition orphan_trace :: "app_event list" where
  "orphan_trace = [Boot, LoginSubmit ''admin@gov27.ru'' ''password'', LoginResume, Navigate ''ministries'',
     Panel (Delete 0), Navigate ''dashboard'']"

text \<open>The state just after the login form was submitted, while \<open>login\<close> waits.\<close>

definition login_in_flight :: app_state where
  "login_in_flight = the (app_run [Boot, LoginSubmit ''admin@gov27.ru'' ''password''] (app_init None True))"

text \<open>C27. The order of the dashboard's resources can be left to the JavaScript engine:
  through the admin panel a reachable state shows the dashboard while an active resource
  has order \<open>NaN\<close> among others of distinct numeric orders.\<close>

theorem dashboard_order_unspecified_reachable:
  "\<exists>a. reachable a \<and> screen_of a = MainScreen DashboardView \<and> activeResources (resources (ctx a)) = None"
proof -
  obtain a where run: "app_run nan_trace (app_init None True) = Some a"
    and props: "screen_of a = MainScreen DashboardView \<and> activeResources (resources (ctx a)) = None"
  proof -
    have "case app_run nan_trace (app_init None True) of
        Some a \<Rightarrow> screen_of a = MainScreen DashboardView \<and> activeResources (resources (ctx a)) = None
      | None \<Rightarrow> False" by code_simp
    then show ?thesis using that by (auto split: option.splits)
  qed
  have "reachable a" using app_run_reachable [OF reachable.init run] .
  with props show ?thesis by blast
qed

subsection \<open>One login at a time\<close>

text \<open>C33. There is at most one login in flight, as the specification requires: while
  \<open>login\<close> waits, the screen is the spinner and a second submission cannot happen. It is
  the spinner that prevents it, not the form's own guard: the login form is never on
  screen with its inputs and button disabled, so its \<open>disabled={isLoading}\<close> and
  "Signing in..." branch never renders.\<close>

theorem login_single_in_flight:
  assumes "reachable a"
  shows "(pending_login a \<noteq> None \<longrightarrow> screen_of a = LoadingScreen \<and> app_step (LoginSubmit d pw) a = None) \<and>
         (screen_of a = LoginScreen \<longrightarrow>
            login_render (isLoading (ctx a)) (login_error a) = login_render False (login_error a))"
proof -
  have inv: "app_inv a" using assms by (rule reachable_app_inv)
  have "screen_of a = LoadingScreen" if "pending_login a \<noteq> None"
    using inv that by (simp add: app_inv_def screen_of_def portal_render_def)
  moreover have "\<not> isLoading (ctx a)" if "screen_of a = LoginScreen"
    using that by (auto simp: screen_of_def portal_render_def split: if_splits)
  ultimately show ?thesis by (auto simp: app_step_def)
qed

lemma login_in_flight_facts:
  "app_run [Boot, LoginSubmit ''admin@gov27.ru'' ''password''] (app_init None True) = Some login_in_flight \<and>
   pending_login login_in_flight = Some (''admin@gov27.ru'', ''password'')"
  unfolding login_in_flight_def by code_simp

theorem login_single_in_flight_witness:
  "screen_of login_in_flight = LoadingScreen \<and>
   app_step (LoginSubmit ''ivanov@gov27.ru'' ''password'') login_in_flight = None"
proof -
  have r: "reachable login_in_flight" using app_run_reachable [OF reachable.init] login_in_flight_facts by blast
  have "pending_login login_in_flight \<noteq> None" using login_in_flight_facts by simp
  with login_single_in_flight [OF r, of "''ivanov@gov27.ru''" "''password''"] show ?thesis by blast
qed

subsection \<open>A deleted ministry on the dashboard\<close>

text \<open>C34. Deleting a ministry in the admin panel leaves the users assigned to it pointing at
  a ministry that no longer exists: a reachable dashboard greets a user whose ministry id
  names no ministry, and both the dashboard and the header show no ministry at all.\<close>

theorem deleted_ministry_blank_dashboard:
  "\<exists>a u v h. reachable a \<and> screen_of a = MainScreen DashboardView \<and> user (ctx a) = Some u \<and>
     ministry u \<noteq> [] \<and> ministry u \<notin> set (map min_id (ministries (ctx a))) \<and>
     dashboard_render (ctx a) = Some v \<and> dv_ministry v = [] \<and>
     header_of (ctx a) = Some h \<and> hv_ministry h = None"
proof -
  obtain a where run: "app_run orphan_trace (app_init None True) = Some a"
    and props: "\<exists>u v h. screen_of a = MainScreen DashboardView \<and> user (ctx a) = Some u \<and>
      ministry u \<noteq> [] \<and> ministry u \<notin> set (map min_id (ministries (ctx a))) \<and>
      dashboard_render (ctx a) = Some v \<and> dv_ministry v = [] \<and>
      header_of (ctx a) = Some h \<and> hv_ministry h = None"
  proof -
    have "case app_run orphan_trace (app_init None True) of
        Some a \<Rightarrow> (case (user (ctx a), dashboard_render (ctx a), header_of (ctx a)) of
          (Some u, Some v, Some h) \<Rightarrow> screen_of a = MainScreen DashboardView \<and>
             ministry u \<noteq> [] \<and> ministry u \<notin> set (map min_id (ministries (ctx a))) \<and>
             dv_ministry v = [] \<and> hv_ministry h = None
        | _ \<Rightarrow> False)
      | None \<Rightarrow> False" by code_simp
    then show ?thesis using that by (auto split: option.splits)
  qed
  have "reachable a" using app_run_reachable [OF reachable.init run] .
  with props show ?thesis by blast
qed

subsection \<open>Signing out from the header\<close>

text \<open>The header's logout item works from every main screen of a running application that
  no dialog covers: it leads to the login form. It is the only item of the menu with an
  effect.\<close>

lemma header_logout_to_login:
  assumes "screen_of a = MainScreen x" "\<not> modal_open a" "crashed a = None"
  shows "header_item_event HeaderLogout = Some Logout \<and>
         (\<exists>b. app_step Logout a = Some b \<and> screen_of b = LoginScreen)"
proof -
  have "\<not> isLoading (ctx a)" using assms(1)
    by (auto simp: screen_of_def portal_render_def split: if_splits)
  moreover have "screen_of (a\<lparr>ctx := logout (ctx a)\<rparr>) = LoginScreen" if "\<not> isLoading (ctx a)"
    using that by (simp add: screen_of_def portal_render_def logout_def)
  ultimately have "screen_of (settle a (a\<lparr>ctx := logout (ctx a)\<rparr>)) = LoginScreen"
    by (simp add: settle_def Let_def screen_of_def panel_section_def)
  with assms show ?thesis by (auto simp: header_item_event_def app_step_def)
qed

lemma header_other_items_inert: "header_item_event i \<noteq> None \<longleftrightarrow> i = HeaderLogout"
  by (cases i) (simp_all add: header_item_event_def)

end
